theory Spec2Isabelle
  imports Complex_Main
begin

section \<open>The host scene and the Python runtime\<close>

text \<open>
  The boss-platform scripts drive a host (Blender's \<^verbatim>\<open>bpy\<close>) through calls that create
  primitives, set attributes of the created object, apply modifiers and remove objects.
  The host is modelled as explicit state: a list of objects in creation order, the active
  object, and the state of Python's process-wide \<^verbatim>\<open>random\<close> generator.  Python floats are
  modelled as real numbers, so every arithmetic statement below is about the exact value
  of the formula the code evaluates.  Host calls are taken to succeed; the scripts contain
  no \<^verbatim>\<open>raise\<close> statement and no parameter validation, so the only failures are those
  the Python runtime raises itself: a division by zero, a list subscript out of range, a
  dictionary key that is missing.
\<close>

type_synonym vec2 = "real \<times> real"
type_synonym vec3 = "real \<times> real \<times> real"

datatype error = ParameterError | ZeroDivisionError | IndexError | KeyError

text \<open>The keyword arguments of the \<^verbatim>\<open>bpy.ops.mesh.primitive_*_add\<close> calls; an argument the
  call leaves to the host's default is \<open>None\<close>.\<close>

datatype shape =
    Cylinder "nat option" real real
  | Cone nat real real real
  | UVSphere nat nat real
  | IcoSphere nat real
  | Torus real real nat nat

text \<open>Mesh data of an object: the primitive requested, and what was done to it since.
  \<open>Verts g vs\<close> is \<open>g\<close> with its vertex coordinates overwritten by \<open>vs\<close> (\<^verbatim>\<open>bm.to_mesh\<close>),
  \<open>Difference a b loc rot\<close> is the applied boolean modifier with operand mesh \<open>b\<close> placed at
  \<open>loc\<close>, \<open>rot\<close>, \<open>Applied loc rot s g\<close> is \<open>g\<close> with the object transform \<open>loc\<close>, \<open>rot\<close>, \<open>s\<close>
  baked into its vertices (\<^verbatim>\<open>transform_apply\<close>), \<open>PlainAxes\<close> is the data-less empty, and
  \<open>Light radius color energy shadow_soft_size\<close> is the data of a point light, an attribute
  the script has not set being \<open>None\<close>.\<close>

datatype geom =
    Primitive shape
  | Verts geom "vec3 list"
  | Beveled real nat geom
  | Difference geom geom vec3 vec3
  | Applied vec3 vec3 vec3 geom
  | PlainAxes
  | Light real "vec3 option" "real option" "real option"

text \<open>Object names are kept as the format string's parts: \<^verbatim>\<open>f"Pillar_{index}"\<close> is
  \<open>Idx ''Pillar_'' index\<close>, \<^verbatim>\<open>f"Spike_{edge}_{i}"\<close> is \<open>Idx2 ''Spike_'' edge i\<close> and
  \<^verbatim>\<open>f"Ritual_Ring_{radius:.1f}"\<close> is \<open>Fix1 ''Ritual_Ring_'' radius\<close>.\<close>

datatype oname = HostDefault | Lit string | Idx string nat | Idx2 string nat nat | Fix1 string real

datatype modifier = BEVEL real nat | BOOLEAN_DIFFERENCE nat

record obj =
  oid :: nat
  oname :: oname
  geom :: geom
  location :: vec3
  rotation_euler :: vec3
  scale :: vec3
  materials :: "string list"
  modifiers :: "(string \<times> modifier) list"
  smooth :: bool
  parent :: "nat option"

text \<open>The scene: the objects in creation order, the active object
  (\<^verbatim>\<open>view_layer.objects.active\<close>), the handles of the selected objects, and the generator.\<close>

record world =
  objects :: "obj list"
  active :: "nat option"
  selected :: "nat list"
  rng :: "nat \<Rightarrow> real"
  rng_pos :: nat

text \<open>A Python object reference is a handle that no other live object has.\<close>

definition fresh_id :: "obj list \<Rightarrow> nat" where
  "fresh_id os = foldr (\<lambda>ob n. max (Suc (oid ob)) n) os 0"

definition get_obj :: "world \<Rightarrow> nat \<Rightarrow> obj option" where
  "get_obj w h = find (\<lambda>ob. oid ob = h) (objects w)"

definition upd_obj :: "nat \<Rightarrow> (obj \<Rightarrow> obj) \<Rightarrow> world \<Rightarrow> world" where
  "upd_obj h f w = w\<lparr>objects := map (\<lambda>ob. if oid ob = h then f ob else ob) (objects w)\<rparr>"

text \<open>\<^verbatim>\<open>bpy.ops.mesh.primitive_*_add(..., location=loc, rotation=rot)\<close> followed by
  \<^verbatim>\<open>bpy.context.object\<close>: the new object is appended to the scene, becomes the active
  object and the only selected one, and its handle is returned.\<close>

definition new_obj :: "nat \<Rightarrow> geom \<Rightarrow> vec3 \<Rightarrow> vec3 \<Rightarrow> obj" where
  "new_obj h g loc rot =
     \<lparr>oid = h, oname = HostDefault, geom = g, location = loc, rotation_euler = rot,
      scale = (1, 1, 1), materials = [], modifiers = [], smooth = False, parent = None\<rparr>"

definition primitive_add :: "geom \<Rightarrow> vec3 \<Rightarrow> vec3 \<Rightarrow> world \<Rightarrow> nat \<times> world" where
  "primitive_add g loc rot w =
     (let h = fresh_id (objects w);
          ob = new_obj h g loc rot
      in (h, w\<lparr>objects := objects w @ [ob], active := Some h, selected := [h]\<rparr>))"

definition set_name :: "nat \<Rightarrow> oname \<Rightarrow> world \<Rightarrow> world" where
  "set_name h n = upd_obj h (\<lambda>ob. ob\<lparr>oname := n\<rparr>)"

definition set_rotation_x :: "nat \<Rightarrow> real \<Rightarrow> world \<Rightarrow> world" where
  "set_rotation_x h a =
     upd_obj h (\<lambda>ob. ob\<lparr>rotation_euler := (case rotation_euler ob of (rx, ry, rz) \<Rightarrow> (a, ry, rz))\<rparr>)"

definition set_rotation_y :: "nat \<Rightarrow> real \<Rightarrow> world \<Rightarrow> world" where
  "set_rotation_y h a =
     upd_obj h (\<lambda>ob. ob\<lparr>rotation_euler := (case rotation_euler ob of (rx, ry, rz) \<Rightarrow> (rx, a, rz))\<rparr>)"

definition set_rotation_z :: "nat \<Rightarrow> real \<Rightarrow> world \<Rightarrow> world" where
  "set_rotation_z h a =
     upd_obj h (\<lambda>ob. ob\<lparr>rotation_euler := (case rotation_euler ob of (rx, ry, rz) \<Rightarrow> (rx, ry, a))\<rparr>)"

definition set_scale :: "nat \<Rightarrow> vec3 \<Rightarrow> world \<Rightarrow> world" where
  "set_scale h s = upd_obj h (\<lambda>ob. ob\<lparr>scale := s\<rparr>)"

definition materials_append :: "nat \<Rightarrow> string \<Rightarrow> world \<Rightarrow> world" where
  "materials_append h m = upd_obj h (\<lambda>ob. ob\<lparr>materials := materials ob @ [m]\<rparr>)"

definition modifiers_new :: "nat \<Rightarrow> string \<Rightarrow> modifier \<Rightarrow> world \<Rightarrow> world" where
  "modifiers_new h nm m = upd_obj h (\<lambda>ob. ob\<lparr>modifiers := modifiers ob @ [(nm, m)]\<rparr>)"

definition set_active :: "nat \<Rightarrow> world \<Rightarrow> world" where
  "set_active h w = w\<lparr>active := Some h\<rparr>"

fun apply_modifier :: "world \<Rightarrow> modifier \<Rightarrow> geom \<Rightarrow> geom" where
  "apply_modifier w (BEVEL width segments) g = Beveled width segments g"
| "apply_modifier w (BOOLEAN_DIFFERENCE h) g =
     (case get_obj w h of
        None \<Rightarrow> g
      | Some operand \<Rightarrow> Difference g (geom operand) (location operand) (rotation_euler operand))"

text \<open>\<^verbatim>\<open>bpy.ops.object.modifier_apply(modifier=nm)\<close> works on the active object: the named
  modifier is evaluated into the mesh data and leaves the modifier stack.  Every call site
  has just created the modifier it names on the active object.\<close>

definition modifier_apply :: "string \<Rightarrow> world \<Rightarrow> world" where
  "modifier_apply nm w =
     (case active w of
        None \<Rightarrow> w
      | Some a \<Rightarrow>
          upd_obj a (\<lambda>ob. case map_of (modifiers ob) nm of
                             None \<Rightarrow> ob
                           | Some m \<Rightarrow> ob\<lparr>geom := apply_modifier w m (geom ob),
                                          modifiers := filter (\<lambda>p. fst p \<noteq> nm) (modifiers ob)\<rparr>) w)"

text \<open>\<^verbatim>\<open>bpy.ops.object.transform_apply(location, rotation, scale)\<close> works on the selected
  objects: each transform whose flag is set is baked into the mesh data and reset on the
  object.  All three flags default to \<^verbatim>\<open>True\<close>, so the scripts' call
  \<^verbatim>\<open>transform_apply(scale=True)\<close> is \<open>transform_apply True True True\<close>: it bakes the location
  and the rotation too and leaves the object at the origin.\<close>

definition bake :: "bool \<Rightarrow> bool \<Rightarrow> bool \<Rightarrow> obj \<Rightarrow> obj" where
  "bake l r s ob =
     ob\<lparr>geom := Applied (if l then location ob else (0, 0, 0))
                       (if r then rotation_euler ob else (0, 0, 0))
                       (if s then scale ob else (1, 1, 1)) (geom ob),
        location := (if l then (0, 0, 0) else location ob),
        rotation_euler := (if r then (0, 0, 0) else rotation_euler ob),
        scale := (if s then (1, 1, 1) else scale ob)\<rparr>"

definition transform_apply :: "bool \<Rightarrow> bool \<Rightarrow> bool \<Rightarrow> world \<Rightarrow> world" where
  "transform_apply l r s w = fold (\<lambda>h. upd_obj h (bake l r s)) (selected w) w"

text \<open>\<^verbatim>\<open>bpy.ops.object.shade_smooth()\<close> works on the selected objects, not on the active
  one.\<close>

definition shade_smooth :: "world \<Rightarrow> world" where
  "shade_smooth w = fold (\<lambda>h. upd_obj h (\<lambda>ob. ob\<lparr>smooth := True\<rparr>)) (selected w) w"

text \<open>\<^verbatim>\<open>bpy.data.objects.remove(ob, do_unlink=True)\<close>.\<close>

definition objects_remove :: "nat \<Rightarrow> world \<Rightarrow> world" where
  "objects_remove h w =
     w\<lparr>objects := filter (\<lambda>ob. oid ob \<noteq> h) (objects w),
       active := (if active w = Some h then None else active w),
       selected := filter (\<lambda>h'. h' \<noteq> h) (selected w)\<rparr>"

text \<open>\<^verbatim>\<open>cleanup()\<close>: select every object of the scene and delete the selection (the loop that
  follows frees data blocks without users, which are not objects).\<close>

definition cleanup :: "world \<Rightarrow> world" where
  "cleanup w = w\<lparr>objects := [], active := None, selected := []\<rparr>"

text \<open>Python's \<^verbatim>\<open>random\<close> module.  The generator is a parameter: \<open>mt n\<close> is the sequence of
  values in \<open>[0, 1)\<close> that \<^verbatim>\<open>random.random()\<close> returns after \<^verbatim>\<open>random.seed(n)\<close>;
  \<^verbatim>\<open>random.uniform(a, b)\<close> is \<^verbatim>\<open>a + (b - a) * random()\<close>.\<close>

definition random_seed :: "(int \<Rightarrow> nat \<Rightarrow> real) \<Rightarrow> int \<Rightarrow> world \<Rightarrow> world" where
  "random_seed mt n w = w\<lparr>rng := mt n, rng_pos := 0\<rparr>"

definition random_random :: "world \<Rightarrow> real \<times> world" where
  "random_random w = (rng w (rng_pos w), w\<lparr>rng_pos := Suc (rng_pos w)\<rparr>)"

definition random_uniform :: "real \<Rightarrow> real \<Rightarrow> world \<Rightarrow> real \<times> world" where
  "random_uniform a b w = (let (u, w') = random_random w in (a + (b - a) * u, w'))"

text \<open>\<^verbatim>\<open>bmesh.from_mesh\<close> reads the vertex buffer the host holds for the object's mesh data;
  what the host generates for a geometry is the parameter \<open>host_verts\<close>.  \<^verbatim>\<open>bm.to_mesh\<close>
  writes the buffer back.\<close>

definition from_mesh :: "(geom \<Rightarrow> vec3 list) \<Rightarrow> world \<Rightarrow> nat \<Rightarrow> vec3 list" where
  "from_mesh host_verts w h = (case get_obj w h of None \<Rightarrow> [] | Some ob \<Rightarrow> host_verts (geom ob))"

definition to_mesh :: "nat \<Rightarrow> vec3 list \<Rightarrow> world \<Rightarrow> world" where
  "to_mesh h vs = upd_obj h (\<lambda>ob. ob\<lparr>geom := Verts (geom ob) vs\<rparr>)"

text \<open>A \<^verbatim>\<open>for\<close> loop whose body may raise.\<close>

fun for_each :: "('i \<Rightarrow> 's \<Rightarrow> error + 's) \<Rightarrow> 'i list \<Rightarrow> 's \<Rightarrow> error + 's" where
  "for_each body [] s = Inr s"
| "for_each body (i # is) s =
     (case body i s of Inl e \<Rightarrow> Inl e | Inr s' \<Rightarrow> for_each body is s')"

text \<open>\<^verbatim>\<open>math.atan2(y, x)\<close> and \<^verbatim>\<open>math.dist\<close> of the C library, on reals.\<close>

definition atan2 :: "real \<Rightarrow> real \<Rightarrow> real" where
  "atan2 y x =
     (if 0 < x then arctan (y / x)
      else if x < 0 then (if 0 \<le> y then arctan (y / x) + pi else arctan (y / x) - pi)
      else if 0 < y then pi / 2
      else if y < 0 then - (pi / 2)
      else 0)"

definition dist2 :: "vec2 \<Rightarrow> vec2 \<Rightarrow> real" where
  "dist2 p q = (case (p, q) of ((px, py), (qx, qy)) \<Rightarrow> sqrt ((px - qx)\<^sup>2 + (py - qy)\<^sup>2))"

definition dist3 :: "vec3 \<Rightarrow> vec3 \<Rightarrow> real" where
  "dist3 p q =
     (case (p, q) of ((px, py, pz), (qx, qy, qz)) \<Rightarrow> sqrt ((px - qx)\<^sup>2 + (py - qy)\<^sup>2 + (pz - qz)\<^sup>2))"

section \<open>Boss platform V5 (\<^verbatim>\<open>boss_platform_v5.py\<close>)\<close>

definition NUM_SIDES :: nat where "NUM_SIDES = 6"
definition PLATFORM_RADIUS :: real where "PLATFORM_RADIUS = 7.0"
definition PLATFORM_HEIGHT :: real where "PLATFORM_HEIGHT = 0.5"
definition PILLAR_HEIGHT :: real where "PILLAR_HEIGHT = 3.0"
definition PILLAR_RADIUS :: real where "PILLAR_RADIUS = 0.35"

definition create_floor :: "world \<Rightarrow> nat \<times> world" where
  "create_floor w0 =
     (let (ob, w1) = primitive_add (Primitive (Cylinder (Some 6) PLATFORM_RADIUS PLATFORM_HEIGHT))
                       (0, 0, - PLATFORM_HEIGHT / 2) (0, 0, 0) w0;
          w2 = set_name ob (Lit ''Floor'') w1;
          w3 = set_rotation_z ob (pi / 6) w2;
          w4 = modifiers_new ob ''Bevel'' (BEVEL 0.08 2) w3;
          w5 = modifier_apply ''Bevel'' w4;
          w6 = materials_append ob ''floor'' w5
      in (ob, w6))"

definition create_ritual_ring :: "real \<Rightarrow> real \<Rightarrow> world \<Rightarrow> nat \<times> world" where
  "create_ritual_ring radius thickness w0 =
     (let (ob, w1) = primitive_add (Primitive (Torus radius thickness 48 12)) (0, 0, 0.02) (0, 0, 0) w0;
          w2 = set_name ob (Fix1 ''Ritual_Ring_'' radius) w1;
          w3 = materials_append ob ''ritual'' w2
      in (ob, w3))"

text \<open>The taper loop of \<^verbatim>\<open>create_pillar\<close> (lines 153-158), one vertex.\<close>

definition taper_vert :: "vec3 \<Rightarrow> vec3" where
  "taper_vert v =
     (case v of (x, y, z) \<Rightarrow>
        if z > 0 then
          (let t = z / PILLAR_HEIGHT;
               scale = 1.0 - 0.15 * t
           in (x * scale, y * scale, z))
        else (x, y, z))"

definition create_pillar :: "(geom \<Rightarrow> vec3 list) \<Rightarrow> real \<Rightarrow> real \<Rightarrow> nat \<Rightarrow> world \<Rightarrow> nat list \<times> world" where
  "create_pillar host_verts x y index w0 =
     (let parts = [];
          (shaft, w1) = primitive_add (Primitive (Cylinder (Some 12) PILLAR_RADIUS PILLAR_HEIGHT))
                          (x, y, PILLAR_HEIGHT / 2) (0, 0, 0) w0;
          w2 = set_name shaft (Idx ''Pillar_'' index) w1;
          bm = from_mesh host_verts w2 shaft;
          bm = map taper_vert bm;
          w3 = to_mesh shaft bm w2;
          w4 = materials_append shaft ''obsidian'' w3;
          parts = parts @ [shaft];
          (base, w5) = primitive_add (Primitive (Cylinder (Some 12) (PILLAR_RADIUS * 1.5) 0.2))
                         (x, y, 0.1) (0, 0, 0) w4;
          w6 = set_name base (Idx ''Pillar_Base_'' index) w5;
          w7 = materials_append base ''obsidian'' w6;
          parts = parts @ [base];
          (cap, w8) = primitive_add (Primitive (Cylinder (Some 12) (PILLAR_RADIUS * 1.2) 0.12))
                        (x, y, PILLAR_HEIGHT - 0.06) (0, 0, 0) w7;
          w9 = set_name cap (Idx ''Pillar_Cap_'' index) w8;
          w10 = materials_append cap ''obsidian'' w9;
          parts = parts @ [cap];
          (brazier, w11) = primitive_add (Primitive (Cone 12 0.3 0.2 0.2))
                             (x, y, PILLAR_HEIGHT + 0.1) (0, 0, 0) w10;
          w12 = set_name brazier (Idx ''Brazier_'' index) w11;
          w13 = materials_append brazier ''metal'' w12;
          parts = parts @ [brazier];
          (fire, w14) = primitive_add (Primitive (UVSphere 12 8 0.15))
                          (x, y, PILLAR_HEIGHT + 0.25) (0, 0, 0) w13;
          w15 = set_name fire (Idx ''Fire_'' index) w14;
          w16 = materials_append fire ''fire'' w15;
          parts = parts @ [fire];
          (crystal, w17) = primitive_add (Primitive (IcoSphere 2 0.12))
                             (x, y, PILLAR_HEIGHT + 0.55) (0, 0, 0) w16;
          w18 = set_name crystal (Idx ''Crystal_'' index) w17;
          w19 = set_scale crystal (0.7, 0.7, 1.4) w18;
          w20 = transform_apply True True True w19;
          w21 = materials_append crystal ''crystal'' w20;
          parts = parts @ [crystal]
      in (parts, w21))"

definition create_altar :: "world \<Rightarrow> nat list \<times> world" where
  "create_altar w0 =
     (let parts = [];
          (base, w1) = primitive_add (Primitive (Cylinder (Some 6) 1.2 0.25)) (0, 0, 0.125) (0, 0, 0) w0;
          w2 = set_name base (Lit ''Altar_Base'') w1;
          w3 = set_rotation_z base (pi / 6) w2;
          w4 = materials_append base ''obsidian'' w3;
          parts = parts @ [base];
          (mid, w5) = primitive_add (Primitive (Cylinder (Some 6) 0.8 0.2)) (0, 0, 0.35) (0, 0, 0) w4;
          w6 = set_name mid (Lit ''Altar_Mid'') w5;
          w7 = set_rotation_z mid (pi / 6) w6;
          w8 = materials_append mid ''obsidian'' w7;
          parts = parts @ [mid];
          (top, w9) = primitive_add (Primitive (Cylinder (Some 6) 0.5 0.1)) (0, 0, 0.5) (0, 0, 0) w8;
          w10 = set_name top (Lit ''Altar_Top'') w9;
          w11 = set_rotation_z top (pi / 6) w10;
          w12 = materials_append top ''altar'' w11;
          parts = parts @ [top];
          (fire_pillar, w13) = primitive_add (Primitive (Cylinder (Some 16) 0.12 1.2)) (0, 0, 1.15) (0, 0, 0) w12;
          w14 = set_name fire_pillar (Lit ''Fire_Pillar'') w13;
          w15 = materials_append fire_pillar ''fire'' w14;
          parts = parts @ [fire_pillar];
          (orb, w16) = primitive_add (Primitive (UVSphere 16 12 0.2)) (0, 0, 1.9) (0, 0, 0) w15;
          w17 = set_name orb (Lit ''Soul_Orb'') w16;
          w18 = materials_append orb ''soul'' w17;
          parts = parts @ [orb]
      in (parts, w18))"

text \<open>\<^verbatim>\<open>create_edge_spikes\<close>: the two end points of an edge (lines 294-300), the
  interpolated point (lines 304-306) and the inward pull (lines 309-311), where the
  division by \<^verbatim>\<open>dist\<close> raises when \<^verbatim>\<open>dist\<close> is zero.\<close>

definition edge_ends :: "nat \<Rightarrow> vec2 \<times> vec2" where
  "edge_ends edge =
     (let angle1 = pi / 6 + real edge * pi / 3;
          angle2 = pi / 6 + (real edge + 1) * pi / 3;
          x1 = PLATFORM_RADIUS * cos angle1;
          y1 = PLATFORM_RADIUS * sin angle1;
          x2 = PLATFORM_RADIUS * cos angle2;
          y2 = PLATFORM_RADIUS * sin angle2
      in ((x1, y1), (x2, y2)))"

definition edge_point :: "vec2 \<times> vec2 \<Rightarrow> nat \<Rightarrow> vec2" where
  "edge_point ends i =
     (case ends of ((x1, y1), (x2, y2)) \<Rightarrow>
        (let t = (real i + 1) / 4;
             x = x1 + (x2 - x1) * t;
             y = y1 + (y2 - y1) * t
         in (x, y)))"

definition pull_inward :: "vec2 \<Rightarrow> error + vec2" where
  "pull_inward p =
     (case p of (x, y) \<Rightarrow>
        (let dist = sqrt (x * x + y * y)
         in if dist = 0 then Inl ZeroDivisionError
            else Inr (x * (dist - 0.3) / dist, y * (dist - 0.3) / dist)))"

definition spike_step :: "nat \<Rightarrow> nat \<Rightarrow> nat list \<times> world \<Rightarrow> error + nat list \<times> world" where
  "spike_step edge i acc =
     (case acc of (spikes, w0) \<Rightarrow>
        (case pull_inward (edge_point (edge_ends edge) i) of
           Inl e \<Rightarrow> Inl e
         | Inr (x, y) \<Rightarrow>
             (let (spike, w1) = primitive_add (Primitive (Cone 6 0.1 0.0 0.4)) (x, y, 0.2) (0, 0, 0) w0;
                  w2 = set_name spike (Idx2 ''Spike_'' edge i) w1;
                  w3 = materials_append spike ''spike'' w2
              in Inr (spikes @ [spike], w3))))"

definition create_edge_spikes :: "world \<Rightarrow> error + nat list \<times> world" where
  "create_edge_spikes w =
     for_each (\<lambda>edge. for_each (\<lambda>i. spike_step edge i) [0..<3]) [0..<6] ([], w)"

definition skull_step :: "nat \<Rightarrow> nat list \<times> world \<Rightarrow> nat list \<times> world" where
  "skull_step i acc =
     (case acc of (skulls, w0) \<Rightarrow>
        (let (angle, w1) = random_uniform 0 (2 * pi) w0;
             (r, w2) = random_uniform 2.5 5.0 w1;
             x = r * cos angle;
             y = r * sin angle;
             (skull, w3) = primitive_add (Primitive (IcoSphere 2 0.08)) (x, y, 0.05) (0, 0, 0) w2;
             w4 = set_name skull (Idx ''Skull_'' i) w3;
             w5 = set_scale skull (1.0, 0.8, 0.85) w4;
             w6 = transform_apply True True True w5;
             w7 = materials_append skull ''bone'' w6
         in (skulls @ [skull], w7)))"

definition create_skulls :: "nat \<Rightarrow> world \<Rightarrow> nat list \<times> world" where
  "create_skulls count w = fold skull_step [0..<count] ([], w)"

definition horn_step :: "nat \<Rightarrow> nat list \<times> world \<Rightarrow> nat list \<times> world" where
  "horn_step i acc =
     (case acc of (horns, w0) \<Rightarrow>
        (let angle = real i * pi / 3 + pi / 6;
             r = 0.9;
             x = r * cos angle;
             y = r * sin angle;
             (horn, w1) = primitive_add (Primitive (Cone 6 0.06 0.0 0.35)) (x, y, 0.55) (0, 0, 0) w0;
             w2 = set_name horn (Idx ''Horn_'' i) w1;
             w3 = set_rotation_x horn (0.4 * sin angle) w2;
             w4 = set_rotation_y horn (- 0.4 * cos angle) w3;
             w5 = materials_append horn ''spike'' w4
         in (horns @ [horn], w5)))"

definition create_demon_horns :: "world \<Rightarrow> nat list \<times> world" where
  "create_demon_horns w = fold horn_step [0..<6] ([], w)"

text \<open>The build section.  The pillar loop (lines 391-396) computes the anchor of pillar
  \<open>i\<close> and hands it to \<^verbatim>\<open>create_pillar\<close>.\<close>

definition pillar_anchor :: "nat \<Rightarrow> vec2" where
  "pillar_anchor i =
     (let angle = real i * pi / 3;
          r = PLATFORM_RADIUS - 0.7;
          x = r * cos angle;
          y = r * sin angle
      in (x, y))"

definition pillar_step :: "(geom \<Rightarrow> vec3 list) \<Rightarrow> nat \<Rightarrow> nat list \<times> world \<Rightarrow> nat list \<times> world" where
  "pillar_step host_verts i acc =
     (case acc of (pillars, w0) \<Rightarrow>
        (let (x, y) = pillar_anchor i;
             (parts, w1) = create_pillar host_verts x y i w0
         in (pillars @ parts, w1)))"

text \<open>The smooth-shading loop makes each mesh object active and calls
  \<^verbatim>\<open>bpy.ops.object.shade_smooth()\<close>.  The loop never changes the selection, so every call
  smooths the objects that were selected when the loop began.\<close>

definition is_mesh :: "obj \<Rightarrow> bool" where
  "is_mesh ob = (case geom ob of PlainAxes \<Rightarrow> False | Light r c e sh \<Rightarrow> False | _ \<Rightarrow> True)"

definition shade_step :: "obj \<Rightarrow> world \<Rightarrow> world" where
  "shade_step ob w = (if is_mesh ob then shade_smooth (set_active (oid ob) w) else w)"

definition empty_add :: "vec3 \<Rightarrow> world \<Rightarrow> nat \<times> world" where
  "empty_add loc w = primitive_add PlainAxes loc (0, 0, 0) w"

definition parent_step :: "nat \<Rightarrow> obj \<Rightarrow> world \<Rightarrow> world" where
  "parent_step rt ob w =
     (if oid ob \<noteq> rt \<and> parent ob = None
      then upd_obj (oid ob) (\<lambda>o'. o'\<lparr>parent := Some rt\<rparr>) w else w)"

text \<open>The module-level names the build section binds.\<close>

record build =
  g_floor :: nat
  g_ring1 :: nat
  g_ring2 :: nat
  g_ring3 :: nat
  g_pillars :: "nat list"
  g_altar :: "nat list"
  g_spikes :: "nat list"
  g_skulls :: "nat list"
  g_horns :: "nat list"
  g_root :: nat

text \<open>The whole script, top to bottom: \<^verbatim>\<open>random.seed(42)\<close>, \<^verbatim>\<open>cleanup()\<close>, the builders,
  smooth shading, and parenting under one empty.\<close>

definition script_v5 :: "(int \<Rightarrow> nat \<Rightarrow> real) \<Rightarrow> (geom \<Rightarrow> vec3 list) \<Rightarrow> world \<Rightarrow> error + build \<times> world" where
  "script_v5 mt host_verts w0 =
     (let w1 = random_seed mt 42 w0;
          w2 = cleanup w1;
          (fl, w3) = create_floor w2;
          (r1, w4) = create_ritual_ring 5.5 0.1 w3;
          (r2, w5) = create_ritual_ring 3.5 0.08 w4;
          (r3, w6) = create_ritual_ring 1.8 0.06 w5;
          (ps, w7) = fold (pillar_step host_verts) [0..<6] ([], w6);
          (al, w8) = create_altar w7
      in case create_edge_spikes w8 of
           Inl e \<Rightarrow> Inl e
         | Inr (sp, w9) \<Rightarrow>
             (let (sk, w10) = create_skulls 8 w9;
                  (hn, w11) = create_demon_horns w10;
                  w12 = fold shade_step (objects w11) w11;
                  (rt, w13) = empty_add (0, 0, 0) w12;
                  w14 = set_name rt (Lit ''Boss_Platform_V5'') w13;
                  w15 = fold (parent_step rt) (objects w14) w14
              in Inr (\<lparr>g_floor = fl, g_ring1 = r1, g_ring2 = r2, g_ring3 = r3, g_pillars = ps,
                        g_altar = al, g_spikes = sp, g_skulls = sk, g_horns = hn, g_root = rt\<rparr>, w15)))"

section \<open>Boss platform V4 (\<^verbatim>\<open>boss_platform_v4.py\<close>)\<close>

definition V4_NUM_SIDES :: nat where "V4_NUM_SIDES = 6"
definition V4_PLATFORM_SIZE :: real where "V4_PLATFORM_SIZE = 14.0"
definition V4_PLATFORM_RADIUS :: real where "V4_PLATFORM_RADIUS = V4_PLATFORM_SIZE / 2"
definition V4_PILLAR_HEIGHT :: real where "V4_PILLAR_HEIGHT = 2.5"

definition v4_hex_vertices :: "real \<Rightarrow> real \<Rightarrow> vec2 list" where
  "v4_hex_vertices radius offset =
     map (\<lambda>i. (cos (offset + real i * (2 * pi) / real V4_NUM_SIDES) * radius,
                sin (offset + real i * (2 * pi) / real V4_NUM_SIDES) * radius))
         [0..<V4_NUM_SIDES]"

text \<open>The keys of the module-level dictionary \<^verbatim>\<open>materials\<close> (lines 61-74), and the
  subscript \<^verbatim>\<open>materials[mat]\<close>, which raises \<^verbatim>\<open>KeyError\<close> for any other key.\<close>

definition v4_materials :: "string list" where
  "v4_materials =
     [''stone'', ''obsidian'', ''metal'', ''ritual'', ''fire'', ''crystal'', ''bone'', ''lava'']"

definition material_lookup :: "string list \<Rightarrow> string \<Rightarrow> error + string" where
  "material_lookup keys mat = (if mat \<in> set keys then Inr mat else Inl KeyError)"

text \<open>\<^verbatim>\<open>circle_ring\<close> subscripts the dictionary with its parameter \<^verbatim>\<open>mat\<close> in its last
  statement, after every host call.\<close>

definition v4_circle_ring :: "real \<Rightarrow> real \<Rightarrow> real \<Rightarrow> string \<Rightarrow> world \<Rightarrow> error + nat \<times> world" where
  "v4_circle_ring r_inner r_outer height mat w0 =
     (let (outer, w1) = primitive_add (Primitive (Cylinder None r_outer height))
                          (0, 0, height / 2) (0, 0, 0) w0;
          (inner, w2) = primitive_add (Primitive (Cylinder None r_inner (height + 0.05)))
                          (0, 0, height / 2) (0, 0, 0) w1;
          w3 = modifiers_new outer ''Boolean'' (BOOLEAN_DIFFERENCE inner) w2;
          w4 = set_active outer w3;
          w5 = modifier_apply ''Boolean'' w4;
          w6 = objects_remove inner w5
      in case material_lookup v4_materials mat of
           Inl e \<Rightarrow> Inl e
         | Inr m \<Rightarrow> Inr (outer, materials_append outer m w6))"

text \<open>\<^verbatim>\<open>edge_spikes\<close>: the position of spike \<open>j\<close> on edge \<open>i\<close> (lines 187-193) and the loop
  that places a cone there.  \<^verbatim>\<open>verts\<close> is the six-element list \<^verbatim>\<open>hex_vertices\<close> returns, so
  both subscripts are in range.\<close>

definition v4_spike_xy :: "vec2 list \<Rightarrow> nat \<Rightarrow> nat \<Rightarrow> vec2" where
  "v4_spike_xy verts i j =
     (let v1 = verts ! i;
          v2 = verts ! ((i + 1) mod V4_NUM_SIDES);
          vec = (fst v2 - fst v1, snd v2 - snd v1);
          t = (real j + 0.5) / 4;
          x = fst v1 + fst vec * t;
          y = snd v1 + snd vec * t
      in (x, y))"

definition v4_spike_step :: "vec2 list \<Rightarrow> nat \<Rightarrow> nat \<Rightarrow> nat list \<times> world \<Rightarrow> nat list \<times> world" where
  "v4_spike_step verts i j acc =
     (case acc of (decos, w0) \<Rightarrow>
        (let v1 = verts ! i;
             v2 = verts ! ((i + 1) mod V4_NUM_SIDES);
             vec = (fst v2 - fst v1, snd v2 - snd v1);
             ang = atan2 (snd vec) (fst vec);
             (x, y) = v4_spike_xy verts i j;
             (sp, w1) = primitive_add (Primitive (Cone 6 0.12 0 0.35)) (x, y, 0.18) (0, 0, 0) w0;
             w2 = set_rotation_z sp ang w1;
             w3 = materials_append sp ''obsidian'' w2
         in (decos @ [sp], w3)))"

definition v4_edge_spikes :: "world \<Rightarrow> nat list \<times> world" where
  "v4_edge_spikes w =
     (let verts = v4_hex_vertices (V4_PLATFORM_RADIUS + 0.05) (pi / 6)
      in fold (\<lambda>i. fold (\<lambda>j. v4_spike_step verts i j) [0..<4]) [0..<V4_NUM_SIDES] ([], w))"

text \<open>\<^verbatim>\<open>cracks_lava\<close>: the cylinder call of step \<open>s\<close> of the crack at angle \<open>ang\<close>
  (lines 209-220), and the two loops.\<close>

definition v4_lava_segment :: "real \<Rightarrow> nat \<Rightarrow> nat \<Rightarrow> geom \<times> vec3 \<times> vec3" where
  "v4_lava_segment ang steps s =
     (let length' = 3.0;
          r0 = 1.0;
          t0 = real s / real steps;
          t1 = (real s + 1) / real steps;
          r_start = r0 + length' * t0;
          r_end = r0 + length' * t1;
          x1 = cos (ang + 0.05 * real s) * r_start;
          y1 = sin (ang + 0.05 * real s) * r_start;
          x2 = cos (ang + 0.05 * (real s + 1)) * r_end;
          y2 = sin (ang + 0.05 * (real s + 1)) * r_end;
          midx = (x1 + x2) / 2;
          midy = (y1 + y2) / 2;
          seg_len = dist2 (x1, y1) (x2, y2)
      in (Primitive (Cylinder None 0.05 seg_len), (midx, midy, 0.03),
          (pi / 2, 0, atan2 (y2 - y1) (x2 - x1))))"

definition v4_lava_step :: "real \<Rightarrow> nat \<Rightarrow> nat \<Rightarrow> nat list \<times> world \<Rightarrow> nat list \<times> world" where
  "v4_lava_step ang steps s acc =
     (case acc of (objs, w0) \<Rightarrow>
        (let (g, loc, rot) = v4_lava_segment ang steps s;
             (seg, w1) = primitive_add g loc rot w0;
             w2 = materials_append seg ''lava'' w1
         in (objs @ [seg], w2)))"

definition v4_cracks_lava :: "world \<Rightarrow> nat list \<times> world" where
  "v4_cracks_lava w =
     fold (\<lambda>i. let ang = real i * (2 * pi) / 8 + pi / 6;
                   steps = 4
               in fold (v4_lava_step ang steps) [0..<steps]) [0..<8] ([], w)"

text \<open>\<^verbatim>\<open>chains_between\<close>.  \<^verbatim>\<open>bez\<close> is the closure of lines 239-244 over the three control
  points; \<open>v4_chain_segment\<close> computes the arguments of the cylinder call for link \<open>j\<close>
  (lines 237-250).  The inner loop reads the local \<^verbatim>\<open>links\<close>, which the enclosing loop
  sets to 12.\<close>

definition bez :: "vec3 \<times> vec3 \<times> vec3 \<Rightarrow> real \<Rightarrow> vec3" where
  "bez points t =
     (case points of ((x0, y0, z0), (x1, y1, z1), (x2, y2, z2)) \<Rightarrow>
        (let u = 1 - t
         in (u * u * x0 + 2 * u * t * x1 + t * t * x2,
             u * u * y0 + 2 * u * t * y1 + t * t * y2,
             u * u * z0 + 2 * u * t * z1 + t * t * z2)))"

definition v4_chain_segment :: "vec3 \<times> vec3 \<times> vec3 \<Rightarrow> nat \<Rightarrow> nat \<Rightarrow> geom \<times> vec3 \<times> vec3" where
  "v4_chain_segment points links j =
     (let t = real j / real links;
          t2 = (real j + 1) / real links;
          p1 = bez points t;
          p2 = bez points t2;
          midp = (case (p1, p2) of ((ax, ay, az), (bx, by, bz)) \<Rightarrow>
                    ((ax + bx) / 2, (ay + by) / 2, (az + bz) / 2));
          seg_len = dist3 p1 p2
      in (Primitive (Cylinder None 0.035 seg_len), midp,
          (pi / 2, 0, atan2 (fst (snd p2) - fst (snd p1)) (fst p2 - fst p1))))"

definition v4_chain_step :: "vec3 \<times> vec3 \<times> vec3 \<Rightarrow> nat \<Rightarrow> nat \<Rightarrow> nat list \<times> world \<Rightarrow> nat list \<times> world" where
  "v4_chain_step points links j acc =
     (case acc of (chain_objs, w0) \<Rightarrow>
        (let (g, loc, rot) = v4_chain_segment points links j;
             (seg, w1) = primitive_add g loc rot w0;
             w2 = materials_append seg ''metal'' w1
         in (chain_objs @ [seg], w2)))"

definition v4_chain_points :: "vec2 list \<Rightarrow> nat \<Rightarrow> vec3 \<times> vec3 \<times> vec3" where
  "v4_chain_points pillar_positions i =
     (let a = pillar_positions ! i;
          b = pillar_positions ! ((i + 1) mod V4_NUM_SIDES);
          mid = ((fst a + fst b) / 2, (snd a + snd b) / 2);
          z_top = V4_PILLAR_HEIGHT * 0.9;
          ctrl = (fst mid, snd mid, z_top - 0.3)
      in ((fst a, snd a, z_top), ctrl, (fst b, snd b, z_top)))"

definition v4_chains_between :: "vec2 list \<Rightarrow> world \<Rightarrow> error + nat list \<times> world" where
  "v4_chains_between pillar_positions w =
     (if length pillar_positions < V4_NUM_SIDES then Inl IndexError
      else Inr (fold (\<lambda>i. let points = v4_chain_points pillar_positions i;
                              links = 12
                          in fold (v4_chain_step points links) [0..<links])
                     [0..<V4_NUM_SIDES] ([], w)))"

section \<open>Boss platform V3 (\<^verbatim>\<open>boss_platform_v3.py\<close>)\<close>

definition V3_NUM_SIDES :: nat where "V3_NUM_SIDES = 6"
definition V3_PLATFORM_SIZE :: real where "V3_PLATFORM_SIZE = 14.0"
definition V3_PLATFORM_RADIUS :: real where "V3_PLATFORM_RADIUS = V3_PLATFORM_SIZE / 2"
definition V3_PILLAR_RADIUS_POS :: real where "V3_PILLAR_RADIUS_POS = V3_PLATFORM_RADIUS - 0.5"

definition v3_create_hex_ring :: "real \<Rightarrow> real \<Rightarrow> real \<Rightarrow> world \<Rightarrow> error + nat \<times> world" where
  "v3_create_hex_ring radius thickness height w0 =
     (let (outer, w1) = primitive_add (Primitive (Cylinder (Some 6) radius height))
                          (0, 0, height / 2) (0, 0, 0) w0;
          w2 = set_rotation_z outer (pi / 6) w1;
          (inner, w3) = primitive_add (Primitive (Cylinder (Some 6) (radius - thickness) (height + 0.1)))
                          (0, 0, height / 2) (0, 0, 0) w2;
          w4 = set_rotation_z inner (pi / 6) w3;
          w5 = modifiers_new outer ''Boolean'' (BOOLEAN_DIFFERENCE inner) w4;
          w6 = set_active outer w5;
          w7 = modifier_apply ''Boolean'' w6;
          w8 = objects_remove inner w7;
          w9 = materials_append outer ''ritual'' w8
      in Inr (outer, w9))"

definition v3_skull_step :: "real \<Rightarrow> nat \<Rightarrow> nat list \<times> world \<Rightarrow> nat list \<times> world" where
  "v3_skull_step radius i acc =
     (case acc of (skulls, w0) \<Rightarrow>
        (let (u1, w1) = random_random w0;
             ang = u1 * (2 * pi);
             (u2, w2) = random_random w1;
             r = radius * sqrt u2;
             x = cos ang * r;
             y = sin ang * r;
             (sk, w3) = primitive_add (Primitive (IcoSphere 2 0.12)) (x, y, 0.06) (0, 0, 0) w2;
             w4 = upd_obj sk (\<lambda>ob. ob\<lparr>scale := (case scale ob of (sx, sy, sz) \<Rightarrow> (sx, sy, sz * 0.8))\<rparr>) w3;
             w5 = materials_append sk ''bone'' w4
         in (skulls @ [sk], w5)))"

definition v3_create_skulls :: "nat \<Rightarrow> real \<Rightarrow> world \<Rightarrow> nat list \<times> world" where
  "v3_create_skulls count radius w = fold (v3_skull_step radius) [0..<count] ([], w)"

text \<open>The pillar-position loop of the build section (lines 490-495).\<close>

definition v3_pillar_positions :: "vec2 list" where
  "v3_pillar_positions =
     map (\<lambda>i. let angle = pi / 6 + real i * pi / 3 - pi / 6;
                  x = cos angle * V3_PILLAR_RADIUS_POS;
                  y = sin angle * V3_PILLAR_RADIUS_POS
              in (x, y)) [0..<V3_NUM_SIDES]"

section \<open>Boss platform V1 (\<^verbatim>\<open>boss_platform.py\<close>)\<close>

definition V1_PILLAR_HEIGHT :: real where "V1_PILLAR_HEIGHT = 2.5"

text \<open>The taper loop of \<^verbatim>\<open>create_corner_pillar\<close> (lines 281-285), one vertex.\<close>

definition v1_taper_vert :: "vec3 \<Rightarrow> vec3" where
  "v1_taper_vert v =
     (case v of (x, y, z) \<Rightarrow>
        if z > 0 then
          (let scale = 1.0 - (z / V1_PILLAR_HEIGHT) * 0.3
           in (x * scale, y * scale, z))
        else (x, y, z))"

text \<open>The loop that deforms the crystal (lines 326-329), one vertex.\<close>

definition v1_crystal_vert :: "vec3 \<Rightarrow> vec3" where
  "v1_crystal_vert v =
     (case v of (x, y, z) \<Rightarrow>
        (let z = z * 1.5;
             noise = sin (x * 10) * 0.05;
             x = x + noise
         in (x, y, z)))"

text \<open>\<^verbatim>\<open>bpy.ops.object.light_add(type='POINT', radius=r, location=loc)\<close> and the attributes
  the script sets on the light's data.\<close>

definition light_add :: "real \<Rightarrow> vec3 \<Rightarrow> world \<Rightarrow> nat \<times> world" where
  "light_add r loc w = primitive_add (Light r None None None) loc (0, 0, 0) w"

definition set_light_color :: "nat \<Rightarrow> vec3 \<Rightarrow> world \<Rightarrow> world" where
  "set_light_color h c =
     upd_obj h (\<lambda>ob. case geom ob of Light r c' e sh \<Rightarrow> ob\<lparr>geom := Light r (Some c) e sh\<rparr> | _ \<Rightarrow> ob)"

definition set_light_energy :: "nat \<Rightarrow> real \<Rightarrow> world \<Rightarrow> world" where
  "set_light_energy h e =
     upd_obj h (\<lambda>ob. case geom ob of Light r c e' sh \<Rightarrow> ob\<lparr>geom := Light r c (Some e) sh\<rparr> | _ \<Rightarrow> ob)"

definition set_light_shadow_soft_size :: "nat \<Rightarrow> real \<Rightarrow> world \<Rightarrow> world" where
  "set_light_shadow_soft_size h sh =
     upd_obj h (\<lambda>ob. case geom ob of Light r c e sh' \<Rightarrow> ob\<lparr>geom := Light r c e (Some sh)\<rparr> | _ \<Rightarrow> ob)"

text \<open>\<^verbatim>\<open>create_corner_pillar(location, rotation=0)\<close> (lines 263-352).  The parameter
  \<^verbatim>\<open>rotation\<close> is never read.\<close>

definition v1_create_corner_pillar ::
    "(geom \<Rightarrow> vec3 list) \<Rightarrow> vec3 \<Rightarrow> real \<Rightarrow> world \<Rightarrow> nat list \<times> world" where
  "v1_create_corner_pillar host_verts location' rotation w0 =
     (case location' of (lx, ly, lz) \<Rightarrow>
       (let pillar_group = [];
            (pillar, w1) = primitive_add (Primitive (Cylinder (Some 8) 0.4 V1_PILLAR_HEIGHT))
                             (lx, ly, V1_PILLAR_HEIGHT / 2) (0, 0, 0) w0;
            w2 = set_name pillar (Lit ''Pillar_Body'') w1;
            bm = from_mesh host_verts w2 pillar;
            bm = map v1_taper_vert bm;
            w3 = to_mesh pillar bm w2;
            w4 = materials_append pillar ''obsidian'' w3;
            pillar_group = pillar_group @ [pillar];
            (base, w5) = primitive_add (Primitive (Cylinder (Some 8) 0.55 0.2)) (lx, ly, 0.1) (0, 0, 0) w4;
            w6 = set_name base (Lit ''Pillar_Base'') w5;
            w7 = materials_append base ''obsidian'' w6;
            pillar_group = pillar_group @ [base];
            (cap, w8) = primitive_add (Primitive (Cylinder (Some 8) 0.35 0.15))
                          (lx, ly, V1_PILLAR_HEIGHT + 0.075) (0, 0, 0) w7;
            w9 = set_name cap (Lit ''Pillar_Cap'') w8;
            w10 = materials_append cap ''obsidian'' w9;
            pillar_group = pillar_group @ [cap];
            (crystal, w11) = primitive_add (Primitive (IcoSphere 2 0.2))
                               (lx, ly, V1_PILLAR_HEIGHT + 0.6) (0, 0, 0) w10;
            w12 = set_name crystal (Lit ''Floating_Crystal'') w11;
            bm = from_mesh host_verts w12 crystal;
            bm = map v1_crystal_vert bm;
            w13 = to_mesh crystal bm w12;
            w14 = materials_append crystal ''crystal'' w13;
            pillar_group = pillar_group @ [crystal];
            (light, w15) = light_add 0.5 (lx, ly, V1_PILLAR_HEIGHT + 0.6) w14;
            w16 = set_light_color light (0.6, 0.2, 0.9) w15;
            w17 = set_light_energy light 50 w16;
            w18 = set_light_shadow_soft_size light 0.3 w17;
            w19 = set_name light (Lit ''Crystal_Light'') w18;
            pillar_group = pillar_group @ [light]
        in (pillar_group, w19)))"

section \<open>The formulas of the design document\<close>

text \<open>Linear interpolation between a start and an end scale, and the quadratic Bezier
  curve \<open>(1 - t)\<^sup>2 P0 + 2 (1 - t) t P1 + t\<^sup>2 P2\<close>, as the design document writes them; the
  code is compared with them below.\<close>

text \<open>A cylinder primitive is centred on its location: its two end caps lie at
  \<open>z - depth / 2\<close> and \<open>z + depth / 2\<close> along its axis.\<close>

definition cap_lo :: "vec3 \<Rightarrow> real \<Rightarrow> real" where
  "cap_lo loc depth = snd (snd loc) - depth / 2"

definition cap_hi :: "vec3 \<Rightarrow> real \<Rightarrow> real" where
  "cap_hi loc depth = snd (snd loc) + depth / 2"




text \<open>Start states for concrete runs: an empty scene, with a generator whose draws are
  all \<open>0\<close> or all \<open>1 / 4\<close>.\<close>

definition zero_draws :: "nat \<Rightarrow> real" where
  "zero_draws n = 0"

definition quarter_draws :: "nat \<Rightarrow> real" where
  "quarter_draws n = 1 / 4"

definition empty_world :: world where
  "empty_world = \<lparr>objects = [], active = None, selected = [], rng = zero_draws, rng_pos = 0\<rparr>"

definition spec_lerp :: "real \<Rightarrow> real \<Rightarrow> real \<Rightarrow> real" where
  "spec_lerp startScale endScale t = startScale + (endScale - startScale) * t"

definition spec_bezier :: "vec3 \<Rightarrow> vec3 \<Rightarrow> vec3 \<Rightarrow> real \<Rightarrow> vec3" where
  "spec_bezier P0 P1 P2 t =
     (case (P0, P1, P2) of ((x0, y0, z0), (x1, y1, z1), (x2, y2, z2)) \<Rightarrow>
        ((1 - t)\<^sup>2 * x0 + 2 * (1 - t) * t * x1 + t\<^sup>2 * x2,
         (1 - t)\<^sup>2 * y0 + 2 * (1 - t) * t * y1 + t\<^sup>2 * y2,
         (1 - t)\<^sup>2 * z0 + 2 * (1 - t) * t * z1 + t\<^sup>2 * z2))"

text \<open>A builder that extends the scene \<open>os\<close> by the objects \<open>new\<close>: they are meshes, carry
  the next free handles in creation order, and are named \<open>names\<close>.\<close>

definition added :: "obj list \<Rightarrow> obj list \<Rightarrow> oname list \<Rightarrow> bool" where
  "added os new names =
     (map oid new = map (\<lambda>k. fresh_id os + k) [0..<length names] \<and>
      map oname new = names \<and>
      map is_mesh new = replicate (length names) True)"

text \<open>The names of the six parts of pillar \<open>i\<close>, in creation order.\<close>

definition pillar_part_names :: "nat \<Rightarrow> oname list" where
  "pillar_part_names i =
     [Idx ''Pillar_'' i, Idx ''Pillar_Base_'' i, Idx ''Pillar_Cap_'' i, Idx ''Brazier_'' i,
      Idx ''Fire_'' i, Idx ''Crystal_'' i]"

section \<open>Facts about the host operations\<close>

lemma fresh_id_Nil [simp]: "fresh_id [] = 0"
  by (simp add: fresh_id_def)

lemma fresh_id_Cons [simp]: "fresh_id (ob # xs) = max (Suc (oid ob)) (fresh_id xs)"
  by (simp add: fresh_id_def)

lemma fresh_id_append [simp]: "fresh_id (xs @ ys) = max (fresh_id xs) (fresh_id ys)"
  by (induction xs) simp_all

lemma fresh_id_less: "ob \<in> set os \<Longrightarrow> oid ob < fresh_id os"
  by (induction os) auto

lemma oid_above_fresh: "fresh_id os \<le> h \<Longrightarrow> ob \<in> set os \<Longrightarrow> oid ob \<noteq> h"
  using fresh_id_less by fastforce

lemma upd_above_fresh [simp]:
  "fresh_id os \<le> h \<Longrightarrow> map (\<lambda>ob. if oid ob = h then f ob else ob) os = os"
  by (rule map_idI) (simp add: oid_above_fresh)

lemma find_above_fresh [simp]:
  "fresh_id os \<le> h \<Longrightarrow> find (\<lambda>ob. oid ob = h) (os @ rest) = find (\<lambda>ob. oid ob = h) rest"
  by (induction os) auto

lemma filter_above_fresh [simp]:
  "fresh_id os \<le> h \<Longrightarrow> filter (\<lambda>ob. oid ob \<noteq> h) os = os"
  by (rule filter_True) (simp add: oid_above_fresh)

lemma world_literal:
  "(w :: world) =
     \<lparr>objects = objects w, active = active w, selected = selected w, rng = rng w, rng_pos = rng_pos w\<rparr>"
  by simp

text \<open>Evaluation of the host operations on a scene given by its fields.\<close>

lemma ev_primitive_add:
  "primitive_add g loc rot \<lparr>objects = os, active = a, selected = sel, rng = gen, rng_pos = p\<rparr> =
     (fresh_id os,
      \<lparr>objects = os @ [new_obj (fresh_id os) g loc rot], active = Some (fresh_id os),
       selected = [fresh_id os], rng = gen, rng_pos = p\<rparr>)"
  by (simp add: primitive_add_def Let_def)

lemma ev_upd_obj:
  "upd_obj h f \<lparr>objects = os, active = a, selected = sel, rng = gen, rng_pos = p\<rparr> =
     \<lparr>objects = map (\<lambda>ob. if oid ob = h then f ob else ob) os, active = a, selected = sel,
      rng = gen, rng_pos = p\<rparr>"
  by (simp add: upd_obj_def)

lemma ev_set_active:
  "set_active h \<lparr>objects = os, active = a, selected = sel, rng = gen, rng_pos = p\<rparr> =
     \<lparr>objects = os, active = Some h, selected = sel, rng = gen, rng_pos = p\<rparr>"
  by (simp add: set_active_def)

lemma ev_objects_remove:
  "objects_remove h \<lparr>objects = os, active = a, selected = sel, rng = gen, rng_pos = p\<rparr> =
     \<lparr>objects = filter (\<lambda>ob. oid ob \<noteq> h) os, active = (if a = Some h then None else a),
      selected = filter (\<lambda>h'. h' \<noteq> h) sel, rng = gen, rng_pos = p\<rparr>"
  by (simp add: objects_remove_def)

lemma ev_get_obj:
  "get_obj \<lparr>objects = os, active = a, selected = sel, rng = gen, rng_pos = p\<rparr> h =
     find (\<lambda>ob. oid ob = h) os"
  by (simp add: get_obj_def)

lemma ev_modifier_apply:
  "modifier_apply nm \<lparr>objects = os, active = Some a, selected = sel, rng = gen, rng_pos = p\<rparr> =
     \<lparr>objects = map (\<lambda>ob. if oid ob = a then
                   (case map_of (modifiers ob) nm of
                      None \<Rightarrow> ob
                    | Some m \<Rightarrow>
                        ob\<lparr>geom := apply_modifier
                                     \<lparr>objects = os, active = Some a, selected = sel, rng = gen, rng_pos = p\<rparr>
                                     m (geom ob),
                           modifiers := filter (\<lambda>q. fst q \<noteq> nm) (modifiers ob)\<rparr>)
                 else ob) os,
      active = Some a, selected = sel, rng = gen, rng_pos = p\<rparr>"
  by (simp add: modifier_apply_def upd_obj_def)

lemma ev_transform_apply:
  "transform_apply l r s \<lparr>objects = os, active = a, selected = [h], rng = gen, rng_pos = p\<rparr> =
     \<lparr>objects = map (\<lambda>ob. if oid ob = h then bake l r s ob else ob) os,
      active = a, selected = [h], rng = gen, rng_pos = p\<rparr>"
  by (simp add: transform_apply_def upd_obj_def)

lemma ev_from_mesh:
  "from_mesh host_verts \<lparr>objects = os, active = a, selected = sel, rng = gen, rng_pos = p\<rparr> h =
     (case find (\<lambda>ob. oid ob = h) os of None \<Rightarrow> [] | Some ob \<Rightarrow> host_verts (geom ob))"
  by (simp add: from_mesh_def get_obj_def)

lemma ev_random_random:
  "random_random \<lparr>objects = os, active = a, selected = sel, rng = gen, rng_pos = p\<rparr> =
     (gen p, \<lparr>objects = os, active = a, selected = sel, rng = gen, rng_pos = Suc p\<rparr>)"
  by (simp add: random_random_def)

lemma ev_random_uniform:
  "random_uniform lo hi \<lparr>objects = os, active = a, selected = sel, rng = gen, rng_pos = p\<rparr> =
     (lo + (hi - lo) * gen p, \<lparr>objects = os, active = a, selected = sel, rng = gen, rng_pos = Suc p\<rparr>)"
  by (simp add: random_uniform_def random_random_def)

lemma ev_let_pair: "Let (x, y) (case_prod f) = f x y"
  by simp

lemmas attr_defs = set_name_def set_rotation_x_def set_rotation_y_def set_rotation_z_def
  set_scale_def materials_append_def modifiers_new_def to_mesh_def empty_add_def light_add_def
  set_light_color_def set_light_energy_def set_light_shadow_soft_size_def

lemmas ev_simps = ev_primitive_add ev_upd_obj ev_set_active ev_objects_remove ev_get_obj
  ev_modifier_apply ev_transform_apply ev_from_mesh ev_random_random ev_random_uniform
  ev_let_pair attr_defs new_obj_def bake_def
  Let_def [where 'a = world] Let_def [where 'a = "nat list"] Let_def [where 'a = "vec3 list"]
  Let_def [where 'a = real]

section \<open>The builders, evaluated\<close>

lemma create_floor_eval:
  "create_floor \<lparr>objects = os, active = a, selected = sel, rng = gen, rng_pos = p\<rparr> =
     (fresh_id os,
      \<lparr>objects = os @
         [\<lparr>oid = fresh_id os, oname = Lit ''Floor'',
           geom = Beveled 0.08 2 (Primitive (Cylinder (Some 6) PLATFORM_RADIUS PLATFORM_HEIGHT)),
           location = (0, 0, - PLATFORM_HEIGHT / 2), rotation_euler = (0, 0, pi / 6),
           scale = (1, 1, 1), materials = [''floor''], modifiers = [], smooth = False,
           parent = None\<rparr>],
       active = Some (fresh_id os), selected = [fresh_id os], rng = gen, rng_pos = p\<rparr>)"
  supply TrueI [simproc del: let_simp]
  by (simp add: create_floor_def ev_simps cong: let_weak_cong)

lemma create_ritual_ring_eval:
  "create_ritual_ring radius thickness \<lparr>objects = os, active = a, selected = sel, rng = gen, rng_pos = p\<rparr> =
     (fresh_id os,
      \<lparr>objects = os @
         [\<lparr>oid = fresh_id os, oname = Fix1 ''Ritual_Ring_'' radius,
           geom = Primitive (Torus radius thickness 48 12),
           location = (0, 0, 0.02), rotation_euler = (0, 0, 0),
           scale = (1, 1, 1), materials = [''ritual''], modifiers = [], smooth = False,
           parent = None\<rparr>],
       active = Some (fresh_id os), selected = [fresh_id os], rng = gen, rng_pos = p\<rparr>)"
  supply TrueI [simproc del: let_simp]
  by (simp add: create_ritual_ring_def ev_simps cong: let_weak_cong)

lemma create_pillar_eval:
  "create_pillar host_verts x y index \<lparr>objects = os, active = a, selected = sel, rng = gen, rng_pos = p\<rparr> =
     ([fresh_id os, Suc (fresh_id os), Suc (Suc (fresh_id os)), Suc (Suc (Suc (fresh_id os))),
       Suc (Suc (Suc (Suc (fresh_id os)))), Suc (Suc (Suc (Suc (Suc (fresh_id os)))))],
      \<lparr>objects = os @
     [\<lparr>oid = fresh_id os, oname = Idx ''Pillar_'' index,
       geom = Verts (Primitive (Cylinder (Some 12) PILLAR_RADIUS PILLAR_HEIGHT))
               (map taper_vert (host_verts (Primitive (Cylinder (Some 12) PILLAR_RADIUS PILLAR_HEIGHT)))),
       location = (x, y, PILLAR_HEIGHT / 2), rotation_euler = (0, 0, 0), scale = (1, 1, 1),
       materials = [''obsidian''], modifiers = [], smooth = False, parent = None\<rparr>,
      \<lparr>oid = Suc (fresh_id os), oname = Idx ''Pillar_Base_'' index,
       geom = Primitive (Cylinder (Some 12) (PILLAR_RADIUS * 1.5) 0.2),
       location = (x, y, 0.1), rotation_euler = (0, 0, 0), scale = (1, 1, 1),
       materials = [''obsidian''], modifiers = [], smooth = False, parent = None\<rparr>,
      \<lparr>oid = Suc (Suc (fresh_id os)), oname = Idx ''Pillar_Cap_'' index,
       geom = Primitive (Cylinder (Some 12) (PILLAR_RADIUS * 1.2) 0.12),
       location = (x, y, PILLAR_HEIGHT - 0.06), rotation_euler = (0, 0, 0), scale = (1, 1, 1),
       materials = [''obsidian''], modifiers = [], smooth = False, parent = None\<rparr>,
      \<lparr>oid = Suc (Suc (Suc (fresh_id os))), oname = Idx ''Brazier_'' index,
       geom = Primitive (Cone 12 0.3 0.2 0.2),
       location = (x, y, PILLAR_HEIGHT + 0.1), rotation_euler = (0, 0, 0), scale = (1, 1, 1),
       materials = [''metal''], modifiers = [], smooth = False, parent = None\<rparr>,
      \<lparr>oid = Suc (Suc (Suc (Suc (fresh_id os)))), oname = Idx ''Fire_'' index,
       geom = Primitive (UVSphere 12 8 0.15),
       location = (x, y, PILLAR_HEIGHT + 0.25), rotation_euler = (0, 0, 0), scale = (1, 1, 1),
       materials = [''fire''], modifiers = [], smooth = False, parent = None\<rparr>,
      \<lparr>oid = Suc (Suc (Suc (Suc (Suc (fresh_id os))))), oname = Idx ''Crystal_'' index,
       geom = Applied (x, y, PILLAR_HEIGHT + 0.55) (0, 0, 0) (0.7, 0.7, 1.4) (Primitive (IcoSphere 2 0.12)),
       location = (0, 0, 0), rotation_euler = (0, 0, 0), scale = (1, 1, 1),
       materials = [''crystal''], modifiers = [], smooth = False, parent = None\<rparr>],
       active = Some (Suc (Suc (Suc (Suc (Suc (fresh_id os)))))), selected = [Suc (Suc (Suc (Suc (Suc (fresh_id os)))))], rng = gen, rng_pos = p\<rparr>)"
  supply TrueI [simproc del: let_simp]
  by (simp add: create_pillar_def ev_simps cong: let_weak_cong)


lemma create_altar_eval:
  "create_altar \<lparr>objects = os, active = a, selected = sel, rng = gen, rng_pos = p\<rparr> =
     ([fresh_id os, Suc (fresh_id os), Suc (Suc (fresh_id os)), Suc (Suc (Suc (fresh_id os))),
       Suc (Suc (Suc (Suc (fresh_id os))))],
      \<lparr>objects = os @
     [\<lparr>oid = fresh_id os, oname = Lit ''Altar_Base'',
       geom = Primitive (Cylinder (Some 6) 1.2 0.25),
       location = (0, 0, 0.125), rotation_euler = (0, 0, pi / 6), scale = (1, 1, 1),
       materials = [''obsidian''], modifiers = [], smooth = False, parent = None\<rparr>,
      \<lparr>oid = Suc (fresh_id os), oname = Lit ''Altar_Mid'',
       geom = Primitive (Cylinder (Some 6) 0.8 0.2),
       location = (0, 0, 0.35), rotation_euler = (0, 0, pi / 6), scale = (1, 1, 1),
       materials = [''obsidian''], modifiers = [], smooth = False, parent = None\<rparr>,
      \<lparr>oid = Suc (Suc (fresh_id os)), oname = Lit ''Altar_Top'',
       geom = Primitive (Cylinder (Some 6) 0.5 0.1),
       location = (0, 0, 0.5), rotation_euler = (0, 0, pi / 6), scale = (1, 1, 1),
       materials = [''altar''], modifiers = [], smooth = False, parent = None\<rparr>,
      \<lparr>oid = Suc (Suc (Suc (fresh_id os))), oname = Lit ''Fire_Pillar'',
       geom = Primitive (Cylinder (Some 16) 0.12 1.2),
       location = (0, 0, 1.15), rotation_euler = (0, 0, 0), scale = (1, 1, 1),
       materials = [''fire''], modifiers = [], smooth = False, parent = None\<rparr>,
      \<lparr>oid = Suc (Suc (Suc (Suc (fresh_id os)))), oname = Lit ''Soul_Orb'',
       geom = Primitive (UVSphere 16 12 0.2),
       location = (0, 0, 1.9), rotation_euler = (0, 0, 0), scale = (1, 1, 1),
       materials = [''soul''], modifiers = [], smooth = False, parent = None\<rparr>],
       active = Some (Suc (Suc (Suc (Suc (fresh_id os))))), selected = [Suc (Suc (Suc (Suc (fresh_id os))))], rng = gen, rng_pos = p\<rparr>)"
  supply TrueI [simproc del: let_simp]
  by (simp add: create_altar_def ev_simps cong: let_weak_cong)

lemma spike_step_eval:
  "pull_inward (edge_point (edge_ends edge) i) = Inr (x, y) \<Longrightarrow>
   spike_step edge i (spikes, \<lparr>objects = os, active = a, selected = sel, rng = gen, rng_pos = p\<rparr>) =
     Inr (spikes @ [fresh_id os],
      \<lparr>objects = os @
         [\<lparr>oid = fresh_id os, oname = Idx2 ''Spike_'' edge i,
           geom = Primitive (Cone 6 0.1 0.0 0.4),
           location = (x, y, 0.2), rotation_euler = (0, 0, 0),
           scale = (1, 1, 1), materials = [''spike''], modifiers = [], smooth = False,
           parent = None\<rparr>],
       active = Some (fresh_id os), selected = [fresh_id os], rng = gen, rng_pos = p\<rparr>)"
  supply TrueI [simproc del: let_simp]
  by (simp add: spike_step_def ev_simps cong: let_weak_cong)

lemma skull_step_eval:
  "skull_step i (skulls, \<lparr>objects = os, active = a, selected = sel, rng = gen, rng_pos = p\<rparr>) =
     (skulls @ [fresh_id os],
      \<lparr>objects = os @
         [\<lparr>oid = fresh_id os, oname = Idx ''Skull_'' i,
           geom = Applied ((2.5 + (5.0 - 2.5) * gen (Suc p)) * cos (0 + (2 * pi - 0) * gen p),
                       (2.5 + (5.0 - 2.5) * gen (Suc p)) * sin (0 + (2 * pi - 0) * gen p), 0.05) (0, 0, 0) (1.0, 0.8, 0.85) (Primitive (IcoSphere 2 0.08)),
           location = (0, 0, 0),
           rotation_euler = (0, 0, 0),
           scale = (1, 1, 1), materials = [''bone''], modifiers = [], smooth = False,
           parent = None\<rparr>],
       active = Some (fresh_id os), selected = [fresh_id os], rng = gen, rng_pos = Suc (Suc p)\<rparr>)"
  supply TrueI [simproc del: let_simp]
  by (simp add: skull_step_def ev_simps cong: let_weak_cong)

lemma horn_step_eval:
  "horn_step i (horns, \<lparr>objects = os, active = a, selected = sel, rng = gen, rng_pos = p\<rparr>) =
     (horns @ [fresh_id os],
      \<lparr>objects = os @
         [\<lparr>oid = fresh_id os, oname = Idx ''Horn_'' i,
           geom = Primitive (Cone 6 0.06 0.0 0.35),
           location = (0.9 * cos (real i * pi / 3 + pi / 6), 0.9 * sin (real i * pi / 3 + pi / 6), 0.55),
           rotation_euler = (0.4 * sin (real i * pi / 3 + pi / 6),
                             - 0.4 * cos (real i * pi / 3 + pi / 6), 0),
           scale = (1, 1, 1), materials = [''spike''], modifiers = [], smooth = False,
           parent = None\<rparr>],
       active = Some (fresh_id os), selected = [fresh_id os], rng = gen, rng_pos = p\<rparr>)"
  supply TrueI [simproc del: let_simp]
  by (simp add: horn_step_def ev_simps cong: let_weak_cong)

lemma pillar_step_eval:
  "pillar_step host_verts i (pillars, \<lparr>objects = os, active = a, selected = sel, rng = gen, rng_pos = p\<rparr>) =
     (pillars @ fst (create_pillar host_verts (fst (pillar_anchor i)) (snd (pillar_anchor i)) i
                       \<lparr>objects = os, active = a, selected = sel, rng = gen, rng_pos = p\<rparr>),
      snd (create_pillar host_verts (fst (pillar_anchor i)) (snd (pillar_anchor i)) i
             \<lparr>objects = os, active = a, selected = sel, rng = gen, rng_pos = p\<rparr>))"
  by (simp add: pillar_step_def split_def Let_def)

lemma empty_add_eval:
  "empty_add loc \<lparr>objects = os, active = a, selected = sel, rng = gen, rng_pos = p\<rparr> =
     (fresh_id os,
      \<lparr>objects = os @ [new_obj (fresh_id os) PlainAxes loc (0, 0, 0)], active = Some (fresh_id os), selected = [fresh_id os],
       rng = gen, rng_pos = p\<rparr>)"
  by (simp add: empty_add_def ev_primitive_add)

lemma v4_chain_step_eval:
  "v4_chain_segment points links j = (g, loc, rot) \<Longrightarrow>
   v4_chain_step points links j (chain_objs, \<lparr>objects = os, active = a, selected = sel, rng = gen, rng_pos = p\<rparr>) =
     (chain_objs @ [fresh_id os],
      \<lparr>objects = os @
         [\<lparr>oid = fresh_id os, oname = HostDefault, geom = g, location = loc, rotation_euler = rot,
           scale = (1, 1, 1), materials = [''metal''], modifiers = [], smooth = False,
           parent = None\<rparr>],
       active = Some (fresh_id os), selected = [fresh_id os], rng = gen, rng_pos = p\<rparr>)"
  supply TrueI [simproc del: let_simp]
  by (simp add: v4_chain_step_def ev_simps cong: let_weak_cong)

lemma v4_lava_step_eval:
  "v4_lava_segment ang steps s = (g, loc, rot) \<Longrightarrow>
   v4_lava_step ang steps s (objs, \<lparr>objects = os, active = a, selected = sel, rng = gen, rng_pos = p\<rparr>) =
     (objs @ [fresh_id os],
      \<lparr>objects = os @
         [\<lparr>oid = fresh_id os, oname = HostDefault, geom = g, location = loc, rotation_euler = rot,
           scale = (1, 1, 1), materials = [''lava''], modifiers = [], smooth = False,
           parent = None\<rparr>],
       active = Some (fresh_id os), selected = [fresh_id os], rng = gen, rng_pos = p\<rparr>)"
  supply TrueI [simproc del: let_simp]
  by (simp add: v4_lava_step_def ev_simps cong: let_weak_cong)

lemma v4_spike_step_eval:
  "v4_spike_xy verts i j = (x, y) \<Longrightarrow>
   v4_spike_step verts i j (decos, \<lparr>objects = os, active = a, selected = sel, rng = gen, rng_pos = p\<rparr>) =
     (decos @ [fresh_id os],
      \<lparr>objects = os @
         [\<lparr>oid = fresh_id os, oname = HostDefault, geom = Primitive (Cone 6 0.12 0 0.35),
           location = (x, y, 0.18),
           rotation_euler = (0, 0, atan2 (snd (verts ! ((i + 1) mod V4_NUM_SIDES)) - snd (verts ! i))
                                         (fst (verts ! ((i + 1) mod V4_NUM_SIDES)) - fst (verts ! i))),
           scale = (1, 1, 1), materials = [''obsidian''], modifiers = [], smooth = False,
           parent = None\<rparr>],
       active = Some (fresh_id os), selected = [fresh_id os], rng = gen, rng_pos = p\<rparr>)"
  supply TrueI [simproc del: let_simp]
  by (simp add: v4_spike_step_def ev_simps Let_def [where 'a = vec2] cong: let_weak_cong)

lemma v3_skull_step_eval:
  "v3_skull_step radius i (skulls, \<lparr>objects = os, active = a, selected = sel, rng = gen, rng_pos = p\<rparr>) =
     (skulls @ [fresh_id os],
      \<lparr>objects = os @
         [\<lparr>oid = fresh_id os, oname = HostDefault,
           geom = Primitive (IcoSphere 2 0.12),
           location = (cos (gen p * (2 * pi)) * (radius * sqrt (gen (Suc p))),
                       sin (gen p * (2 * pi)) * (radius * sqrt (gen (Suc p))), 0.06),
           rotation_euler = (0, 0, 0),
           scale = (1, 1, 1 * 0.8), materials = [''bone''], modifiers = [], smooth = False,
           parent = None\<rparr>],
       active = Some (fresh_id os), selected = [fresh_id os], rng = gen, rng_pos = Suc (Suc p)\<rparr>)"
  supply TrueI [simproc del: let_simp]
  by (simp add: v3_skull_step_def ev_simps cong: let_weak_cong)

lemma v3_create_hex_ring_eval:
  "v3_create_hex_ring radius thickness height \<lparr>objects = os, active = a, selected = sel, rng = gen, rng_pos = p\<rparr> =
     Inr (fresh_id os,
      \<lparr>objects = os @
        [\<lparr>oid = fresh_id os, oname = HostDefault,
          geom = Difference (Primitive (Cylinder (Some 6) radius height))
                   (Primitive (Cylinder (Some 6) (radius - thickness) (height + 0.1)))
                   (0, 0, height / 2) (0, 0, pi / 6),
          location = (0, 0, height / 2), rotation_euler = (0, 0, pi / 6), scale = (1, 1, 1),
          materials = [''ritual''], modifiers = [], smooth = False, parent = None\<rparr>],
       active = Some (fresh_id os), selected = [], rng = gen, rng_pos = p\<rparr>)"
  supply TrueI [simproc del: let_simp]
  by (simp add: v3_create_hex_ring_def ev_simps cong: let_weak_cong)

lemma v4_circle_ring_eval:
  "mat \<in> set v4_materials \<Longrightarrow>
   v4_circle_ring r_inner r_outer height mat \<lparr>objects = os, active = a, selected = sel, rng = gen, rng_pos = p\<rparr> =
     Inr (fresh_id os,
      \<lparr>objects = os @
        [\<lparr>oid = fresh_id os, oname = HostDefault,
          geom = Difference (Primitive (Cylinder None r_outer height))
                   (Primitive (Cylinder None r_inner (height + 0.05)))
                   (0, 0, height / 2) (0, 0, 0),
          location = (0, 0, height / 2), rotation_euler = (0, 0, 0), scale = (1, 1, 1),
          materials = [mat], modifiers = [], smooth = False, parent = None\<rparr>],
       active = Some (fresh_id os), selected = [], rng = gen, rng_pos = p\<rparr>)"
  supply TrueI [simproc del: let_simp]
  by (simp add: v4_circle_ring_def material_lookup_def ev_simps cong: let_weak_cong)

lemma v4_circle_ring_key_error:
  "mat \<notin> set v4_materials \<Longrightarrow> v4_circle_ring r_inner r_outer height mat w = Inl KeyError"
  by (simp add: v4_circle_ring_def material_lookup_def split_def Let_def)


section \<open>Loops that add one object per iteration\<close>

lemma map_upt_shift: "map f [0..<Suc n] = f 0 # map (\<lambda>k. f (Suc k)) [0..<n]"
  by (simp only: map_upt_Suc)

lemma fold_one:
  assumes step: "\<And>j acc os a sel gen p.
      step j (acc, \<lparr>objects = os, active = a, selected = sel, rng = gen, rng_pos = p\<rparr>) =
        (acc @ [fresh_id os],
         \<lparr>objects = os @ [mk gen j (fresh_id os) p], active = Some (fresh_id os), selected = [fresh_id os],
          rng = gen, rng_pos = p + d\<rparr>)"
    and oid_mk: "\<And>gen j h p. oid (mk gen j h p) = h"
  shows "\<exists>a' sel'. fold step js (acc, \<lparr>objects = os, active = a, selected = sel, rng = gen, rng_pos = p\<rparr>) =
      (acc @ map (\<lambda>k. fresh_id os + k) [0..<length js],
       \<lparr>objects = os @ map (\<lambda>k. mk gen (js ! k) (fresh_id os + k) (p + d * k)) [0..<length js],
        active = a', selected = sel', rng = gen, rng_pos = p + d * length js\<rparr>)"
proof (induction js arbitrary: acc os a sel p)
  case Nil
  show ?case by simp
next
  case (Cons j js)
  have f: "fresh_id (os @ [mk gen j (fresh_id os) p]) = Suc (fresh_id os)"
    by (simp add: oid_mk)
  obtain a' sel' where r:
    "fold step js (acc @ [fresh_id os],
        \<lparr>objects = os @ [mk gen j (fresh_id os) p], active = Some (fresh_id os), selected = [fresh_id os],
         rng = gen, rng_pos = p + d\<rparr>) =
      ((acc @ [fresh_id os]) @ map (\<lambda>k. fresh_id (os @ [mk gen j (fresh_id os) p]) + k) [0..<length js],
       \<lparr>objects = (os @ [mk gen j (fresh_id os) p]) @
          map (\<lambda>k. mk gen (js ! k) (fresh_id (os @ [mk gen j (fresh_id os) p]) + k) (p + d + d * k))
            [0..<length js],
        active = a', selected = sel', rng = gen, rng_pos = p + d + d * length js\<rparr>)"
    using Cons.IH by blast
  show ?case
    apply (rule exI [of _ a'], rule exI [of _ sel'])
    apply (simp only: fold_simps step r f length_Cons map_upt_shift)
    apply (simp add: add.assoc)
    done
qed


lemma for_each_append:
  "for_each body (xs @ ys) s =
     (case for_each body xs s of Inl e \<Rightarrow> Inl e | Inr s' \<Rightarrow> for_each body ys s')"
  by (induction xs arbitrary: s) (auto split: sum.splits)

lemma for_each_nested:
  "for_each (\<lambda>e. for_each (body e) is) es s =
     for_each (\<lambda>q. body (fst q) (snd q)) (List.product es is) s"
proof (induction es arbitrary: s)
  case Nil
  show ?case by simp
next
  case (Cons e es)
  have inner: "for_each (\<lambda>q. body (fst q) (snd q)) (map (Pair e) is) t = for_each (body e) is t" for t
    by (induction "is" arbitrary: t) (auto split: sum.splits)
  show ?case
    by (simp add: for_each_append inner Cons.IH split: sum.splits)
qed

lemma for_each_one:
  assumes oid_mk: "\<And>j h. oid (mk j h) = h"
  shows "(\<And>j acc os a sel. j \<in> set js \<Longrightarrow>
            step j (acc, \<lparr>objects = os, active = a, selected = sel, rng = gen, rng_pos = p\<rparr>) =
              Inr (acc @ [fresh_id os],
                   \<lparr>objects = os @ [mk j (fresh_id os)], active = Some (fresh_id os), selected = [fresh_id os],
                    rng = gen, rng_pos = p\<rparr>)) \<Longrightarrow>
     \<exists>a' sel'. for_each step js (acc, \<lparr>objects = os, active = a, selected = sel, rng = gen, rng_pos = p\<rparr>) =
        Inr (acc @ map (\<lambda>k. fresh_id os + k) [0..<length js],
             \<lparr>objects = os @ map (\<lambda>k. mk (js ! k) (fresh_id os + k)) [0..<length js],
              active = a', selected = sel', rng = gen, rng_pos = p\<rparr>)"
proof (induction js arbitrary: acc os a sel)
  case Nil
  show ?case by simp
next
  case (Cons j js)
  have s: "step j (acc, \<lparr>objects = os, active = a, selected = sel, rng = gen, rng_pos = p\<rparr>) =
              Inr (acc @ [fresh_id os],
                   \<lparr>objects = os @ [mk j (fresh_id os)], active = Some (fresh_id os), selected = [fresh_id os],
                    rng = gen, rng_pos = p\<rparr>)"
    by (rule Cons.prems) simp
  have f: "fresh_id (os @ [mk j (fresh_id os)]) = Suc (fresh_id os)"
    by (simp add: oid_mk)
  have "\<exists>a' sel'. for_each step js (acc @ [fresh_id os],
        \<lparr>objects = os @ [mk j (fresh_id os)], active = Some (fresh_id os), selected = [fresh_id os],
         rng = gen, rng_pos = p\<rparr>) =
      Inr ((acc @ [fresh_id os]) @ map (\<lambda>k. fresh_id (os @ [mk j (fresh_id os)]) + k) [0..<length js],
       \<lparr>objects = (os @ [mk j (fresh_id os)]) @
          map (\<lambda>k. mk (js ! k) (fresh_id (os @ [mk j (fresh_id os)]) + k)) [0..<length js],
        active = a', selected = sel', rng = gen, rng_pos = p\<rparr>)"
    by (rule Cons.IH) (rule Cons.prems, simp)
  then obtain a' sel' where r:
    "for_each step js (acc @ [fresh_id os],
        \<lparr>objects = os @ [mk j (fresh_id os)], active = Some (fresh_id os), selected = [fresh_id os],
         rng = gen, rng_pos = p\<rparr>) =
      Inr ((acc @ [fresh_id os]) @ map (\<lambda>k. fresh_id (os @ [mk j (fresh_id os)]) + k) [0..<length js],
       \<lparr>objects = (os @ [mk j (fresh_id os)]) @
          map (\<lambda>k. mk (js ! k) (fresh_id (os @ [mk j (fresh_id os)]) + k)) [0..<length js],
        active = a', selected = sel', rng = gen, rng_pos = p\<rparr>)"
    by blast
  show ?case
    apply (rule exI [of _ a'], rule exI [of _ sel'])
    apply (simp only: for_each.simps s sum.case r f length_Cons map_upt_shift)
    apply simp
    done
qed

section \<open>Ring carving\<close>

lemma hex_ring_result:
  "\<exists>w'. v3_create_hex_ring radius thickness height w = Inr (fresh_id (objects w), w') \<and>
      objects w' = objects w @
        [\<lparr>oid = fresh_id (objects w), oname = HostDefault,
          geom = Difference (Primitive (Cylinder (Some 6) radius height))
                   (Primitive (Cylinder (Some 6) (radius - thickness) (height + 0.1)))
                   (0, 0, height / 2) (0, 0, pi / 6),
          location = (0, 0, height / 2), rotation_euler = (0, 0, pi / 6), scale = (1, 1, 1),
          materials = [''ritual''], modifiers = [], smooth = False, parent = None\<rparr>]"
proof -
  have w: "\<lparr>objects = objects w, active = active w, selected = selected w, rng = rng w, rng_pos = rng_pos w\<rparr> = w"
    by simp
  show ?thesis
    using v3_create_hex_ring_eval [of radius thickness height "objects w" "active w" "selected w" "rng w" "rng_pos w"]
    unfolding w by simp
qed

lemma circle_ring_result:
  "mat \<in> set v4_materials \<Longrightarrow>
   \<exists>w'. v4_circle_ring r_inner r_outer height mat w = Inr (fresh_id (objects w), w') \<and>
      objects w' = objects w @
        [\<lparr>oid = fresh_id (objects w), oname = HostDefault,
          geom = Difference (Primitive (Cylinder None r_outer height))
                   (Primitive (Cylinder None r_inner (height + 0.05)))
                   (0, 0, height / 2) (0, 0, 0),
          location = (0, 0, height / 2), rotation_euler = (0, 0, 0), scale = (1, 1, 1),
          materials = [mat], modifiers = [], smooth = False, parent = None\<rparr>]"
proof -
  have w: "\<lparr>objects = objects w, active = active w, selected = selected w, rng = rng w, rng_pos = rng_pos w\<rparr> = w"
    by simp
  assume "mat \<in> set v4_materials"
  from v4_circle_ring_eval [OF this, of r_inner r_outer height "objects w" "active w" "selected w" "rng w" "rng_pos w"]
  show ?thesis
    unfolding w by simp
qed

text \<open>
  Claim C6.  A carve call with outer radius \<open>outerRadius\<close>, thickness \<open>thickness\<close> and
  height \<open>height\<close> (\<^verbatim>\<open>create_hex_ring\<close> of V3; \<^verbatim>\<open>circle_ring\<close> of V4, whose inner radius
  argument is \<open>outerRadius - thickness\<close> and whose material is a key of the \<^verbatim>\<open>materials\<close>
  dictionary, as its default \<^verbatim>\<open>"ritual"\<close> is) returns the outer object, and the scene after
  the call is the scene before it plus that one object: the inner operand is gone.  The mesh
  of the outer object is the boolean difference of a primitive of radius \<open>outerRadius\<close> and
  depth \<open>height\<close> and a primitive of radius \<open>outerRadius - thickness\<close> and depth
  \<open>height + 0.1\<close> (\<open>height + 0.05\<close> for the circle), both centred at \<open>height / 2\<close>.  The inner
  depth is strictly larger, so the inner solid ends strictly below the lower cap and
  strictly above the upper cap of the outer solid.  With a material that is no key of the
  dictionary, \<^verbatim>\<open>circle_ring\<close> ends in \<^verbatim>\<open>KeyError\<close>.
\<close>

theorem ring_carver_algorithm:
  "(\<exists>w'. v3_create_hex_ring outerRadius thickness height w = Inr (fresh_id (objects w), w') \<and>
      objects w' = objects w @
        [\<lparr>oid = fresh_id (objects w), oname = HostDefault,
          geom = Difference (Primitive (Cylinder (Some 6) outerRadius height))
                   (Primitive (Cylinder (Some 6) (outerRadius - thickness) (height + 0.1)))
                   (0, 0, height / 2) (0, 0, pi / 6),
          location = (0, 0, height / 2), rotation_euler = (0, 0, pi / 6), scale = (1, 1, 1),
          materials = [''ritual''], modifiers = [], smooth = False, parent = None\<rparr>]) \<and>
   (mat \<in> set v4_materials \<longrightarrow>
     (\<exists>w'. v4_circle_ring (outerRadius - thickness) outerRadius height mat w
            = Inr (fresh_id (objects w), w') \<and>
      objects w' = objects w @
        [\<lparr>oid = fresh_id (objects w), oname = HostDefault,
          geom = Difference (Primitive (Cylinder None outerRadius height))
                   (Primitive (Cylinder None (outerRadius - thickness) (height + 0.05)))
                   (0, 0, height / 2) (0, 0, 0),
          location = (0, 0, height / 2), rotation_euler = (0, 0, 0), scale = (1, 1, 1),
          materials = [mat], modifiers = [], smooth = False, parent = None\<rparr>])) \<and>
   (mat \<notin> set v4_materials \<longrightarrow>
      v4_circle_ring (outerRadius - thickness) outerRadius height mat w = Inl KeyError) \<and>
   height < height + 0.1 \<and> height < height + 0.05 \<and>
   cap_lo (0, 0, height / 2) (height + 0.1) < cap_lo (0, 0, height / 2) height \<and>
   cap_hi (0, 0, height / 2) height < cap_hi (0, 0, height / 2) (height + 0.1) \<and>
   cap_lo (0, 0, height / 2) (height + 0.05) < cap_lo (0, 0, height / 2) height \<and>
   cap_hi (0, 0, height / 2) height < cap_hi (0, 0, height / 2) (height + 0.05)"
proof -
  have caps: "cap_lo (0, 0, height / 2) (height + 0.1) < cap_lo (0, 0, height / 2) height"
    "cap_hi (0, 0, height / 2) height < cap_hi (0, 0, height / 2) (height + 0.1)"
    "cap_lo (0, 0, height / 2) (height + 0.05) < cap_lo (0, 0, height / 2) height"
    "cap_hi (0, 0, height / 2) height < cap_hi (0, 0, height / 2) (height + 0.05)"
    by (simp_all add: cap_lo_def cap_hi_def add_divide_distrib)
  have deeper: "height < height + 0.1" "height < height + 0.05"
    by simp_all
  show ?thesis
    using hex_ring_result [of outerRadius thickness height w]
          circle_ring_result [of mat "outerRadius - thickness" outerRadius height w]
          v4_circle_ring_key_error [of mat "outerRadius - thickness" outerRadius height w]
          caps deeper
    by blast
qed

theorem ring_carver_algorithm_witness:
  "''ritual'' \<in> set v4_materials \<and>
   (\<exists>w'. v4_circle_ring (2 - 1 / 5) 2 (1 / 50) ''ritual'' empty_world = Inr (0, w') \<and>
      map geom (objects w') =
        [Difference (Primitive (Cylinder None 2 (1 / 50)))
           (Primitive (Cylinder None (2 - 1 / 5) (1 / 50 + 0.05))) (0, 0, (1 / 50) / 2) (0, 0, 0)] \<and>
      map materials (objects w') = [[''ritual'']]) \<and>
   ''gold'' \<notin> set v4_materials \<and>
   v4_circle_ring (2 - 1 / 5) 2 (1 / 50) ''gold'' empty_world = Inl KeyError"
proof -
  have k: "''ritual'' \<in> set v4_materials" "''gold'' \<notin> set v4_materials"
    by (simp_all add: v4_materials_def)
  have e: "objects empty_world = []" "fresh_id (objects empty_world) = 0"
    by (simp_all add: empty_world_def)
  from ring_carver_algorithm [of 2 "1 / 5" "1 / 50" empty_world "''ritual''"] k(1)
  obtain w' where "v4_circle_ring (2 - 1 / 5) 2 (1 / 50) ''ritual'' empty_world
        = Inr (fresh_id (objects empty_world), w')"
    and "objects w' = objects empty_world @
        [\<lparr>oid = fresh_id (objects empty_world), oname = HostDefault,
          geom = Difference (Primitive (Cylinder None 2 (1 / 50)))
                   (Primitive (Cylinder None (2 - 1 / 5) (1 / 50 + 0.05)))
                   (0, 0, (1 / 50) / 2) (0, 0, 0),
          location = (0, 0, (1 / 50) / 2), rotation_euler = (0, 0, 0), scale = (1, 1, 1),
          materials = [''ritual''], modifiers = [], smooth = False, parent = None\<rparr>]"
    by blast
  hence a: "\<exists>w'. v4_circle_ring (2 - 1 / 5) 2 (1 / 50) ''ritual'' empty_world = Inr (0, w') \<and>
      map geom (objects w') =
        [Difference (Primitive (Cylinder None 2 (1 / 50)))
           (Primitive (Cylinder None (2 - 1 / 5) (1 / 50 + 0.05))) (0, 0, (1 / 50) / 2) (0, 0, 0)] \<and>
      map materials (objects w') = [[''ritual'']]"
    unfolding e by (intro exI [of _ w']) simp
  from ring_carver_algorithm [of 2 "1 / 5" "1 / 50" empty_world "''gold''"] k(2)
  have b: "v4_circle_ring (2 - 1 / 5) 2 (1 / 50) ''gold'' empty_world = Inl KeyError"
    by blast
  show ?thesis
    using k a b by blast
qed

section \<open>The carved solid\<close>












section \<open>Pillar anchors\<close>

lemma cs_60: "cos (pi / 3) = 1 / 2" "sin (pi / 3) = sqrt 3 / 2"
  by (simp_all add: cos_60 sin_60)

lemma cs_120: "cos (2 * pi / 3) = - (1 / 2)" "sin (2 * pi / 3) = sqrt 3 / 2"
proof -
  have e: "2 * pi / 3 = pi - pi / 3" by simp
  show "cos (2 * pi / 3) = - (1 / 2)" unfolding e cos_pi_minus by (simp add: cos_60)
  show "sin (2 * pi / 3) = sqrt 3 / 2" unfolding e sin_pi_minus by (simp add: sin_60)
qed

lemma cs_240: "cos (4 * pi / 3) = - (1 / 2)" "sin (4 * pi / 3) = - (sqrt 3 / 2)"
proof -
  have e: "4 * pi / 3 = pi / 3 + pi" by simp
  show "cos (4 * pi / 3) = - (1 / 2)" unfolding e cos_periodic_pi by (simp add: cos_60)
  show "sin (4 * pi / 3) = - (sqrt 3 / 2)" unfolding e sin_periodic_pi by (simp add: sin_60)
qed

lemma cs_300: "cos (5 * pi / 3) = 1 / 2" "sin (5 * pi / 3) = - (sqrt 3 / 2)"
proof -
  have e: "5 * pi / 3 = 2 * pi - pi / 3" by simp
  show "cos (5 * pi / 3) = 1 / 2" unfolding e cos_2pi_minus by (simp add: cos_60)
  show "sin (5 * pi / 3) = - (sqrt 3 / 2)" unfolding e sin_2pi_minus by (simp add: sin_60)
qed

lemma upt_0_6: "[0..<6] = [0, 1, 2, 3, 4, 5::nat]"
  by (simp add: upt_rec)

lemma norm_cs:
  "0 \<le> r \<Longrightarrow> sqrt ((r * cos a)\<^sup>2 + (r * sin a)\<^sup>2) = r"
  "0 \<le> r \<Longrightarrow> sqrt ((cos a * r)\<^sup>2 + (sin a * r)\<^sup>2) = r"
proof -
  assume r: "0 \<le> r"
  have "r\<^sup>2 * ((cos a)\<^sup>2 + (sin a)\<^sup>2) = r\<^sup>2"
    by simp
  then have e: "(r * cos a)\<^sup>2 + (r * sin a)\<^sup>2 = r\<^sup>2"
    by (simp only: power_mult_distrib distrib_left)
  show "sqrt ((r * cos a)\<^sup>2 + (r * sin a)\<^sup>2) = r"
    unfolding e using r by simp
  then show "sqrt ((cos a * r)\<^sup>2 + (sin a * r)\<^sup>2) = r"
    by (simp add: mult.commute)
qed


text \<open>
  Claim C8.  The six pillar anchors of the V5 build loop (angle \<open>i * pi / 3\<close>, radius
  \<open>r = PLATFORM_RADIUS - 0.7\<close>) and of the V3 build loop (angle \<open>pi / 6 + i * pi / 3 - pi / 6\<close>,
  radius \<open>r = PILLAR_RADIUS_POS\<close>) are, in order,
  \<open>(r, 0)\<close>, \<open>(r / 2, r * sqrt 3 / 2)\<close>, \<open>(- r / 2, r * sqrt 3 / 2)\<close>, \<open>(- r, 0)\<close>,
  \<open>(- r / 2, - r * sqrt 3 / 2)\<close>, \<open>(r / 2, - r * sqrt 3 / 2)\<close>, each at distance \<open>r\<close> from the
  origin.
\<close>

theorem pillar_anchors_hexagon:
  "map pillar_anchor [0..<6] =
     (let r = PLATFORM_RADIUS - 0.7 in
      [(r, 0), (r / 2, r * sqrt 3 / 2), (- r / 2, r * sqrt 3 / 2), (- r, 0),
       (- r / 2, - (r * sqrt 3 / 2)), (r / 2, - (r * sqrt 3 / 2))]) \<and>
   v3_pillar_positions =
     (let r = V3_PILLAR_RADIUS_POS in
      [(r, 0), (r / 2, r * sqrt 3 / 2), (- r / 2, r * sqrt 3 / 2), (- r, 0),
       (- r / 2, - (r * sqrt 3 / 2)), (r / 2, - (r * sqrt 3 / 2))]) \<and>
   map (\<lambda>p. sqrt ((fst p)\<^sup>2 + (snd p)\<^sup>2)) (map pillar_anchor [0..<6])
     = (let r = PLATFORM_RADIUS - 0.7 in [r, r, r, r, r, r]) \<and>
   map (\<lambda>p. sqrt ((fst p)\<^sup>2 + (snd p)\<^sup>2)) v3_pillar_positions
     = (let r = V3_PILLAR_RADIUS_POS in [r, r, r, r, r, r])"
proof -
  have a: "map pillar_anchor [0..<6] =
     (let r = PLATFORM_RADIUS - 0.7 in
      [(r, 0), (r / 2, r * sqrt 3 / 2), (- r / 2, r * sqrt 3 / 2), (- r, 0),
       (- r / 2, - (r * sqrt 3 / 2)), (r / 2, - (r * sqrt 3 / 2))])"
    unfolding upt_0_6 by (simp add: pillar_anchor_def Let_def cs_60 cs_120 cs_240 cs_300)
  have b: "v3_pillar_positions =
     (let r = V3_PILLAR_RADIUS_POS in
      [(r, 0), (r / 2, r * sqrt 3 / 2), (- r / 2, r * sqrt 3 / 2), (- r, 0),
       (- r / 2, - (r * sqrt 3 / 2)), (r / 2, - (r * sqrt 3 / 2))])"
    unfolding v3_pillar_positions_def V3_NUM_SIDES_def upt_0_6
    by (simp add: Let_def cs_60 cs_120 cs_240 cs_300)
  have n: "\<And>i. sqrt ((fst (pillar_anchor i))\<^sup>2 + (snd (pillar_anchor i))\<^sup>2) = PLATFORM_RADIUS - 0.7"
    unfolding pillar_anchor_def Let_def fst_conv snd_conv
    by (rule norm_cs) (simp add: PLATFORM_RADIUS_def)
  have c: "map (\<lambda>p. sqrt ((fst p)\<^sup>2 + (snd p)\<^sup>2)) (map pillar_anchor [0..<6])
     = (let r = PLATFORM_RADIUS - 0.7 in [r, r, r, r, r, r])"
    unfolding upt_0_6 by (simp add: n Let_def)
  have m: "\<And>a. sqrt ((cos a * V3_PILLAR_RADIUS_POS)\<^sup>2 + (sin a * V3_PILLAR_RADIUS_POS)\<^sup>2)
              = V3_PILLAR_RADIUS_POS"
    by (rule norm_cs)
       (simp add: V3_PILLAR_RADIUS_POS_def V3_PLATFORM_RADIUS_def V3_PLATFORM_SIZE_def)
  have pos: "0 \<le> V3_PILLAR_RADIUS_POS"
    by (simp add: V3_PILLAR_RADIUS_POS_def V3_PLATFORM_RADIUS_def V3_PLATFORM_SIZE_def)
  have d: "map (\<lambda>p. sqrt ((fst p)\<^sup>2 + (snd p)\<^sup>2)) v3_pillar_positions
     = (let r = V3_PILLAR_RADIUS_POS in [r, r, r, r, r, r])"
    unfolding v3_pillar_positions_def V3_NUM_SIDES_def upt_0_6
    by (simp add: Let_def m pos)
  show ?thesis using a b c d by blast
qed


section \<open>Taper\<close>

lemma v1_create_corner_pillar_eval:
  "v1_create_corner_pillar host_verts (lx, ly, lz) rotation
     \<lparr>objects = os, active = a, selected = sel, rng = gen, rng_pos = p\<rparr> =
     ([fresh_id os, Suc (fresh_id os), Suc (Suc (fresh_id os)), Suc (Suc (Suc (fresh_id os))),
       Suc (Suc (Suc (Suc (fresh_id os))))],
      \<lparr>objects = os @
     [\<lparr>oid = fresh_id os, oname = Lit ''Pillar_Body'',
       geom = Verts (Primitive (Cylinder (Some 8) 0.4 V1_PILLAR_HEIGHT))
               (map v1_taper_vert (host_verts (Primitive (Cylinder (Some 8) 0.4 V1_PILLAR_HEIGHT)))),
       location = (lx, ly, V1_PILLAR_HEIGHT / 2), rotation_euler = (0, 0, 0), scale = (1, 1, 1),
       materials = [''obsidian''], modifiers = [], smooth = False, parent = None\<rparr>,
      \<lparr>oid = Suc (fresh_id os), oname = Lit ''Pillar_Base'',
       geom = Primitive (Cylinder (Some 8) 0.55 0.2),
       location = (lx, ly, 0.1), rotation_euler = (0, 0, 0), scale = (1, 1, 1),
       materials = [''obsidian''], modifiers = [], smooth = False, parent = None\<rparr>,
      \<lparr>oid = Suc (Suc (fresh_id os)), oname = Lit ''Pillar_Cap'',
       geom = Primitive (Cylinder (Some 8) 0.35 0.15),
       location = (lx, ly, V1_PILLAR_HEIGHT + 0.075), rotation_euler = (0, 0, 0), scale = (1, 1, 1),
       materials = [''obsidian''], modifiers = [], smooth = False, parent = None\<rparr>,
      \<lparr>oid = Suc (Suc (Suc (fresh_id os))), oname = Lit ''Floating_Crystal'',
       geom = Verts (Primitive (IcoSphere 2 0.2))
               (map v1_crystal_vert (host_verts (Primitive (IcoSphere 2 0.2)))),
       location = (lx, ly, V1_PILLAR_HEIGHT + 0.6), rotation_euler = (0, 0, 0), scale = (1, 1, 1),
       materials = [''crystal''], modifiers = [], smooth = False, parent = None\<rparr>,
      \<lparr>oid = Suc (Suc (Suc (Suc (fresh_id os)))), oname = Lit ''Crystal_Light'',
       geom = Light 0.5 (Some (0.6, 0.2, 0.9)) (Some 50) (Some 0.3),
       location = (lx, ly, V1_PILLAR_HEIGHT + 0.6), rotation_euler = (0, 0, 0), scale = (1, 1, 1),
       materials = [], modifiers = [], smooth = False, parent = None\<rparr>],
       active = Some (Suc (Suc (Suc (Suc (fresh_id os))))),
       selected = [Suc (Suc (Suc (Suc (fresh_id os))))], rng = gen, rng_pos = p\<rparr>)"
  supply TrueI [simproc del: let_simp]
  by (simp add: v1_create_corner_pillar_def ev_simps cong: let_weak_cong)

lemma taper_vert_cases:
  "snd (snd (taper_vert (x, y, z))) = z"
  "0 < z \<Longrightarrow> taper_vert (x, y, z) =
     (x * spec_lerp 1.0 0.85 (z / PILLAR_HEIGHT), y * spec_lerp 1.0 0.85 (z / PILLAR_HEIGHT), z)"
  "z \<le> 0 \<Longrightarrow> taper_vert (x, y, z) = (x, y, z)"
  by (simp_all add: taper_vert_def spec_lerp_def Let_def)

lemma v1_taper_vert_cases:
  "snd (snd (v1_taper_vert (x, y, z))) = z"
  "0 < z \<Longrightarrow> v1_taper_vert (x, y, z) =
     (x * spec_lerp 1.0 0.7 (z / V1_PILLAR_HEIGHT), y * spec_lerp 1.0 0.7 (z / V1_PILLAR_HEIGHT), z)"
  "z \<le> 0 \<Longrightarrow> v1_taper_vert (x, y, z) = (x, y, z)"
  by (simp_all add: v1_taper_vert_def spec_lerp_def Let_def)

lemma create_pillar_shaft:
  "\<exists>parts w' shaft.
      create_pillar host_verts px py index w = (parts, w') \<and>
      get_obj w' (hd parts) = Some shaft \<and>
      geom shaft = Verts (Primitive (Cylinder (Some 12) PILLAR_RADIUS PILLAR_HEIGHT))
        (map taper_vert (host_verts (Primitive (Cylinder (Some 12) PILLAR_RADIUS PILLAR_HEIGHT))))"
proof -
  have w: "\<lparr>objects = objects w, active = active w, selected = selected w, rng = rng w, rng_pos = rng_pos w\<rparr> = w"
    by simp
  show ?thesis
    using create_pillar_eval [of host_verts px py index "objects w" "active w" "selected w" "rng w" "rng_pos w"]
    unfolding w by (simp add: get_obj_def)
qed

lemma v1_corner_pillar_shaft:
  "\<exists>parts w' shaft.
      v1_create_corner_pillar host_verts loc rotation w = (parts, w') \<and>
      get_obj w' (hd parts) = Some shaft \<and>
      geom shaft = Verts (Primitive (Cylinder (Some 8) 0.4 V1_PILLAR_HEIGHT))
        (map v1_taper_vert (host_verts (Primitive (Cylinder (Some 8) 0.4 V1_PILLAR_HEIGHT))))"
proof -
  have w: "\<lparr>objects = objects w, active = active w, selected = selected w, rng = rng w, rng_pos = rng_pos w\<rparr> = w"
    by simp
  obtain lx ly lz where l: "loc = (lx, ly, lz)"
    by (cases loc) auto
  show ?thesis
    using v1_create_corner_pillar_eval [of host_verts lx ly lz rotation "objects w" "active w" "selected w" "rng w" "rng_pos w"]
    unfolding w l by (simp add: get_obj_def)
qed

text \<open>
  Claim C9.  \<^verbatim>\<open>create_pillar\<close> of V5 and \<^verbatim>\<open>create_corner_pillar\<close> of V1 leave a shaft whose
  vertices are those the host generated for the cylinder, tapered: the shaft is the first
  part returned, it has as many vertices as the host's cylinder, and every vertex keeps its
  \<open>z\<close> coordinate.  A vertex with \<open>z > 0\<close> has its \<open>x\<close> and \<open>y\<close> multiplied by the interpolation
  between start scale \<open>1\<close> and end scale \<open>0.85\<close> (V1: \<open>0.7\<close>) at \<open>z / PILLAR_HEIGHT\<close>; a vertex
  with \<open>z \<le> 0\<close> is left as it is.
\<close>

theorem taper_frame:
  "(i < length (host_verts (Primitive (Cylinder (Some 12) PILLAR_RADIUS PILLAR_HEIGHT))) \<longrightarrow>
    host_verts (Primitive (Cylinder (Some 12) PILLAR_RADIUS PILLAR_HEIGHT)) ! i = (x, y, z) \<longrightarrow>
      (\<exists>parts w' shaft vs.
         create_pillar host_verts px py index w = (parts, w') \<and>
         get_obj w' (hd parts) = Some shaft \<and>
         geom shaft = Verts (Primitive (Cylinder (Some 12) PILLAR_RADIUS PILLAR_HEIGHT)) vs \<and>
         length vs = length (host_verts (Primitive (Cylinder (Some 12) PILLAR_RADIUS PILLAR_HEIGHT))) \<and>
         snd (snd (vs ! i)) = z \<and>
         (0 < z \<longrightarrow> vs ! i =
            (x * spec_lerp 1.0 0.85 (z / PILLAR_HEIGHT), y * spec_lerp 1.0 0.85 (z / PILLAR_HEIGHT), z)) \<and>
         (z \<le> 0 \<longrightarrow> vs ! i = (x, y, z)))) \<and>
   (j < length (host_verts (Primitive (Cylinder (Some 8) 0.4 V1_PILLAR_HEIGHT))) \<longrightarrow>
    host_verts (Primitive (Cylinder (Some 8) 0.4 V1_PILLAR_HEIGHT)) ! j = (x', y', z') \<longrightarrow>
      (\<exists>parts w' shaft vs.
         v1_create_corner_pillar host_verts loc rotation w = (parts, w') \<and>
         get_obj w' (hd parts) = Some shaft \<and>
         geom shaft = Verts (Primitive (Cylinder (Some 8) 0.4 V1_PILLAR_HEIGHT)) vs \<and>
         length vs = length (host_verts (Primitive (Cylinder (Some 8) 0.4 V1_PILLAR_HEIGHT))) \<and>
         snd (snd (vs ! j)) = z' \<and>
         (0 < z' \<longrightarrow> vs ! j =
            (x' * spec_lerp 1.0 0.7 (z' / V1_PILLAR_HEIGHT), y' * spec_lerp 1.0 0.7 (z' / V1_PILLAR_HEIGHT), z')) \<and>
         (z' \<le> 0 \<longrightarrow> vs ! j = (x', y', z'))))"
proof (intro conjI impI)
  assume i: "i < length (host_verts (Primitive (Cylinder (Some 12) PILLAR_RADIUS PILLAR_HEIGHT)))"
    and v: "host_verts (Primitive (Cylinder (Some 12) PILLAR_RADIUS PILLAR_HEIGHT)) ! i = (x, y, z)"
  obtain parts w' shaft where r: "create_pillar host_verts px py index w = (parts, w')"
    "get_obj w' (hd parts) = Some shaft"
    "geom shaft = Verts (Primitive (Cylinder (Some 12) PILLAR_RADIUS PILLAR_HEIGHT))
        (map taper_vert (host_verts (Primitive (Cylinder (Some 12) PILLAR_RADIUS PILLAR_HEIGHT))))"
    using create_pillar_shaft by blast
  have n: "map taper_vert (host_verts (Primitive (Cylinder (Some 12) PILLAR_RADIUS PILLAR_HEIGHT))) ! i
      = taper_vert (x, y, z)"
    using i v by simp
  show "\<exists>parts w' shaft vs.
         create_pillar host_verts px py index w = (parts, w') \<and>
         get_obj w' (hd parts) = Some shaft \<and>
         geom shaft = Verts (Primitive (Cylinder (Some 12) PILLAR_RADIUS PILLAR_HEIGHT)) vs \<and>
         length vs = length (host_verts (Primitive (Cylinder (Some 12) PILLAR_RADIUS PILLAR_HEIGHT))) \<and>
         snd (snd (vs ! i)) = z \<and>
         (0 < z \<longrightarrow> vs ! i =
            (x * spec_lerp 1.0 0.85 (z / PILLAR_HEIGHT), y * spec_lerp 1.0 0.85 (z / PILLAR_HEIGHT), z)) \<and>
         (z \<le> 0 \<longrightarrow> vs ! i = (x, y, z))"
    apply (intro exI conjI)
          apply (rule r(1))
         apply (rule r(2))
        apply (rule r(3))
       apply simp
      apply (simp only: n taper_vert_cases(1))
     apply (rule impI, simp only: n, erule taper_vert_cases(2))
    apply (rule impI, simp only: n, erule taper_vert_cases(3))
    done
next
  assume j: "j < length (host_verts (Primitive (Cylinder (Some 8) 0.4 V1_PILLAR_HEIGHT)))"
    and v: "host_verts (Primitive (Cylinder (Some 8) 0.4 V1_PILLAR_HEIGHT)) ! j = (x', y', z')"
  obtain parts w' shaft where r: "v1_create_corner_pillar host_verts loc rotation w = (parts, w')"
    "get_obj w' (hd parts) = Some shaft"
    "geom shaft = Verts (Primitive (Cylinder (Some 8) 0.4 V1_PILLAR_HEIGHT))
        (map v1_taper_vert (host_verts (Primitive (Cylinder (Some 8) 0.4 V1_PILLAR_HEIGHT))))"
    using v1_corner_pillar_shaft by blast
  have n: "map v1_taper_vert (host_verts (Primitive (Cylinder (Some 8) 0.4 V1_PILLAR_HEIGHT))) ! j
      = v1_taper_vert (x', y', z')"
    using j v by simp
  show "\<exists>parts w' shaft vs.
         v1_create_corner_pillar host_verts loc rotation w = (parts, w') \<and>
         get_obj w' (hd parts) = Some shaft \<and>
         geom shaft = Verts (Primitive (Cylinder (Some 8) 0.4 V1_PILLAR_HEIGHT)) vs \<and>
         length vs = length (host_verts (Primitive (Cylinder (Some 8) 0.4 V1_PILLAR_HEIGHT))) \<and>
         snd (snd (vs ! j)) = z' \<and>
         (0 < z' \<longrightarrow> vs ! j =
            (x' * spec_lerp 1.0 0.7 (z' / V1_PILLAR_HEIGHT), y' * spec_lerp 1.0 0.7 (z' / V1_PILLAR_HEIGHT), z')) \<and>
         (z' \<le> 0 \<longrightarrow> vs ! j = (x', y', z'))"
    apply (intro exI conjI)
          apply (rule r(1))
         apply (rule r(2))
        apply (rule r(3))
       apply simp
      apply (simp only: n v1_taper_vert_cases(1))
     apply (rule impI, simp only: n, erule v1_taper_vert_cases(2))
    apply (rule impI, simp only: n, erule v1_taper_vert_cases(3))
    done
qed

theorem taper_frame_witness:
  "(\<exists>parts w' shaft vs.
      create_pillar (\<lambda>g. [(1, 2, 3 / 2), (1, 2, - 1)]) 3 4 0 empty_world = (parts, w') \<and>
      get_obj w' (hd parts) = Some shaft \<and>
      geom shaft = Verts (Primitive (Cylinder (Some 12) PILLAR_RADIUS PILLAR_HEIGHT)) vs \<and>
      length vs = 2 \<and> vs ! 0 = (37 / 40, 37 / 20, 3 / 2)) \<and>
   (\<exists>parts w' shaft vs.
      v1_create_corner_pillar (\<lambda>g. [(1, 2, 3 / 2), (1, 2, - 1)]) (5, 5, 0) 0 empty_world = (parts, w') \<and>
      get_obj w' (hd parts) = Some shaft \<and>
      geom shaft = Verts (Primitive (Cylinder (Some 8) 0.4 V1_PILLAR_HEIGHT)) vs \<and>
      length vs = 2 \<and> vs ! 1 = (1, 2, - 1))"
  using taper_frame [where i = 0 and host_verts = "\<lambda>g. [(1, 2, 3 / 2), (1, 2, - 1)]"
      and x = 1 and y = 2 and z = "3 / 2" and px = 3 and py = 4 and index = 0 and w = empty_world
      and j = 1 and x' = 1 and y' = 2 and z' = "- 1" and loc = "(5, 5, 0)" and rotation = 0]
  apply (simp add: spec_lerp_def PILLAR_HEIGHT_def numeral_2_eq_2)
  apply blast
  done

section \<open>Bezier tessellation\<close>

lemma bez_spec: "bez (P0, P1, P2) t = spec_bezier P0 P1 P2 t"
  by (cases P0, cases P1, cases P2) (simp add: bez_def spec_bezier_def Let_def power2_eq_square)

lemma chain_step_proj:
  "v4_chain_step points links j (chain_objs, \<lparr>objects = os, active = a, selected = sel, rng = gen, rng_pos = p\<rparr>) =
     (chain_objs @ [fresh_id os],
      \<lparr>objects = os @
         [\<lparr>oid = fresh_id os, oname = HostDefault,
           geom = fst (v4_chain_segment points links j),
           location = fst (snd (v4_chain_segment points links j)),
           rotation_euler = snd (snd (v4_chain_segment points links j)),
           scale = (1, 1, 1), materials = [''metal''], modifiers = [], smooth = False,
           parent = None\<rparr>],
       active = Some (fresh_id os), selected = [fresh_id os], rng = gen, rng_pos = p\<rparr>)"
  by (rule v4_chain_step_eval) simp

lemma chain_loop:
  "\<exists>a' sel'. fold (v4_chain_step points links) js (acc, \<lparr>objects = os, active = a, selected = sel, rng = gen, rng_pos = p\<rparr>) =
      (acc @ map (\<lambda>k. fresh_id os + k) [0..<length js],
       \<lparr>objects = os @
          map (\<lambda>k. \<lparr>oid = fresh_id os + k, oname = HostDefault,
                     geom = fst (v4_chain_segment points links (js ! k)),
                     location = fst (snd (v4_chain_segment points links (js ! k))),
                     rotation_euler = snd (snd (v4_chain_segment points links (js ! k))),
                     scale = (1, 1, 1), materials = [''metal''], modifiers = [], smooth = False,
                     parent = None\<rparr>) [0..<length js],
        active = a', selected = sel', rng = gen, rng_pos = p\<rparr>)"
  using fold_one [where step = "v4_chain_step points links" and d = 0
      and mk = "\<lambda>gen j h p. \<lparr>oid = h, oname = HostDefault,
                     geom = fst (v4_chain_segment points links j),
                     location = fst (snd (v4_chain_segment points links j)),
                     rotation_euler = snd (snd (v4_chain_segment points links j)),
                     scale = (1, 1, 1), materials = [''metal''], modifiers = [], smooth = False,
                     parent = None\<rparr>" and js = js and acc = acc and os = os and a = a and sel = sel and gen = gen and p = p]
  by (simp add: chain_step_proj)

lemma chain_segment_spec:
  "v4_chain_segment (P0, P1, P2) links j =
     (let p1 = spec_bezier P0 P1 P2 (real j / real links);
          p2 = spec_bezier P0 P1 P2 ((real j + 1) / real links)
      in (Primitive (Cylinder None 0.035
            (sqrt ((fst p1 - fst p2)\<^sup>2 + (fst (snd p1) - fst (snd p2))\<^sup>2
                   + (snd (snd p1) - snd (snd p2))\<^sup>2))),
          ((fst p1 + fst p2) / 2, (fst (snd p1) + fst (snd p2)) / 2, (snd (snd p1) + snd (snd p2)) / 2),
          (pi / 2, 0, atan2 (fst (snd p2) - fst (snd p1)) (fst p2 - fst p1))))"
  by (simp add: v4_chain_segment_def bez_spec Let_def dist3_def split_def)

lemma fold_nested:
  "fold (\<lambda>e. fold (body e) js) es s = fold (\<lambda>q. body (fst q) (snd q)) (List.product es js) s"
  by (induction es arbitrary: s) (simp_all add: fold_map comp_def)

lemma chains_loop:
  "\<exists>a' sel'. fold (\<lambda>q. v4_chain_step (pts (fst q)) links (snd q)) qs
        (acc, \<lparr>objects = os, active = a, selected = sel, rng = gen, rng_pos = p\<rparr>) =
      (acc @ map (\<lambda>k. fresh_id os + k) [0..<length qs],
       \<lparr>objects = os @
          map (\<lambda>k. \<lparr>oid = fresh_id os + k, oname = HostDefault,
                     geom = fst (v4_chain_segment (pts (fst (qs ! k))) links (snd (qs ! k))),
                     location = fst (snd (v4_chain_segment (pts (fst (qs ! k))) links (snd (qs ! k)))),
                     rotation_euler = snd (snd (v4_chain_segment (pts (fst (qs ! k))) links (snd (qs ! k)))),
                     scale = (1, 1, 1), materials = [''metal''], modifiers = [], smooth = False,
                     parent = None\<rparr>) [0..<length qs],
        active = a', selected = sel', rng = gen, rng_pos = p\<rparr>)"
  using fold_one [where step = "\<lambda>q. v4_chain_step (pts (fst q)) links (snd q)" and d = 0
      and mk = "\<lambda>gen q h p. \<lparr>oid = h, oname = HostDefault,
                     geom = fst (v4_chain_segment (pts (fst q)) links (snd q)),
                     location = fst (snd (v4_chain_segment (pts (fst q)) links (snd q))),
                     rotation_euler = snd (snd (v4_chain_segment (pts (fst q)) links (snd q))),
                     scale = (1, 1, 1), materials = [''metal''], modifiers = [], smooth = False,
                     parent = None\<rparr>" and js = qs and acc = acc and os = os and a = a and sel = sel and gen = gen and p = p]
  by (simp add: chain_step_proj)

lemma product_6_12:
  assumes "i < 6" "j < 12"
  shows "List.product [0..<6] [0..<12] ! (12 * i + j) = (i, j)"
proof -
  have n: "12 * i + j < length [0..<6] * length [0..<12]"
    using assms by simp
  have d: "(12 * i + j) div 12 = i" "(12 * i + j) mod 12 = j"
    using assms by simp_all
  show ?thesis
    using assms by (simp only: product_nth [OF n] length_upt diff_zero d nth_upt add_0 )
qed

lemma chains_between_eval:
  assumes "V4_NUM_SIDES \<le> length pillar_positions"
  shows "\<exists>a' sel'. v4_chains_between pillar_positions
        \<lparr>objects = os, active = a, selected = sel, rng = gen, rng_pos = p\<rparr> =
      Inr (map (\<lambda>k. fresh_id os + k) [0..<72],
       \<lparr>objects = os @
          map (\<lambda>k. \<lparr>oid = fresh_id os + k, oname = HostDefault,
                     geom = fst (v4_chain_segment (v4_chain_points pillar_positions (fst (List.product [0..<6] [0..<12] ! k))) 12 (snd (List.product [0..<6] [0..<12] ! k))),
                     location = fst (snd (v4_chain_segment (v4_chain_points pillar_positions (fst (List.product [0..<6] [0..<12] ! k))) 12 (snd (List.product [0..<6] [0..<12] ! k)))),
                     rotation_euler = snd (snd (v4_chain_segment (v4_chain_points pillar_positions (fst (List.product [0..<6] [0..<12] ! k))) 12 (snd (List.product [0..<6] [0..<12] ! k)))),
                     scale = (1, 1, 1), materials = [''metal''], modifiers = [], smooth = False,
                     parent = None\<rparr>) [0..<72],
        active = a', selected = sel', rng = gen, rng_pos = p\<rparr>)"
proof -
  have l: "length (List.product [0..<6] [0..<12::nat]) = 72"
    by simp
  have e: "v4_chains_between pillar_positions \<lparr>objects = os, active = a, selected = sel, rng = gen, rng_pos = p\<rparr> =
      Inr (fold (\<lambda>q. v4_chain_step (v4_chain_points pillar_positions (fst q)) 12 (snd q))
             (List.product [0..<6] [0..<12])
             ([], \<lparr>objects = os, active = a, selected = sel, rng = gen, rng_pos = p\<rparr>))"
  proof -
    have c: "\<not> length pillar_positions < 6"
      using assms by (simp add: V4_NUM_SIDES_def)
    show ?thesis
      unfolding v4_chains_between_def Let_def
      by (simp only: V4_NUM_SIDES_def c if_False
            fold_nested [of "\<lambda>i. v4_chain_step (v4_chain_points pillar_positions i) 12" "[0..<12]" "[0..<6]"])
  qed
  show ?thesis
    unfolding e
    using chains_loop [of "v4_chain_points pillar_positions" 12 "List.product [0..<6] [0..<12]" "[]" os a sel gen p]
    unfolding l by simp
qed

text \<open>
  Claim C3.  \<^verbatim>\<open>chains_between\<close> of V4, given at least six pillar positions, returns normally
  and adds exactly \<open>6 * 12\<close> cylinders to the scene, twelve for each of the six chains; the
  script fixes the sample count at \<open>12\<close> and the tube radius at \<open>0.035\<close>.  Cylinder \<open>k\<close> of
  chain \<open>i\<close> is the object at position \<open>12 * i + k\<close> among the new objects and in the list
  returned.  With \<open>P0\<close>, \<open>P1\<close>, \<open>P2\<close> the control points of chain \<open>i\<close> and \<open>B\<close> the quadratic
  Bezier curve through them, the cylinder spans \<open>B (k / 12)\<close> and \<open>B ((k + 1) / 12)\<close>: its
  depth is their Euclidean distance, its location their midpoint, and its rotation is
  \<open>pi / 2\<close> about the first axis, \<open>0\<close> about the second and \<open>atan2 \<Delta>y \<Delta>x\<close> about the vertical
  axis.  With fewer than six pillar positions the indexing fails.  The inner loop alone,
  run on any control points with any sample count \<open>links\<close>, adds \<open>links\<close> cylinders in the
  same way.
\<close>

theorem bezier_tessellation:
  "(V4_NUM_SIDES \<le> length pillar_positions \<longrightarrow> i < V4_NUM_SIDES \<longrightarrow> k < 12 \<longrightarrow>
     (\<exists>hs w'. v4_chains_between pillar_positions w = Inr (hs, w') \<and>
        length hs = 72 \<and> length (objects w') = length (objects w) + 72 \<and>
        (case v4_chain_points pillar_positions i of (P0, P1, P2) \<Rightarrow>
          (let p1 = spec_bezier P0 P1 P2 (real k / 12);
               p2 = spec_bezier P0 P1 P2 ((real k + 1) / 12);
               seg = objects w' ! (length (objects w) + (12 * i + k))
           in hs ! (12 * i + k) = oid seg \<and>
              geom seg = Primitive (Cylinder None 0.035
                      (sqrt ((fst p1 - fst p2)\<^sup>2 + (fst (snd p1) - fst (snd p2))\<^sup>2
                             + (snd (snd p1) - snd (snd p2))\<^sup>2))) \<and>
              location seg = ((fst p1 + fst p2) / 2, (fst (snd p1) + fst (snd p2)) / 2,
                              (snd (snd p1) + snd (snd p2)) / 2) \<and>
              rotation_euler seg = (pi / 2, 0, atan2 (fst (snd p2) - fst (snd p1)) (fst p2 - fst p1)))))) \<and>
   (length pillar_positions < V4_NUM_SIDES \<longrightarrow>
      v4_chains_between pillar_positions w = Inl IndexError) \<and>
   (j < links \<longrightarrow>
     (\<exists>hs w'. fold (v4_chain_step (Q0, Q1, Q2) links) [0..<links] ([], w) = (hs, w') \<and>
       length hs = links \<and> length (objects w') = length (objects w) + links \<and>
       (let p1 = spec_bezier Q0 Q1 Q2 (real j / real links);
            p2 = spec_bezier Q0 Q1 Q2 ((real j + 1) / real links);
            seg = objects w' ! (length (objects w) + j)
        in geom seg = Primitive (Cylinder None 0.035
                      (sqrt ((fst p1 - fst p2)\<^sup>2 + (fst (snd p1) - fst (snd p2))\<^sup>2
                             + (snd (snd p1) - snd (snd p2))\<^sup>2))) \<and>
           location seg = ((fst p1 + fst p2) / 2, (fst (snd p1) + fst (snd p2)) / 2,
                           (snd (snd p1) + snd (snd p2)) / 2) \<and>
           rotation_euler seg = (pi / 2, 0, atan2 (fst (snd p2) - fst (snd p1)) (fst p2 - fst p1)))))"
proof (intro conjI impI)
  assume n: "V4_NUM_SIDES \<le> length pillar_positions" and i: "i < V4_NUM_SIDES" and k: "k < 12"
  have w: "\<lparr>objects = objects w, active = active w, selected = selected w, rng = rng w, rng_pos = rng_pos w\<rparr> = w"
    by simp
  have i6: "i < 6"
    using i by (simp add: V4_NUM_SIDES_def)
  have b: "12 * i + k < 72"
    using i6 k by simp
  obtain P0 P1 P2 where pts: "v4_chain_points pillar_positions i = (P0, P1, P2)"
    by (cases "v4_chain_points pillar_positions i") auto
  obtain a' sel' where r: "v4_chains_between pillar_positions w =
      Inr (map (\<lambda>k. fresh_id (objects w) + k) [0..<72],
       \<lparr>objects = objects w @
          map (\<lambda>k. \<lparr>oid = fresh_id (objects w) + k, oname = HostDefault,
                     geom = fst (v4_chain_segment (v4_chain_points pillar_positions (fst (List.product [0..<6] [0..<12] ! k))) 12 (snd (List.product [0..<6] [0..<12] ! k))),
                     location = fst (snd (v4_chain_segment (v4_chain_points pillar_positions (fst (List.product [0..<6] [0..<12] ! k))) 12 (snd (List.product [0..<6] [0..<12] ! k)))),
                     rotation_euler = snd (snd (v4_chain_segment (v4_chain_points pillar_positions (fst (List.product [0..<6] [0..<12] ! k))) 12 (snd (List.product [0..<6] [0..<12] ! k)))),
                     scale = (1, 1, 1), materials = [''metal''], modifiers = [], smooth = False,
                     parent = None\<rparr>) [0..<72],
        active = a', selected = sel', rng = rng w, rng_pos = rng_pos w\<rparr>)"
    using chains_between_eval [OF n, of "objects w" "active w" "selected w" "rng w" "rng_pos w"]
    unfolding w by blast
  show "\<exists>hs w'. v4_chains_between pillar_positions w = Inr (hs, w') \<and>
        length hs = 72 \<and> length (objects w') = length (objects w) + 72 \<and>
        (case v4_chain_points pillar_positions i of (P0, P1, P2) \<Rightarrow>
          (let p1 = spec_bezier P0 P1 P2 (real k / 12);
               p2 = spec_bezier P0 P1 P2 ((real k + 1) / 12);
               seg = objects w' ! (length (objects w) + (12 * i + k))
           in hs ! (12 * i + k) = oid seg \<and>
              geom seg = Primitive (Cylinder None 0.035
                      (sqrt ((fst p1 - fst p2)\<^sup>2 + (fst (snd p1) - fst (snd p2))\<^sup>2
                             + (snd (snd p1) - snd (snd p2))\<^sup>2))) \<and>
              location seg = ((fst p1 + fst p2) / 2, (fst (snd p1) + fst (snd p2)) / 2,
                              (snd (snd p1) + snd (snd p2)) / 2) \<and>
              rotation_euler seg = (pi / 2, 0, atan2 (fst (snd p2) - fst (snd p1)) (fst p2 - fst p1))))"
    unfolding r pts
    using b
    by (simp add: nth_append product_6_12 [OF i6 k] pts chain_segment_spec Let_def
          del: upt_rec_numeral List.product.simps)
next
  assume "length pillar_positions < V4_NUM_SIDES"
  then show "v4_chains_between pillar_positions w = Inl IndexError"
    by (simp add: v4_chains_between_def)
next
  assume j: "j < links"
  obtain a' sel' where r:
    "fold (v4_chain_step (Q0, Q1, Q2) links) [0..<links]
        ([], \<lparr>objects = objects w, active = active w, selected = selected w, rng = rng w, rng_pos = rng_pos w\<rparr>) =
      ([] @ map (\<lambda>k. fresh_id (objects w) + k) [0..<length [0..<links]],
       \<lparr>objects = objects w @
          map (\<lambda>k. \<lparr>oid = fresh_id (objects w) + k, oname = HostDefault,
                     geom = fst (v4_chain_segment (Q0, Q1, Q2) links ([0..<links] ! k)),
                     location = fst (snd (v4_chain_segment (Q0, Q1, Q2) links ([0..<links] ! k))),
                     rotation_euler = snd (snd (v4_chain_segment (Q0, Q1, Q2) links ([0..<links] ! k))),
                     scale = (1, 1, 1), materials = [''metal''], modifiers = [], smooth = False,
                     parent = None\<rparr>) [0..<length [0..<links]],
        active = a', selected = sel', rng = rng w, rng_pos = rng_pos w\<rparr>)"
    using chain_loop [of "(Q0, Q1, Q2)" links "[0..<links]" "[]" "objects w" "active w" "selected w" "rng w" "rng_pos w"]
    by blast
  have w: "\<lparr>objects = objects w, active = active w, selected = selected w, rng = rng w, rng_pos = rng_pos w\<rparr> = w"
    by simp
  show "\<exists>hs w'. fold (v4_chain_step (Q0, Q1, Q2) links) [0..<links] ([], w) = (hs, w') \<and>
       length hs = links \<and> length (objects w') = length (objects w) + links \<and>
       (let p1 = spec_bezier Q0 Q1 Q2 (real j / real links);
            p2 = spec_bezier Q0 Q1 Q2 ((real j + 1) / real links);
            seg = objects w' ! (length (objects w) + j)
        in geom seg = Primitive (Cylinder None 0.035
                      (sqrt ((fst p1 - fst p2)\<^sup>2 + (fst (snd p1) - fst (snd p2))\<^sup>2
                             + (snd (snd p1) - snd (snd p2))\<^sup>2))) \<and>
           location seg = ((fst p1 + fst p2) / 2, (fst (snd p1) + fst (snd p2)) / 2,
                           (snd (snd p1) + snd (snd p2)) / 2) \<and>
           rotation_euler seg = (pi / 2, 0, atan2 (fst (snd p2) - fst (snd p1)) (fst p2 - fst p1)))"
    using r j unfolding w
    by (simp add: nth_append chain_segment_spec Let_def)
qed

theorem bezier_tessellation_witness:
  "(\<exists>hs w'. v4_chains_between [(0, 0), (2, 0), (2, 2), (0, 2), (- 2, 2), (- 2, 0)] empty_world = Inr (hs, w') \<and>
      length hs = 72 \<and> length (objects w') = 72 \<and>
      hs ! 18 = oid (objects w' ! 18) \<and>
      geom (objects w' ! 18) = Primitive (Cylinder None 0.035 (sqrt (1601 / 57600))) \<and>
      location (objects w' ! 18) = (2, 13 / 12, 1009 / 480) \<and>
      rotation_euler (objects w' ! 18) = (pi / 2, 0, pi / 2)) \<and>
   v4_chains_between [(0, 0), (2, 0)] empty_world = Inl IndexError \<and>
   (\<exists>hs w'. fold (v4_chain_step ((0, 0, 0), (1, 0, - 1), (2, 0, 0)) 2) [0..<2] ([], empty_world) = (hs, w') \<and>
      length hs = 2 \<and> length (objects w') = 2 \<and>
      geom (objects w' ! 0) = Primitive (Cylinder None 0.035 (sqrt (5 / 4))) \<and>
      location (objects w' ! 0) = (1 / 2, 0, - (1 / 4)) \<and>
      rotation_euler (objects w' ! 0) = (pi / 2, 0, 0))"
proof -
  have e: "length (objects empty_world) = 0"
    by (simp add: empty_world_def)
  have p: "v4_chain_points [(0, 0), (2, 0), (2, 2), (0, 2), (- 2, 2), (- 2, 0)] (Suc 0)
      = ((2, 0, 9 / 4), (2, 1, 39 / 20), (2, 2, 9 / 4))"
    by (simp add: v4_chain_points_def V4_NUM_SIDES_def V4_PILLAR_HEIGHT_def Let_def)
  have a: "(\<exists>hs w'. v4_chains_between [(0, 0), (2, 0), (2, 2), (0, 2), (- 2, 2), (- 2, 0)] empty_world = Inr (hs, w') \<and>
      length hs = 72 \<and> length (objects w') = 72 \<and>
      hs ! 18 = oid (objects w' ! 18) \<and>
      geom (objects w' ! 18) = Primitive (Cylinder None 0.035 (sqrt (1601 / 57600))) \<and>
      location (objects w' ! 18) = (2, 13 / 12, 1009 / 480) \<and>
      rotation_euler (objects w' ! 18) = (pi / 2, 0, pi / 2))"
    using bezier_tessellation [where pillar_positions = "[(0, 0), (2, 0), (2, 2), (0, 2), (- 2, 2), (- 2, 0)]"
        and i = 1 and k = 6 and w = empty_world and j = 0 and links = 0]
    by (simp add: e p V4_NUM_SIDES_def spec_bezier_def Let_def atan2_def power2_eq_square)
  have b: "v4_chains_between [(0, 0), (2, 0)] empty_world = Inl IndexError"
    using bezier_tessellation [where pillar_positions = "[(0, 0), (2, 0)]" and w = empty_world
        and i = 6 and j = 0 and links = 0]
    by (simp add: V4_NUM_SIDES_def)
  have c: "(\<exists>hs w'. fold (v4_chain_step ((0, 0, 0), (1, 0, - 1), (2, 0, 0)) 2) [0..<2] ([], empty_world) = (hs, w') \<and>
      length hs = 2 \<and> length (objects w') = 2 \<and>
      geom (objects w' ! 0) = Primitive (Cylinder None 0.035 (sqrt (5 / 4))) \<and>
      location (objects w' ! 0) = (1 / 2, 0, - (1 / 4)) \<and>
      rotation_euler (objects w' ! 0) = (pi / 2, 0, 0))"
    using bezier_tessellation [where pillar_positions = "[]" and w = empty_world
        and j = 0 and links = 2 and ?Q0.0 = "(0, 0, 0)" and ?Q1.0 = "(1, 0, - 1)" and ?Q2.0 = "(2, 0, 0)"]
    by (simp add: e V4_NUM_SIDES_def spec_bezier_def Let_def atan2_def power2_eq_square) (simp add: numeral_2_eq_2)
  from a b c show ?thesis
    by (intro conjI)
qed

section \<open>Scatter placement\<close>

lemma skulls_loop:
  "\<exists>a' sel'. fold skull_step js (acc, \<lparr>objects = os, active = a, selected = sel, rng = gen, rng_pos = p\<rparr>) =
      (acc @ map (\<lambda>k. fresh_id os + k) [0..<length js],
       \<lparr>objects = os @
          map (\<lambda>k. \<lparr>oid = fresh_id os + k, oname = Idx ''Skull_'' (js ! k),
                     geom = Applied ((2.5 + (5.0 - 2.5) * gen (Suc (p + 2 * k))) * cos (0 + (2 * pi - 0) * gen (p + 2 * k)),
                                 (2.5 + (5.0 - 2.5) * gen (Suc (p + 2 * k))) * sin (0 + (2 * pi - 0) * gen (p + 2 * k)),
                                 0.05) (0, 0, 0) (1.0, 0.8, 0.85) (Primitive (IcoSphere 2 0.08)),
                     location = (0, 0, 0),
                     rotation_euler = (0, 0, 0),
                     scale = (1, 1, 1), materials = [''bone''], modifiers = [], smooth = False,
                     parent = None\<rparr>) [0..<length js],
        active = a', selected = sel', rng = gen, rng_pos = p + 2 * length js\<rparr>)"
  using fold_one [where step = skull_step and d = 2
      and mk = "\<lambda>gen j h p. \<lparr>oid = h, oname = Idx ''Skull_'' j,
                     geom = Applied ((2.5 + (5.0 - 2.5) * gen (Suc p)) * cos (0 + (2 * pi - 0) * gen p),
                                 (2.5 + (5.0 - 2.5) * gen (Suc p)) * sin (0 + (2 * pi - 0) * gen p),
                                 0.05) (0, 0, 0) (1.0, 0.8, 0.85) (Primitive (IcoSphere 2 0.08)),
                     location = (0, 0, 0),
                     rotation_euler = (0, 0, 0),
                     scale = (1, 1, 1), materials = [''bone''], modifiers = [], smooth = False,
                     parent = None\<rparr>" and js = js and acc = acc and os = os and a = a and sel = sel and gen = gen and p = p]
  by (simp add: skull_step_eval)

lemma v3_skulls_loop:
  "\<exists>a' sel'. fold (v3_skull_step radius) js (acc, \<lparr>objects = os, active = a, selected = sel, rng = gen, rng_pos = p\<rparr>) =
      (acc @ map (\<lambda>k. fresh_id os + k) [0..<length js],
       \<lparr>objects = os @
          map (\<lambda>k. \<lparr>oid = fresh_id os + k, oname = HostDefault,
                     geom = Primitive (IcoSphere 2 0.12),
                     location = (cos (gen (p + 2 * k) * (2 * pi)) * (radius * sqrt (gen (Suc (p + 2 * k)))),
                                 sin (gen (p + 2 * k) * (2 * pi)) * (radius * sqrt (gen (Suc (p + 2 * k)))),
                                 0.06),
                     rotation_euler = (0, 0, 0),
                     scale = (1, 1, 1 * 0.8), materials = [''bone''], modifiers = [], smooth = False,
                     parent = None\<rparr>) [0..<length js],
        active = a', selected = sel', rng = gen, rng_pos = p + 2 * length js\<rparr>)"
  using fold_one [where step = "v3_skull_step radius" and d = 2
      and mk = "\<lambda>gen j h p. \<lparr>oid = h, oname = HostDefault,
                     geom = Primitive (IcoSphere 2 0.12),
                     location = (cos (gen p * (2 * pi)) * (radius * sqrt (gen (Suc p))),
                                 sin (gen p * (2 * pi)) * (radius * sqrt (gen (Suc p))),
                                 0.06),
                     rotation_euler = (0, 0, 0),
                     scale = (1, 1, 1 * 0.8), materials = [''bone''], modifiers = [], smooth = False,
                     parent = None\<rparr>" and js = js and acc = acc and os = os and a = a and sel = sel and gen = gen and p = p]
  by (simp add: v3_skull_step_eval)

lemma create_skulls_result:
  "\<exists>hs w'. create_skulls count w = (hs, w') \<and> length hs = count \<and>
     length (objects w') = length (objects w) + count \<and>
     (\<forall>k<count. geom (objects w' ! (length (objects w) + k)) =
        Applied
         ((2.5 + (5.0 - 2.5) * rng w (Suc (rng_pos w + 2 * k))) * cos (0 + (2 * pi - 0) * rng w (rng_pos w + 2 * k)),
          (2.5 + (5.0 - 2.5) * rng w (Suc (rng_pos w + 2 * k))) * sin (0 + (2 * pi - 0) * rng w (rng_pos w + 2 * k)),
          0.05) (0, 0, 0) (1.0, 0.8, 0.85) (Primitive (IcoSphere 2 0.08)) \<and>
        location (objects w' ! (length (objects w) + k)) = (0, 0, 0))"
proof -
  have w: "\<lparr>objects = objects w, active = active w, selected = selected w, rng = rng w, rng_pos = rng_pos w\<rparr> = w"
    by simp
  show ?thesis
    using skulls_loop [of "[0..<count]" "[]" "objects w" "active w" "selected w" "rng w" "rng_pos w"]
    unfolding w create_skulls_def
    by (auto simp: nth_append)
qed

lemma v3_create_skulls_result:
  "\<exists>hs w'. v3_create_skulls count radius w = (hs, w') \<and> length hs = count \<and>
     length (objects w') = length (objects w) + count \<and>
     (\<forall>k<count. location (objects w' ! (length (objects w) + k)) =
        (cos (rng w (rng_pos w + 2 * k) * (2 * pi)) * (radius * sqrt (rng w (Suc (rng_pos w + 2 * k)))),
         sin (rng w (rng_pos w + 2 * k) * (2 * pi)) * (radius * sqrt (rng w (Suc (rng_pos w + 2 * k)))),
         0.06) \<and>
        geom (objects w' ! (length (objects w) + k)) = Primitive (IcoSphere 2 0.12))"
proof -
  have w: "\<lparr>objects = objects w, active = active w, selected = selected w, rng = rng w, rng_pos = rng_pos w\<rparr> = w"
    by simp
  show ?thesis
    using v3_skulls_loop [of radius "[0..<count]" "[]" "objects w" "active w" "selected w" "rng w" "rng_pos w"]
    unfolding w v3_create_skulls_def
    by (auto simp: nth_append)
qed

text \<open>
  In V5 the radial distance of a skull is not \<open>R * sqrt u\<close>.  With a generator whose draws
  are all \<open>0\<close>, the one skull of \<^verbatim>\<open>create_skulls(1)\<close> on the empty scene is created at
  \<open>(5 / 2, 0, 1 / 20)\<close>, at planar distance \<open>5 / 2\<close> from the origin, while \<open>sqrt u = 0\<close> for the
  draw \<open>u\<close> that gives its radius.  \<^verbatim>\<open>transform_apply\<close> then moves that placement into the mesh
  and leaves the object's own location at the origin.
\<close>

theorem v5_skull_radius_counterexample:
  "geom (objects (snd (create_skulls 1 empty_world)) ! 0) =
     Applied (5 / 2, 0, 1 / 20) (0, 0, 0) (1, 4 / 5, 17 / 20) (Primitive (IcoSphere 2 (2 / 25))) \<and>
   location (objects (snd (create_skulls 1 empty_world)) ! 0) = (0, 0, 0) \<and>
   rng empty_world (Suc (rng_pos empty_world)) = 0 \<and>
   sqrt (rng empty_world (Suc (rng_pos empty_world))) = 0"
proof -
  obtain hs w' where r: "create_skulls 1 empty_world = (hs, w')"
    and l: "\<forall>k<1. geom (objects w' ! (length (objects empty_world) + k)) =
        Applied
         ((2.5 + (5.0 - 2.5) * rng empty_world (Suc (rng_pos empty_world + 2 * k)))
            * cos (0 + (2 * pi - 0) * rng empty_world (rng_pos empty_world + 2 * k)),
          (2.5 + (5.0 - 2.5) * rng empty_world (Suc (rng_pos empty_world + 2 * k)))
            * sin (0 + (2 * pi - 0) * rng empty_world (rng_pos empty_world + 2 * k)),
          0.05) (0, 0, 0) (1.0, 0.8, 0.85) (Primitive (IcoSphere 2 0.08)) \<and>
        location (objects w' ! (length (objects empty_world) + k)) = (0, 0, 0)"
    using create_skulls_result [of 1 empty_world] by blast
  have e: "objects empty_world = []" "rng empty_world = zero_draws" "rng_pos empty_world = 0"
    by (simp_all add: empty_world_def)
  have r': "snd (create_skulls 1 empty_world) = w'"
    using r by simp
  show ?thesis
    unfolding r' using l by (simp add: e zero_draws_def)
qed

text \<open>
  Claim C5, as the code has it.  Skull \<open>k\<close> of a scatter loop takes two consecutive draws
  \<open>u1\<close>, \<open>u2\<close> of the generator, the angle first.  In both versions the angle is \<open>2 * pi * u1\<close>,
  which lies in \<open>[0, 2 * pi)\<close> when \<open>u1\<close> lies in \<open>[0, 1)\<close>.  In V3 the skull is located at angle
  \<open>2 * pi * u1\<close> and radial distance \<open>R * sqrt u2\<close>, within \<open>[0, R)\<close>; the square of that
  distance is \<open>R\<^sup>2 * u2\<close>, so the area of the disk inside the skull, not its radius, is
  proportional to the draw.  In V5 the skull is created at radial distance
  \<^verbatim>\<open>uniform(2.5, 5.0)\<close>, that is \<open>2.5 + 2.5 * u2\<close>, linear in the draw and within \<open>[2.5, 5)\<close>;
  \<^verbatim>\<open>transform_apply\<close> then moves that placement and the scale into the mesh and leaves the
  object's location at the origin.
\<close>

theorem scatter_placement:
  "k < count \<Longrightarrow>
   \<exists>hs w' hs3 w3.
     create_skulls count w = (hs, w') \<and> length hs = count \<and>
     v3_create_skulls count R w = (hs3, w3) \<and> length hs3 = count \<and>
     (let u1 = rng w (rng_pos w + 2 * k);
          u2 = rng w (rng_pos w + 2 * k + 1);
          sk = objects w' ! (length (objects w) + k);
          sk3 = objects w3 ! (length (objects w) + k)
      in geom sk =
           Applied ((2.5 + 2.5 * u2) * cos (2 * pi * u1), (2.5 + 2.5 * u2) * sin (2 * pi * u1), 0.05)
             (0, 0, 0) (1.0, 0.8, 0.85) (Primitive (IcoSphere 2 0.08)) \<and>
         location sk = (0, 0, 0) \<and>
         location sk3 = (cos (u1 * (2 * pi)) * (R * sqrt u2), sin (u1 * (2 * pi)) * (R * sqrt u2), 0.06) \<and>
         geom sk3 = Primitive (IcoSphere 2 0.12) \<and>
         (0 \<le> u1 \<and> u1 < 1 \<longrightarrow> 0 \<le> 2 * pi * u1 \<and> 2 * pi * u1 < 2 * pi) \<and>
         (0 \<le> u2 \<and> u2 < 1 \<longrightarrow> 2.5 \<le> 2.5 + 2.5 * u2 \<and> 2.5 + 2.5 * u2 < 5) \<and>
         (0 \<le> u2 \<and> u2 < 1 \<and> 0 < R \<longrightarrow> 0 \<le> R * sqrt u2 \<and> R * sqrt u2 < R) \<and>
         (0 \<le> u2 \<longrightarrow> (R * sqrt u2)\<^sup>2 = R\<^sup>2 * u2))"
proof -
  assume k: "k < count"
  obtain hs w' where r5: "create_skulls count w = (hs, w')" and n5: "length hs = count"
    and l5: "\<forall>k<count. geom (objects w' ! (length (objects w) + k)) =
        Applied
         ((2.5 + (5.0 - 2.5) * rng w (Suc (rng_pos w + 2 * k))) * cos (0 + (2 * pi - 0) * rng w (rng_pos w + 2 * k)),
          (2.5 + (5.0 - 2.5) * rng w (Suc (rng_pos w + 2 * k))) * sin (0 + (2 * pi - 0) * rng w (rng_pos w + 2 * k)),
          0.05) (0, 0, 0) (1.0, 0.8, 0.85) (Primitive (IcoSphere 2 0.08)) \<and>
        location (objects w' ! (length (objects w) + k)) = (0, 0, 0)"
    using create_skulls_result [of count w] by blast
  obtain hs3 w3 where r3: "v3_create_skulls count R w = (hs3, w3)" and n3: "length hs3 = count"
    and l3: "\<forall>k<count. location (objects w3 ! (length (objects w) + k)) =
        (cos (rng w (rng_pos w + 2 * k) * (2 * pi)) * (R * sqrt (rng w (Suc (rng_pos w + 2 * k)))),
         sin (rng w (rng_pos w + 2 * k) * (2 * pi)) * (R * sqrt (rng w (Suc (rng_pos w + 2 * k)))),
         0.06) \<and>
        geom (objects w3 ! (length (objects w) + k)) = Primitive (IcoSphere 2 0.12)"
    using v3_create_skulls_result [of count R w] by blast
  have a: "0 \<le> u \<and> u < 1 \<longrightarrow> 0 \<le> 2 * pi * u \<and> 2 * pi * u < 2 * pi" for u :: real
    by simp
  have b: "0 \<le> u \<and> u < 1 \<longrightarrow> 2.5 \<le> 2.5 + 2.5 * u \<and> 2.5 + 2.5 * u < (5::real)" for u :: real
    by simp
  have c: "0 \<le> u \<and> u < 1 \<and> 0 < R \<longrightarrow> 0 \<le> R * sqrt u \<and> R * sqrt u < R" for u :: real
  proof (intro impI)
    assume h: "0 \<le> u \<and> u < 1 \<and> 0 < R"
    then have "sqrt u < 1" by simp
    with h show "0 \<le> R * sqrt u \<and> R * sqrt u < R" by simp
  qed
  have d: "0 \<le> u \<longrightarrow> (R * sqrt u)\<^sup>2 = R\<^sup>2 * u" for u :: real
    by (simp add: power_mult_distrib)
  have p5: "geom (objects w' ! (length (objects w) + k)) =
      Applied ((2.5 + 2.5 * rng w (rng_pos w + 2 * k + 1)) * cos (2 * pi * rng w (rng_pos w + 2 * k)),
       (2.5 + 2.5 * rng w (rng_pos w + 2 * k + 1)) * sin (2 * pi * rng w (rng_pos w + 2 * k)), 0.05)
       (0, 0, 0) (1.0, 0.8, 0.85) (Primitive (IcoSphere 2 0.08))"
    "location (objects w' ! (length (objects w) + k)) = (0, 0, 0)"
    using l5 k by simp_all
  have p3: "location (objects w3 ! (length (objects w) + k)) =
      (cos (rng w (rng_pos w + 2 * k) * (2 * pi)) * (R * sqrt (rng w (rng_pos w + 2 * k + 1))),
       sin (rng w (rng_pos w + 2 * k) * (2 * pi)) * (R * sqrt (rng w (rng_pos w + 2 * k + 1))), 0.06)"
    "geom (objects w3 ! (length (objects w) + k)) = Primitive (IcoSphere 2 0.12)"
    using l3 k by simp_all
  show ?thesis
    unfolding Let_def
    using r5 n5 r3 n3 p5 p3 a b c d by blast
qed

theorem scatter_placement_witness:
  "(1::nat) < 2 \<and>
   (\<exists>hs w' hs3 w3.
     create_skulls 2 (empty_world\<lparr>rng := quarter_draws\<rparr>) = (hs, w') \<and> length hs = 2 \<and>
     v3_create_skulls 2 (9 / 2) (empty_world\<lparr>rng := quarter_draws\<rparr>) = (hs3, w3) \<and> length hs3 = 2 \<and>
     geom (objects w' ! 1) =
       Applied (0, 25 / 8, 1 / 20) (0, 0, 0) (1, 4 / 5, 17 / 20) (Primitive (IcoSphere 2 (2 / 25))) \<and>
     location (objects w' ! 1) = (0, 0, 0) \<and>
     location (objects w3 ! 1) = (0, 9 / 4, 3 / 50) \<and>
     (9 / 2 * sqrt (1 / 4))\<^sup>2 = (9 / 2)\<^sup>2 * (1 / 4 :: real))"
proof -
  have h: "(1::nat) < 2" by simp
  have e: "objects (empty_world\<lparr>rng := quarter_draws\<rparr>) = []"
    "rng (empty_world\<lparr>rng := quarter_draws\<rparr>) = quarter_draws"
    "rng_pos (empty_world\<lparr>rng := quarter_draws\<rparr>) = 0"
    by (simp_all add: empty_world_def)
  have s: "sqrt (1 / 4) = 1 / 2"
    by (simp add: real_sqrt_divide)
  have t: "2 * pi * (1 / 4) = pi / 2" "1 / 4 * (2 * pi) = pi / 2"
    by simp_all
  show ?thesis
    using scatter_placement [OF h, of "empty_world\<lparr>rng := quarter_draws\<rparr>" "9 / 2"]
    unfolding e Let_def quarter_draws_def s t
    apply (simp add: h)
    apply blast
    done
qed

section \<open>Points on the edges of the hexagon\<close>

lemma chord_norm:
  fixes R t c1 s1 c2 s2 :: real
  assumes u1: "c1\<^sup>2 + s1\<^sup>2 = 1" and u2: "c2\<^sup>2 + s2\<^sup>2 = 1" and d: "c1 * c2 + s1 * s2 = 1 / 2"
  shows "(R * c1 + (R * c2 - R * c1) * t)\<^sup>2 + (R * s1 + (R * s2 - R * s1) * t)\<^sup>2
           = R\<^sup>2 * (1 - t * (1 - t))"
proof -
  have "(R * c1 + (R * c2 - R * c1) * t)\<^sup>2 + (R * s1 + (R * s2 - R * s1) * t)\<^sup>2
      = R\<^sup>2 * ((1 - t)\<^sup>2 * (c1\<^sup>2 + s1\<^sup>2) + t\<^sup>2 * (c2\<^sup>2 + s2\<^sup>2) + 2 * t * (1 - t) * (c1 * c2 + s1 * s2))"
    by (simp add: power2_eq_square algebra_simps)
  also have "\<dots> = R\<^sup>2 * ((1 - t)\<^sup>2 + t\<^sup>2 + t * (1 - t))"
    by (simp only: u1 u2 d) simp
  also have "\<dots> = R\<^sup>2 * (1 - t * (1 - t))"
    by (simp add: power2_eq_square algebra_simps)
  finally show ?thesis .
qed

lemma cos_sin_step_60: "cos a * cos (a + pi / 3) + sin a * sin (a + pi / 3) = 1 / 2"
proof -
  have "cos ((a + pi / 3) - a) = cos (a + pi / 3) * cos a + sin (a + pi / 3) * sin a"
    by (rule cos_diff)
  then show ?thesis by (simp add: cos_60 mult.commute)
qed

lemma edge_point_norm:
  "edge_point (edge_ends e) i = (x, y) \<Longrightarrow>
     x\<^sup>2 + y\<^sup>2 = PLATFORM_RADIUS\<^sup>2 * (1 - ((real i + 1) / 4) * (1 - (real i + 1) / 4))"
proof -
  assume a: "edge_point (edge_ends e) i = (x, y)"
  have s: "pi / 6 + (real e + 1) * pi / 3 = (pi / 6 + real e * pi / 3) + pi / 3"
    by (simp add: distrib_right add_divide_distrib)
  have x: "x = PLATFORM_RADIUS * cos (pi / 6 + real e * pi / 3) +
             (PLATFORM_RADIUS * cos ((pi / 6 + real e * pi / 3) + pi / 3)
              - PLATFORM_RADIUS * cos (pi / 6 + real e * pi / 3)) * ((real i + 1) / 4)"
    and y: "y = PLATFORM_RADIUS * sin (pi / 6 + real e * pi / 3) +
             (PLATFORM_RADIUS * sin ((pi / 6 + real e * pi / 3) + pi / 3)
              - PLATFORM_RADIUS * sin (pi / 6 + real e * pi / 3)) * ((real i + 1) / 4)"
    using a unfolding edge_point_def edge_ends_def Let_def s by simp_all
  show ?thesis
    unfolding x y
  proof (rule chord_norm)
    show "(cos (pi / 6 + real e * pi / 3))\<^sup>2 + (sin (pi / 6 + real e * pi / 3))\<^sup>2 = 1"
      by (rule sin_cos_squared_add2)
    show "(cos (pi / 6 + real e * pi / 3 + pi / 3))\<^sup>2 + (sin (pi / 6 + real e * pi / 3 + pi / 3))\<^sup>2 = 1"
      by (rule sin_cos_squared_add2)
    show "cos (pi / 6 + real e * pi / 3) * cos (pi / 6 + real e * pi / 3 + pi / 3) +
          sin (pi / 6 + real e * pi / 3) * sin (pi / 6 + real e * pi / 3 + pi / 3) = 1 / 2"
      by (rule cos_sin_step_60)
  qed
qed


lemma edge_point_norm_bounds:
  assumes i: "i < 3" and a: "edge_point (edge_ends e) i = (x, y)"
  shows "36 < x\<^sup>2 + y\<^sup>2" and "x\<^sup>2 + y\<^sup>2 < 49"
proof -
  have n: "x\<^sup>2 + y\<^sup>2 = PLATFORM_RADIUS\<^sup>2 * (1 - ((real i + 1) / 4) * (1 - (real i + 1) / 4))"
    using a by (rule edge_point_norm)
  from i have "i = 0 \<or> i = 1 \<or> i = 2" by arith
  then show "36 < x\<^sup>2 + y\<^sup>2" and "x\<^sup>2 + y\<^sup>2 < 49"
    unfolding n by (auto simp: PLATFORM_RADIUS_def power2_eq_square)
qed

lemma pull_inward_facts:
  fixes x y :: real
  assumes lo: "36 < x\<^sup>2 + y\<^sup>2" and hi: "x\<^sup>2 + y\<^sup>2 < 49"
  shows "pull_inward (x, y) =
           Inr (x * (sqrt (x * x + y * y) - 0.3) / sqrt (x * x + y * y),
                y * (sqrt (x * x + y * y) - 0.3) / sqrt (x * x + y * y))"
    and "6 < sqrt (x * x + y * y)" and "sqrt (x * x + y * y) < 7"
    and "sqrt ((x * (sqrt (x * x + y * y) - 0.3) / sqrt (x * x + y * y))\<^sup>2 +
               (y * (sqrt (x * x + y * y) - 0.3) / sqrt (x * x + y * y))\<^sup>2)
           = sqrt (x\<^sup>2 + y\<^sup>2) - 0.3"
proof -
  define d where "d = sqrt (x * x + y * y)"
  have dd: "d = sqrt (x\<^sup>2 + y\<^sup>2)" by (simp add: d_def power2_eq_square)
  have d6: "6 < d"
    unfolding dd using lo by (intro real_less_rsqrt) simp
  have d7: "d < 7"
    unfolding dd using hi by (intro real_less_lsqrt) simp_all
  have d0: "d \<noteq> 0" using d6 by simp
  have sq: "d\<^sup>2 = x\<^sup>2 + y\<^sup>2"
    unfolding dd by simp
  show "pull_inward (x, y) =
           Inr (x * (sqrt (x * x + y * y) - 0.3) / sqrt (x * x + y * y),
                y * (sqrt (x * x + y * y) - 0.3) / sqrt (x * x + y * y))"
    using d0 by (simp add: pull_inward_def Let_def d_def)
  show "6 < sqrt (x * x + y * y)" using d6 by (simp add: d_def)
  show "sqrt (x * x + y * y) < 7" using d7 by (simp add: d_def)
  have c: "(x * c)\<^sup>2 + (y * c)\<^sup>2 = (x\<^sup>2 + y\<^sup>2) * c\<^sup>2" for c :: real
    by (simp only: power_mult_distrib distrib_right)
  have "(x * (d - 0.3) / d)\<^sup>2 + (y * (d - 0.3) / d)\<^sup>2
          = (x * ((d - 0.3) / d))\<^sup>2 + (y * ((d - 0.3) / d))\<^sup>2"
    by (simp only: times_divide_eq_right)
  also have "\<dots> = (x\<^sup>2 + y\<^sup>2) * ((d - 0.3) / d)\<^sup>2"
    by (rule c)
  also have "\<dots> = d\<^sup>2 * ((d - 0.3) / d)\<^sup>2"
    by (simp only: sq)
  also have "\<dots> = (d - 0.3)\<^sup>2"
    using d0 by (simp add: power_divide)
  finally have "sqrt ((x * (d - 0.3) / d)\<^sup>2 + (y * (d - 0.3) / d)\<^sup>2) = \<bar>d - 0.3\<bar>"
    by simp
  also have "\<dots> = d - 0.3" using d6 by simp
  finally show "sqrt ((x * (sqrt (x * x + y * y) - 0.3) / sqrt (x * x + y * y))\<^sup>2 +
               (y * (sqrt (x * x + y * y) - 0.3) / sqrt (x * x + y * y))\<^sup>2)
           = sqrt (x\<^sup>2 + y\<^sup>2) - 0.3"
    unfolding d_def [symmetric] dd [symmetric] .
qed

section \<open>Edge spikes of V5\<close>

lemma pull_inward_on_edge:
  assumes i: "i < 3"
  shows "pull_inward (edge_point (edge_ends e) i) =
           Inr (projr (pull_inward (edge_point (edge_ends e) i)))"
proof -
  obtain x y where a: "edge_point (edge_ends e) i = (x, y)"
    by (cases "edge_point (edge_ends e) i")
  have lo: "36 < x\<^sup>2 + y\<^sup>2" and hi: "x\<^sup>2 + y\<^sup>2 < 49"
    using edge_point_norm_bounds [OF i a] by simp_all
  show ?thesis
    unfolding a by (simp add: pull_inward_facts(1) [OF lo hi])
qed

lemma spike_step_on_edge:
  assumes i: "i < 3"
  shows "spike_step e i (spikes, \<lparr>objects = os, active = a, selected = sel, rng = gen, rng_pos = p\<rparr>) =
     Inr (spikes @ [fresh_id os],
      \<lparr>objects = os @
         [\<lparr>oid = fresh_id os, oname = Idx2 ''Spike_'' e i,
           geom = Primitive (Cone 6 0.1 0.0 0.4),
           location = (fst (projr (pull_inward (edge_point (edge_ends e) i))),
                       snd (projr (pull_inward (edge_point (edge_ends e) i))), 0.2),
           rotation_euler = (0, 0, 0),
           scale = (1, 1, 1), materials = [''spike''], modifiers = [], smooth = False,
           parent = None\<rparr>],
       active = Some (fresh_id os), selected = [fresh_id os], rng = gen, rng_pos = p\<rparr>)"
proof (rule spike_step_eval)
  show "pull_inward (edge_point (edge_ends e) i) =
          Inr (fst (projr (pull_inward (edge_point (edge_ends e) i))),
               snd (projr (pull_inward (edge_point (edge_ends e) i))))"
    using pull_inward_on_edge [OF i, of e] by simp
qed

lemma create_edge_spikes_result:
  "\<exists>a' sel'. create_edge_spikes \<lparr>objects = os, active = a, selected = sel, rng = gen, rng_pos = p\<rparr> =
      Inr (map (\<lambda>k. fresh_id os + k) [0..<18],
       \<lparr>objects = os @
          map (\<lambda>k. \<lparr>oid = fresh_id os + k,
                     oname = Idx2 ''Spike_'' (fst (List.product [0..<6] [0..<3] ! k))
                                            (snd (List.product [0..<6] [0..<3] ! k)),
                     geom = Primitive (Cone 6 0.1 0.0 0.4),
                     location =
                       (fst (projr (pull_inward (edge_point (edge_ends (fst (List.product [0..<6] [0..<3] ! k)))
                                                            (snd (List.product [0..<6] [0..<3] ! k))))),
                        snd (projr (pull_inward (edge_point (edge_ends (fst (List.product [0..<6] [0..<3] ! k)))
                                                            (snd (List.product [0..<6] [0..<3] ! k))))),
                        0.2),
                     rotation_euler = (0, 0, 0),
                     scale = (1, 1, 1), materials = [''spike''], modifiers = [], smooth = False,
                     parent = None\<rparr>) [0..<18],
        active = a', selected = sel', rng = gen, rng_pos = p\<rparr>)"
proof -
  have n: "create_edge_spikes w =
      for_each (\<lambda>q. spike_step (fst q) (snd q)) (List.product [0..<6] [0..<3]) ([], w)" for w
    unfolding create_edge_spikes_def by (rule for_each_nested)
  have "\<exists>a' sel'. for_each (\<lambda>q. spike_step (fst q) (snd q)) (List.product [0..<6] [0..<3])
            ([], \<lparr>objects = os, active = a, selected = sel, rng = gen, rng_pos = p\<rparr>) =
        Inr ([] @ map (\<lambda>k. fresh_id os + k) [0..<length (List.product [0..<6] [0..<3])],
             \<lparr>objects = os @
                map (\<lambda>k. (\<lambda>q h. \<lparr>oid = h, oname = Idx2 ''Spike_'' (fst q) (snd q),
                     geom = Primitive (Cone 6 0.1 0.0 0.4),
                     location = (fst (projr (pull_inward (edge_point (edge_ends (fst q)) (snd q)))),
                                 snd (projr (pull_inward (edge_point (edge_ends (fst q)) (snd q)))), 0.2),
                     rotation_euler = (0, 0, 0),
                     scale = (1, 1, 1), materials = [''spike''], modifiers = [], smooth = False,
                     parent = None\<rparr>) (List.product [0..<6] [0..<3] ! k) (fresh_id os + k))
                  [0..<length (List.product [0..<6] [0..<3])],
              active = a', selected = sel', rng = gen, rng_pos = p\<rparr>)"
  proof (rule for_each_one)
    fix j :: "nat \<times> nat" and acc os' a'' sel''
    assume "j \<in> set (List.product [0..<6] [0..<3])"
    then have i: "snd j < 3" by auto
    show "spike_step (fst j) (snd j) (acc, \<lparr>objects = os', active = a'', selected = sel'', rng = gen, rng_pos = p\<rparr>) =
       Inr (acc @ [fresh_id os'],
            \<lparr>objects = os' @
               [\<lparr>oid = fresh_id os', oname = Idx2 ''Spike_'' (fst j) (snd j),
                 geom = Primitive (Cone 6 0.1 0.0 0.4),
                 location = (fst (projr (pull_inward (edge_point (edge_ends (fst j)) (snd j)))),
                             snd (projr (pull_inward (edge_point (edge_ends (fst j)) (snd j)))), 0.2),
                 rotation_euler = (0, 0, 0),
                 scale = (1, 1, 1), materials = [''spike''], modifiers = [], smooth = False,
                 parent = None\<rparr>],
             active = Some (fresh_id os'), selected = [fresh_id os'], rng = gen, rng_pos = p\<rparr>)"
      by (rule spike_step_on_edge [OF i])
  qed simp
  then show ?thesis
    unfolding n by simp
qed


text \<open>
  Claim C10.  \<^verbatim>\<open>create_edge_spikes\<close> of V5 returns normally with 18 spikes.  The spike
  \<open>i\<close> of edge \<open>edge\<close> is the object number \<open>3 * edge + i\<close> among those the call adds; it is
  placed at the interpolated edge point \<open>(x, y)\<close> scaled by a positive factor, so on the same
  ray from the origin, at planar distance \<open>sqrt (x\<^sup>2 + y\<^sup>2) - 0.3\<close>, which is less than the
  platform's circumradius.
\<close>

theorem spikes_pulled_inward:
  "edge < 6 \<Longrightarrow> i < 3 \<Longrightarrow>
   \<exists>hs w' x y x' y' k.
      create_edge_spikes w = Inr (hs, w') \<and> length hs = 18 \<and>
      edge_point (edge_ends edge) i = (x, y) \<and> pull_inward (x, y) = Inr (x', y') \<and>
      location (objects w' ! (length (objects w) + 3 * edge + i)) = (x', y', 0.2) \<and>
      sqrt (x'\<^sup>2 + y'\<^sup>2) = sqrt (x\<^sup>2 + y\<^sup>2) - 0.3 \<and>
      0 < k \<and> x' = k * x \<and> y' = k * y \<and>
      sqrt (x'\<^sup>2 + y'\<^sup>2) < PLATFORM_RADIUS"
proof -
  assume e: "edge < 6" and i: "i < 3"
  obtain x y where a: "edge_point (edge_ends edge) i = (x, y)"
    by (cases "edge_point (edge_ends edge) i")
  have lo: "36 < x\<^sup>2 + y\<^sup>2" and hi: "x\<^sup>2 + y\<^sup>2 < 49"
    using edge_point_norm_bounds [OF i a] by simp_all
  define d where "d = sqrt (x * x + y * y)"
  define x' where "x' = x * (d - 0.3) / d"
  define y' where "y' = y * (d - 0.3) / d"
  have pull: "pull_inward (x, y) = Inr (x', y')"
    unfolding x'_def y'_def d_def by (rule pull_inward_facts(1) [OF lo hi])
  have d6: "6 < d" and d7: "d < 7"
    unfolding d_def using pull_inward_facts(2,3) [OF lo hi] by simp_all
  have nrm: "sqrt (x'\<^sup>2 + y'\<^sup>2) = sqrt (x\<^sup>2 + y\<^sup>2) - 0.3"
    unfolding x'_def y'_def d_def by (rule pull_inward_facts(4) [OF lo hi])
  have dd: "sqrt (x\<^sup>2 + y\<^sup>2) = d"
    by (simp add: d_def power2_eq_square)
  have below: "sqrt (x'\<^sup>2 + y'\<^sup>2) < PLATFORM_RADIUS"
    unfolding nrm dd PLATFORM_RADIUS_def using d7 by simp
  have k: "0 < (d - 0.3) / d" "x' = (d - 0.3) / d * x" "y' = (d - 0.3) / d * y"
    using d6 by (simp_all add: x'_def y'_def)
  have w: "\<lparr>objects = objects w, active = active w, selected = selected w, rng = rng w, rng_pos = rng_pos w\<rparr> = w"
    by simp
  obtain a' sel' where r: "create_edge_spikes w =
      Inr (map (\<lambda>k. fresh_id (objects w) + k) [0..<18],
       \<lparr>objects = objects w @
          map (\<lambda>k. \<lparr>oid = fresh_id (objects w) + k,
                     oname = Idx2 ''Spike_'' (fst (List.product [0..<6] [0..<3] ! k))
                                            (snd (List.product [0..<6] [0..<3] ! k)),
                     geom = Primitive (Cone 6 0.1 0.0 0.4),
                     location =
                       (fst (projr (pull_inward (edge_point (edge_ends (fst (List.product [0..<6] [0..<3] ! k)))
                                                            (snd (List.product [0..<6] [0..<3] ! k))))),
                        snd (projr (pull_inward (edge_point (edge_ends (fst (List.product [0..<6] [0..<3] ! k)))
                                                            (snd (List.product [0..<6] [0..<3] ! k))))),
                        0.2),
                     rotation_euler = (0, 0, 0),
                     scale = (1, 1, 1), materials = [''spike''], modifiers = [], smooth = False,
                     parent = None\<rparr>) [0..<18],
        active = a', selected = sel', rng = rng w, rng_pos = rng_pos w\<rparr>)"
    using create_edge_spikes_result [of "objects w" "active w" "selected w" "rng w" "rng_pos w"]
    unfolding w by blast
  have lt: "3 * edge + i < 18" using e i by simp
  have nth: "List.product [0..<6] [0..<3] ! (3 * edge + i) = (edge, i)"
    using e i lt by (simp add: product_nth)
  have "location
          (objects (snd (projr (create_edge_spikes w))) ! (length (objects w) + 3 * edge + i)) =
        (x', y', 0.2)"
    unfolding r using lt by (simp add: nth_append add.assoc nth a pull)
  then have loc: "\<exists>hs w'. create_edge_spikes w = Inr (hs, w') \<and> length hs = 18 \<and>
      location (objects w' ! (length (objects w) + 3 * edge + i)) = (x', y', 0.2)"
    unfolding r by simp
  show ?thesis
    using loc a pull nrm k below by blast
qed


theorem spikes_pulled_inward_witness:
  "(0::nat) < 6 \<and> (1::nat) < 3 \<and>
   (\<exists>hs w' x y x' y' k.
      create_edge_spikes empty_world = Inr (hs, w') \<and> length hs = 18 \<and>
      edge_point (edge_ends 0) 1 = (x, y) \<and> pull_inward (x, y) = Inr (x', y') \<and>
      location (objects w' ! 1) = (x', y', 0.2) \<and>
      sqrt (x'\<^sup>2 + y'\<^sup>2) = sqrt (x\<^sup>2 + y\<^sup>2) - 0.3 \<and>
      0 < k \<and> x' = k * x \<and> y' = k * y \<and>
      sqrt (x'\<^sup>2 + y'\<^sup>2) < 7)"
proof -
  have h: "(0::nat) < 6" "(1::nat) < 3" by simp_all
  have e: "length (objects empty_world) = 0" by (simp add: empty_world_def)
  show ?thesis
    using spikes_pulled_inward [OF h, of empty_world]
    by (simp add: e PLATFORM_RADIUS_def)
qed

section \<open>Edge-spike interpolation\<close>

lemma v4_vertex_nth:
  "k < 6 \<Longrightarrow> v4_hex_vertices R off ! k =
     (cos (off + real k * (2 * pi) / 6) * R, sin (off + real k * (2 * pi) / 6) * R)"
  by (simp add: v4_hex_vertices_def V4_NUM_SIDES_def)

lemma v4_vertex_norm:
  "v \<in> set (v4_hex_vertices R off) \<Longrightarrow> (fst v)\<^sup>2 + (snd v)\<^sup>2 = R\<^sup>2"
proof -
  have n: "(cos a * R)\<^sup>2 + (sin a * R)\<^sup>2 = R\<^sup>2" for a :: real
  proof -
    have "((cos a)\<^sup>2 + (sin a)\<^sup>2) * R\<^sup>2 = R\<^sup>2" by simp
    then show ?thesis by (simp only: power_mult_distrib distrib_right)
  qed
  assume "v \<in> set (v4_hex_vertices R off)"
  then obtain a where "v = (cos a * R, sin a * R)"
    unfolding v4_hex_vertices_def by auto
  then show ?thesis by (simp only: fst_conv snd_conv n)
qed

lemma v4_adjacent_dot:
  assumes i: "i < 6"
  shows "cos (pi / 6 + real i * (2 * pi) / 6) * cos (pi / 6 + real ((i + 1) mod 6) * (2 * pi) / 6) +
         sin (pi / 6 + real i * (2 * pi) / 6) * sin (pi / 6 + real ((i + 1) mod 6) * (2 * pi) / 6) = 1 / 2"
proof (cases "i = 5")
  case True
  have "cos ((pi / 6 + 5 * (2 * pi) / 6) - pi / 6)
          = cos (pi / 6 + 5 * (2 * pi) / 6) * cos (pi / 6) + sin (pi / 6 + 5 * (2 * pi) / 6) * sin (pi / 6)"
    by (rule cos_diff)
  moreover have "(pi / 6 + 5 * (2 * pi) / 6) - pi / 6 = 5 * pi / 3" by simp
  ultimately have "cos (pi / 6 + 5 * (2 * pi) / 6) * cos (pi / 6) + sin (pi / 6 + 5 * (2 * pi) / 6) * sin (pi / 6)
          = 1 / 2"
    by (simp only: cs_300)
  then show ?thesis using True by simp
next
  case False
  with i have m: "(i + 1) mod 6 = i + 1" by simp
  have s: "pi / 6 + real (i + 1) * (2 * pi) / 6 = (pi / 6 + real i * (2 * pi) / 6) + pi / 3"
    by (simp add: distrib_right add_divide_distrib)
  show ?thesis
    unfolding m s by (rule cos_sin_step_60)
qed

lemma v4_spike_norm:
  assumes i: "i < 6"
  shows "(fst (v4_spike_xy (v4_hex_vertices R (pi / 6)) i j))\<^sup>2 +
         (snd (v4_spike_xy (v4_hex_vertices R (pi / 6)) i j))\<^sup>2
           = R\<^sup>2 * (1 - ((real j + 0.5) / 4) * (1 - (real j + 0.5) / 4))"
proof -
  have m: "(i + 1) mod 6 < 6" by simp
  have x: "fst (v4_spike_xy (v4_hex_vertices R (pi / 6)) i j) =
       R * cos (pi / 6 + real i * (2 * pi) / 6) +
       (R * cos (pi / 6 + real ((i + 1) mod 6) * (2 * pi) / 6) - R * cos (pi / 6 + real i * (2 * pi) / 6))
         * ((real j + 0.5) / 4)"
    and y: "snd (v4_spike_xy (v4_hex_vertices R (pi / 6)) i j) =
       R * sin (pi / 6 + real i * (2 * pi) / 6) +
       (R * sin (pi / 6 + real ((i + 1) mod 6) * (2 * pi) / 6) - R * sin (pi / 6 + real i * (2 * pi) / 6))
         * ((real j + 0.5) / 4)"
    unfolding v4_spike_xy_def Let_def V4_NUM_SIDES_def v4_vertex_nth [OF i] v4_vertex_nth [OF m]
    by (simp_all add: mult.commute)
  show ?thesis
    unfolding x y
  proof (rule chord_norm)
    show "(cos (pi / 6 + real i * (2 * pi) / 6))\<^sup>2 + (sin (pi / 6 + real i * (2 * pi) / 6))\<^sup>2 = 1"
      by (rule sin_cos_squared_add2)
    show "(cos (pi / 6 + real ((i + 1) mod 6) * (2 * pi) / 6))\<^sup>2 +
          (sin (pi / 6 + real ((i + 1) mod 6) * (2 * pi) / 6))\<^sup>2 = 1"
      by (rule sin_cos_squared_add2)
    show "cos (pi / 6 + real i * (2 * pi) / 6) * cos (pi / 6 + real ((i + 1) mod 6) * (2 * pi) / 6) +
          sin (pi / 6 + real i * (2 * pi) / 6) * sin (pi / 6 + real ((i + 1) mod 6) * (2 * pi) / 6) = 1 / 2"
      by (rule v4_adjacent_dot [OF i])
  qed
qed


lemma v5_vertex_norm:
  "(fst (fst (edge_ends e)))\<^sup>2 + (snd (fst (edge_ends e)))\<^sup>2 = PLATFORM_RADIUS\<^sup>2"
  "(fst (snd (edge_ends e)))\<^sup>2 + (snd (snd (edge_ends e)))\<^sup>2 = PLATFORM_RADIUS\<^sup>2"
proof -
  have n: "(R * cos a)\<^sup>2 + (R * sin a)\<^sup>2 = R\<^sup>2" for a R :: real
  proof -
    have "R\<^sup>2 * ((cos a)\<^sup>2 + (sin a)\<^sup>2) = R\<^sup>2" by simp
    then show ?thesis by (simp only: power_mult_distrib distrib_left)
  qed
  show "(fst (fst (edge_ends e)))\<^sup>2 + (snd (fst (edge_ends e)))\<^sup>2 = PLATFORM_RADIUS\<^sup>2"
    unfolding edge_ends_def Let_def fst_conv snd_conv by (rule n)
  show "(fst (snd (edge_ends e)))\<^sup>2 + (snd (snd (edge_ends e)))\<^sup>2 = PLATFORM_RADIUS\<^sup>2"
    unfolding edge_ends_def Let_def fst_conv snd_conv by (rule n)
qed

lemma inside_fraction:
  fixes t R :: real
  assumes "0 < t" "t < 1" "R \<noteq> 0"
  shows "R\<^sup>2 * (1 - t * (1 - t)) < R\<^sup>2"
proof -
  have "0 < t * (1 - t)" using assms by simp
  moreover have "0 < R\<^sup>2" using assms by simp
  ultimately have "R\<^sup>2 * (1 - t * (1 - t)) < R\<^sup>2 * 1"
    by (intro mult_strict_left_mono) simp_all
  then show ?thesis by simp
qed

lemma v4_fraction: "j < 4 \<Longrightarrow> 0 < (real j + 0.5) / 4 \<and> (real j + 0.5) / 4 < 1"
proof -
  assume "j < 4"
  then have "real j \<le> 3" by simp
  then show ?thesis by simp
qed

lemma v5_fraction: "j < 3 \<Longrightarrow> 0 < (real j + 1) / 4 \<and> (real j + 1) / 4 < 1"
proof -
  assume "j < 3"
  then have "real j \<le> 2" by simp
  then show ?thesis by simp
qed

lemma v4_spike_not_vertex:
  assumes i: "i < 6" and j: "j < 4" and R: "R \<noteq> 0"
  shows "v4_spike_xy (v4_hex_vertices R (pi / 6)) i j \<notin> set (v4_hex_vertices R (pi / 6))"
proof
  assume "v4_spike_xy (v4_hex_vertices R (pi / 6)) i j \<in> set (v4_hex_vertices R (pi / 6))"
  then have "(fst (v4_spike_xy (v4_hex_vertices R (pi / 6)) i j))\<^sup>2 +
             (snd (v4_spike_xy (v4_hex_vertices R (pi / 6)) i j))\<^sup>2 = R\<^sup>2"
    by (rule v4_vertex_norm)
  then have "R\<^sup>2 * (1 - ((real j + 0.5) / 4) * (1 - (real j + 0.5) / 4)) = R\<^sup>2"
    by (simp only: v4_spike_norm [OF i])
  moreover have "R\<^sup>2 * (1 - ((real j + 0.5) / 4) * (1 - (real j + 0.5) / 4)) < R\<^sup>2"
    using v4_fraction [OF j] R by (intro inside_fraction) simp_all
  ultimately show False by (metis less_irrefl)
qed

lemma v5_spike_not_vertex:
  assumes j: "j < 3"
  shows "edge_point (edge_ends e) j \<noteq> fst (edge_ends e')"
    and "edge_point (edge_ends e) j \<noteq> snd (edge_ends e')"
proof -
  obtain x y where a: "edge_point (edge_ends e) j = (x, y)"
    by (cases "edge_point (edge_ends e) j")
  have "x\<^sup>2 + y\<^sup>2 = PLATFORM_RADIUS\<^sup>2 * (1 - ((real j + 1) / 4) * (1 - (real j + 1) / 4))"
    using a by (rule edge_point_norm)
  moreover have "PLATFORM_RADIUS\<^sup>2 * (1 - ((real j + 1) / 4) * (1 - (real j + 1) / 4)) < PLATFORM_RADIUS\<^sup>2"
    using v5_fraction [OF j] by (intro inside_fraction) (simp_all add: PLATFORM_RADIUS_def)
  ultimately have lt: "x\<^sup>2 + y\<^sup>2 < PLATFORM_RADIUS\<^sup>2" by (metis)
  show "edge_point (edge_ends e) j \<noteq> fst (edge_ends e')"
  proof
    assume "edge_point (edge_ends e) j = fst (edge_ends e')"
    then have "fst (edge_ends e') = (x, y)" using a by simp
    then have "x\<^sup>2 + y\<^sup>2 = PLATFORM_RADIUS\<^sup>2"
      using v5_vertex_norm(1) [of e'] by simp
    with lt show False by simp
  qed
  show "edge_point (edge_ends e) j \<noteq> snd (edge_ends e')"
  proof
    assume "edge_point (edge_ends e) j = snd (edge_ends e')"
    then have "snd (edge_ends e') = (x, y)" using a by simp
    then have "x\<^sup>2 + y\<^sup>2 = PLATFORM_RADIUS\<^sup>2"
      using v5_vertex_norm(2) [of e'] by simp
    with lt show False by simp
  qed
qed


lemma step_quarter_aux:
  "(a + d * (x + 1 / 4)) - (a + d * x) = d / (4::real)"
  by (simp add: distrib_left)

lemma step_quarter:
  "(a + d * ((real (Suc k) + c) / 4)) - (a + d * ((real k + c) / 4)) = d / (4::real)"
proof -
  have "(real (Suc k) + c) / 4 = (real k + c) / 4 + 1 / 4"
    by (simp add: add_divide_distrib)
  thus ?thesis
    by (simp only: step_quarter_aux)
qed

text \<open>
  In V5 the interpolation fraction is not \<open>(j + 0.5) / spikesPerEdge\<close>.  V5 places three
  spikes per edge; for spike \<open>0\<close> of edge \<open>0\<close> the code interpolates at \<open>1 / 4\<close>, which gives the
  ordinate \<open>35 / 8\<close>, while the fraction \<open>(0 + 0.5) / 3\<close> between the same two vertices gives
  \<open>49 / 12\<close>.
\<close>

theorem v5_spike_fraction_counterexample:
  "snd (edge_point (edge_ends 0) 0) = 35 / 8 \<and>
   snd (fst (edge_ends 0)) + (snd (snd (edge_ends 0)) - snd (fst (edge_ends 0))) * ((0 + 0.5) / 3)
     = 49 / 12"
  by (simp add: edge_point_def edge_ends_def Let_def PLATFORM_RADIUS_def sin_30)

text \<open>
  Claim C4, as the code has it.  Both versions interpolate linearly between the two end
  vertices of an edge.  V4 (and V3) place spike \<open>j\<close> of four at the fraction \<open>(j + 0.5) / 4\<close>
  and put a cone there; V5 places spike \<open>j\<close> of three at the fraction \<open>(j + 1) / 4\<close> (and then
  pulls the point towards the origin, see C10).  In both, the fraction lies strictly between
  \<open>0\<close> and \<open>1\<close>, consecutive points are a quarter of the edge apart, and the point is none of
  the hexagon's vertices.
\<close>

theorem edge_spike_interpolation:
  "i < 6 \<Longrightarrow> j < 4 \<Longrightarrow>
   (let verts = v4_hex_vertices (V4_PLATFORM_RADIUS + 0.05) (pi / 6);
        v1 = verts ! i;
        v2 = verts ! ((i + 1) mod 6);
        t = (real j + 0.5) / 4
    in v4_spike_xy verts i j = (fst v1 + (fst v2 - fst v1) * t, snd v1 + (snd v2 - snd v1) * t) \<and>
       0 < t \<and> t < 1 \<and>
       v4_spike_xy verts i j \<notin> set verts \<and>
       fst (v4_spike_xy verts i (Suc j)) - fst (v4_spike_xy verts i j) = (fst v2 - fst v1) / 4 \<and>
       snd (v4_spike_xy verts i (Suc j)) - snd (v4_spike_xy verts i j) = (snd v2 - snd v1) / 4 \<and>
       (\<exists>h w'. v4_spike_step verts i j (decos, w) = (decos @ [h], w') \<and>
                location (last (objects w')) =
                  (fst (v4_spike_xy verts i j), snd (v4_spike_xy verts i j), 0.18))) \<and>
   (j < 3 \<longrightarrow>
     (let v1 = fst (edge_ends i);
          v2 = snd (edge_ends i);
          t = (real j + 1) / 4
      in edge_point (edge_ends i) j = (fst v1 + (fst v2 - fst v1) * t, snd v1 + (snd v2 - snd v1) * t) \<and>
         0 < t \<and> t < 1 \<and>
         edge_point (edge_ends i) j \<noteq> fst (edge_ends e') \<and>
         edge_point (edge_ends i) j \<noteq> snd (edge_ends e') \<and>
         fst (edge_point (edge_ends i) (Suc j)) - fst (edge_point (edge_ends i) j) = (fst v2 - fst v1) / 4 \<and>
         snd (edge_point (edge_ends i) (Suc j)) - snd (edge_point (edge_ends i) j) = (snd v2 - snd v1) / 4))"
proof -
  assume i: "i < 6" and j: "j < 4"
  define verts where "verts = v4_hex_vertices (V4_PLATFORM_RADIUS + 0.05) (pi / 6)"
  have R: "V4_PLATFORM_RADIUS + 0.05 \<noteq> 0"
    by (simp add: V4_PLATFORM_RADIUS_def V4_PLATFORM_SIZE_def)
  have eq4: "v4_spike_xy verts i k =
      (fst (verts ! i) + (fst (verts ! ((i + 1) mod 6)) - fst (verts ! i)) * ((real k + 0.5) / 4),
       snd (verts ! i) + (snd (verts ! ((i + 1) mod 6)) - snd (verts ! i)) * ((real k + 0.5) / 4))" for k
    by (simp add: v4_spike_xy_def Let_def V4_NUM_SIDES_def)
  have sp4: "fst (v4_spike_xy verts i (Suc j)) - fst (v4_spike_xy verts i j)
               = (fst (verts ! ((i + 1) mod 6)) - fst (verts ! i)) / 4"
    "snd (v4_spike_xy verts i (Suc j)) - snd (v4_spike_xy verts i j)
               = (snd (verts ! ((i + 1) mod 6)) - snd (verts ! i)) / 4"
    unfolding eq4 fst_conv snd_conv by (rule step_quarter)+
  have nv4: "v4_spike_xy verts i j \<notin> set verts"
    unfolding verts_def by (rule v4_spike_not_vertex [OF i j R])
  have w: "\<lparr>objects = objects w, active = active w, selected = selected w, rng = rng w, rng_pos = rng_pos w\<rparr> = w"
    by simp
  have st: "\<exists>h w'. v4_spike_step verts i j (decos, w) = (decos @ [h], w') \<and>
                location (last (objects w')) =
                  (fst (v4_spike_xy verts i j), snd (v4_spike_xy verts i j), 0.18)"
    using v4_spike_step_eval [of verts i j "fst (v4_spike_xy verts i j)" "snd (v4_spike_xy verts i j)"
             decos "objects w" "active w" "selected w" "rng w" "rng_pos w"]
    unfolding w by simp
  have part4: "v4_spike_xy verts i j =
      (fst (verts ! i) + (fst (verts ! ((i + 1) mod 6)) - fst (verts ! i)) * ((real j + 0.5) / 4),
       snd (verts ! i) + (snd (verts ! ((i + 1) mod 6)) - snd (verts ! i)) * ((real j + 0.5) / 4)) \<and>
       0 < (real j + 0.5) / 4 \<and> (real j + 0.5) / 4 < 1 \<and>
       v4_spike_xy verts i j \<notin> set verts \<and>
       fst (v4_spike_xy verts i (Suc j)) - fst (v4_spike_xy verts i j)
         = (fst (verts ! ((i + 1) mod 6)) - fst (verts ! i)) / 4 \<and>
       snd (v4_spike_xy verts i (Suc j)) - snd (v4_spike_xy verts i j)
         = (snd (verts ! ((i + 1) mod 6)) - snd (verts ! i)) / 4 \<and>
       (\<exists>h w'. v4_spike_step verts i j (decos, w) = (decos @ [h], w') \<and>
                location (last (objects w')) =
                  (fst (v4_spike_xy verts i j), snd (v4_spike_xy verts i j), 0.18))"
    using eq4 [of j] v4_fraction [OF j] nv4 sp4 st by blast
  have eq5: "edge_point (edge_ends i) k =
      (fst (fst (edge_ends i)) + (fst (snd (edge_ends i)) - fst (fst (edge_ends i))) * ((real k + 1) / 4),
       snd (fst (edge_ends i)) + (snd (snd (edge_ends i)) - snd (fst (edge_ends i))) * ((real k + 1) / 4))" for k
    by (simp add: edge_point_def Let_def split_def)
  have sp5: "fst (edge_point (edge_ends i) (Suc j)) - fst (edge_point (edge_ends i) j)
               = (fst (snd (edge_ends i)) - fst (fst (edge_ends i))) / 4"
    "snd (edge_point (edge_ends i) (Suc j)) - snd (edge_point (edge_ends i) j)
               = (snd (snd (edge_ends i)) - snd (fst (edge_ends i))) / 4"
    unfolding eq5 fst_conv snd_conv using step_quarter [where c = 1] by (simp_all add: add.commute)
  have part5: "j < 3 \<longrightarrow>
      edge_point (edge_ends i) j =
        (fst (fst (edge_ends i)) + (fst (snd (edge_ends i)) - fst (fst (edge_ends i))) * ((real j + 1) / 4),
         snd (fst (edge_ends i)) + (snd (snd (edge_ends i)) - snd (fst (edge_ends i))) * ((real j + 1) / 4)) \<and>
      0 < (real j + 1) / 4 \<and> (real j + 1) / 4 < 1 \<and>
      edge_point (edge_ends i) j \<noteq> fst (edge_ends e') \<and>
      edge_point (edge_ends i) j \<noteq> snd (edge_ends e') \<and>
      fst (edge_point (edge_ends i) (Suc j)) - fst (edge_point (edge_ends i) j)
        = (fst (snd (edge_ends i)) - fst (fst (edge_ends i))) / 4 \<and>
      snd (edge_point (edge_ends i) (Suc j)) - snd (edge_point (edge_ends i) j)
        = (snd (snd (edge_ends i)) - snd (fst (edge_ends i))) / 4"
    using eq5 [of j] v5_fraction [of j] v5_spike_not_vertex [of j i e'] sp5 by blast
  show ?thesis
    unfolding Let_def verts_def [symmetric]
    using part4 part5 by blast
qed

theorem edge_spike_interpolation_witness:
  "(0::nat) < 6 \<and> (1::nat) < 4 \<and> (1::nat) < 3 \<and>
   v4_spike_xy (v4_hex_vertices (V4_PLATFORM_RADIUS + 0.05) (pi / 6)) 0 1
     \<notin> set (v4_hex_vertices (V4_PLATFORM_RADIUS + 0.05) (pi / 6)) \<and>
   edge_point (edge_ends 0) 1 \<noteq> fst (edge_ends 0) \<and>
   edge_point (edge_ends 0) 1 \<noteq> snd (edge_ends 0)"
proof -
  have a: "(0::nat) < 6" "(1::nat) < 4" "(1::nat) < 3"
    by simp_all
  from edge_spike_interpolation [of 0 1 "[]" empty_world 0, OF a(1) a(2)] a
  show ?thesis
    unfolding Let_def by blast
qed

section \<open>The whole V5 script\<close>

lemma seed_cleanup:
  "cleanup (random_seed mt n w) = \<lparr>objects = [], active = None, selected = [], rng = mt n, rng_pos = 0\<rparr>"
  by (simp add: cleanup_def random_seed_def)

lemma fresh_id_oids: "fresh_id xs = foldr (\<lambda>j m. max (Suc j) m) (map oid xs) 0"
  by (induction xs) simp_all

lemma foldr_max_run:
  "foldr (\<lambda>j m. max (Suc j) m) (map (\<lambda>k. c + k) [0..<n]) 0 = (if n = 0 then 0 else c + n)"
proof (induction n arbitrary: c)
  case 0
  show ?case by simp
next
  case (Suc n)
  have "map (\<lambda>k. c + k) [0..<Suc n] = c # map (\<lambda>k. Suc c + k) [0..<n]"
    using map_upt_shift [of "\<lambda>k. c + k" n] by simp
  thus ?case
    using Suc.IH [of "Suc c"] by simp
qed

lemma added_fresh:
  assumes "added os new names"
  shows "fresh_id (os @ new) = fresh_id os + length names"
proof -
  have "map oid new = map (\<lambda>k. fresh_id os + k) [0..<length names]"
    using assms by (simp add: added_def)
  hence "fresh_id new = (if length names = 0 then 0 else fresh_id os + length names)"
    by (simp add: fresh_id_oids [of new] foldr_max_run)
  thus ?thesis
    by simp
qed

lemma map_upt_add:
  "map f [0..<a + b] = map f [0..<a] @ map (\<lambda>k. f (a + k)) [0..<b]"
  by (induction b) simp_all

lemma added_append:
  assumes a1: "added os n1 ns1" and a2: "added (os @ n1) n2 ns2"
  shows "added os (n1 @ n2) (ns1 @ ns2)"
proof -
  have f: "fresh_id (os @ n1) = fresh_id os + length ns1"
    by (rule added_fresh [OF a1])
  have o1: "map oid n1 = map (\<lambda>k. fresh_id os + k) [0..<length ns1]"
    using a1 unfolding added_def by blast
  have o2: "map oid n2 = map (\<lambda>k. fresh_id os + length ns1 + k) [0..<length ns2]"
    using a2 unfolding added_def f by blast
  have "map oid (n1 @ n2) =
      map (\<lambda>k. fresh_id os + k) [0..<length ns1] @
      map (\<lambda>k. fresh_id os + (length ns1 + k)) [0..<length ns2]"
    by (simp add: o1 o2 add.assoc)
  also have "\<dots> = map (\<lambda>k. fresh_id os + k) [0..<length ns1 + length ns2]"
    by (simp only: map_upt_add)
  finally have ids: "map oid (n1 @ n2) = map (\<lambda>k. fresh_id os + k) [0..<length (ns1 @ ns2)]"
    by simp
  have rest: "map oname (n1 @ n2) = ns1 @ ns2"
    "map is_mesh (n1 @ n2) = replicate (length (ns1 @ ns2)) True"
    using a1 a2 by (simp_all add: added_def replicate_add)
  show ?thesis
    unfolding added_def using ids rest by blast
qed

lemma map_nth_upt: "map (\<lambda>k. f (xs ! k)) [0..<length xs] = map f xs"
proof -
  have "map (\<lambda>k. f (xs ! k)) [0..<length xs] = map f (map (\<lambda>k. xs ! k) [0..<length xs])"
    by (simp add: comp_def)
  thus ?thesis
    by (simp only: map_nth)
qed

text \<open>What each builder adds to the scene.\<close>

lemma create_floor_added:
  "\<exists>new a' sel'. create_floor \<lparr>objects = os, active = a, selected = sel, rng = gen, rng_pos = p\<rparr> =
      (fresh_id os, \<lparr>objects = os @ new, active = a', selected = sel', rng = gen, rng_pos = p\<rparr>) \<and>
      added os new [Lit ''Floor'']"
  unfolding create_floor_eval
  by (intro exI conjI, rule refl) (simp add: added_def is_mesh_def)

lemma create_ritual_ring_added:
  "\<exists>new a' sel'. create_ritual_ring radius thickness \<lparr>objects = os, active = a, selected = sel, rng = gen, rng_pos = p\<rparr> =
      (fresh_id os, \<lparr>objects = os @ new, active = a', selected = sel', rng = gen, rng_pos = p\<rparr>) \<and>
      added os new [Fix1 ''Ritual_Ring_'' radius]"
  unfolding create_ritual_ring_eval
  by (intro exI conjI, rule refl) (simp add: added_def is_mesh_def)

lemma create_pillar_added:
  "\<exists>new a' sel'. create_pillar host_verts x y i \<lparr>objects = os, active = a, selected = sel, rng = gen, rng_pos = p\<rparr> =
      (map (\<lambda>k. fresh_id os + k) [0..<6], \<lparr>objects = os @ new, active = a', selected = sel', rng = gen, rng_pos = p\<rparr>) \<and>
      added os new (pillar_part_names i)"
proof -
  have ids: "map (\<lambda>k. fresh_id os + k) [0..<6] =
      [fresh_id os, Suc (fresh_id os), Suc (Suc (fresh_id os)), Suc (Suc (Suc (fresh_id os))),
       Suc (Suc (Suc (Suc (fresh_id os)))), Suc (Suc (Suc (Suc (Suc (fresh_id os)))))]"
    by (simp add: upt_0_6 eval_nat_numeral)
  show ?thesis
    unfolding create_pillar_eval ids
    by (intro exI conjI, rule refl)
       (simp add: added_def is_mesh_def pillar_part_names_def ids numeral_eq_Suc)
qed

lemma create_altar_added:
  "\<exists>new a' sel'. create_altar \<lparr>objects = os, active = a, selected = sel, rng = gen, rng_pos = p\<rparr> =
      (map (\<lambda>k. fresh_id os + k) [0..<5], \<lparr>objects = os @ new, active = a', selected = sel', rng = gen, rng_pos = p\<rparr>) \<and>
      added os new [Lit ''Altar_Base'', Lit ''Altar_Mid'', Lit ''Altar_Top'', Lit ''Fire_Pillar'',
                    Lit ''Soul_Orb'']"
proof -
  have ids: "map (\<lambda>k. fresh_id os + k) [0..<5] =
      [fresh_id os, Suc (fresh_id os), Suc (Suc (fresh_id os)), Suc (Suc (Suc (fresh_id os))),
       Suc (Suc (Suc (Suc (fresh_id os))))]"
    by (simp add: upt_rec eval_nat_numeral)
  have l: "length [Lit ''Altar_Base'', Lit ''Altar_Mid'', Lit ''Altar_Top'', Lit ''Fire_Pillar'',
                    Lit ''Soul_Orb''] = 5"
    by simp
  show ?thesis
    unfolding create_altar_eval ids
    by (intro exI conjI, rule refl)
       (simp only: added_def l ids, simp add: is_mesh_def numeral_eq_Suc)
qed

lemma pillars_loop:
  "\<exists>new a' sel'. fold (pillar_step host_verts) js (acc, \<lparr>objects = os, active = a, selected = sel, rng = gen, rng_pos = p\<rparr>) =
      (acc @ map (\<lambda>k. fresh_id os + k) [0..<6 * length js],
       \<lparr>objects = os @ new, active = a', selected = sel', rng = gen, rng_pos = p\<rparr>) \<and>
      added os new (concat (map pillar_part_names js))"
proof (induction js arbitrary: acc os a sel)
  case Nil
  show ?case
    by (simp add: added_def)
next
  case (Cons j js)
  obtain n1 a1 sel1 where
    e1: "create_pillar host_verts (fst (pillar_anchor j)) (snd (pillar_anchor j)) j
           \<lparr>objects = os, active = a, selected = sel, rng = gen, rng_pos = p\<rparr> =
         (map (\<lambda>k. fresh_id os + k) [0..<6],
          \<lparr>objects = os @ n1, active = a1, selected = sel1, rng = gen, rng_pos = p\<rparr>)"
    and d1: "added os n1 (pillar_part_names j)"
    using create_pillar_added by blast
  have l: "length (pillar_part_names j) = 6"
    by (simp add: pillar_part_names_def)
  have f: "fresh_id (os @ n1) = fresh_id os + 6"
    using added_fresh [OF d1] l by simp
  obtain n2 a2 sel2 where
    e2: "fold (pillar_step host_verts) js
           (acc @ map (\<lambda>k. fresh_id os + k) [0..<6],
            \<lparr>objects = os @ n1, active = a1, selected = sel1, rng = gen, rng_pos = p\<rparr>) =
         ((acc @ map (\<lambda>k. fresh_id os + k) [0..<6]) @
            map (\<lambda>k. fresh_id (os @ n1) + k) [0..<6 * length js],
          \<lparr>objects = (os @ n1) @ n2, active = a2, selected = sel2, rng = gen, rng_pos = p\<rparr>)"
    and d2: "added (os @ n1) n2 (concat (map pillar_part_names js))"
    using Cons.IH by blast
  have ids: "map (\<lambda>k. fresh_id os + k) [0..<6 * length (j # js)] =
      map (\<lambda>k. fresh_id os + k) [0..<6] @ map (\<lambda>k. fresh_id os + 6 + k) [0..<6 * length js]"
    using map_upt_add [of "\<lambda>k. fresh_id os + k" 6 "6 * length js"] by (simp add: add.assoc)
  have d: "added os (n1 @ n2) (concat (map pillar_part_names (j # js)))"
    using added_append [OF d1 d2] by simp
  have "fold (pillar_step host_verts) (j # js)
          (acc, \<lparr>objects = os, active = a, selected = sel, rng = gen, rng_pos = p\<rparr>) =
        (acc @ map (\<lambda>k. fresh_id os + k) [0..<6 * length (j # js)],
         \<lparr>objects = os @ (n1 @ n2), active = a2, selected = sel2, rng = gen, rng_pos = p\<rparr>)"
    by (simp only: fold_simps pillar_step_eval e1 fst_conv snd_conv e2 f ids append_assoc)
  thus ?case
    using d by blast
qed

lemma create_edge_spikes_added:
  "\<exists>new a' sel'. create_edge_spikes \<lparr>objects = os, active = a, selected = sel, rng = gen, rng_pos = p\<rparr> =
      Inr (map (\<lambda>k. fresh_id os + k) [0..<18],
           \<lparr>objects = os @ new, active = a', selected = sel', rng = gen, rng_pos = p\<rparr>) \<and>
      added os new (map (\<lambda>q. Idx2 ''Spike_'' (fst q) (snd q)) (List.product [0..<6] [0..<3]))"
proof -
  have l: "length (List.product [0..<6] [0..<3]) = 18"
    by simp
  have names: "map (\<lambda>k. Idx2 ''Spike_'' (fst (List.product [0..<6] [0..<3] ! k))
                                       (snd (List.product [0..<6] [0..<3] ! k))) [0..<18] =
      map (\<lambda>q. Idx2 ''Spike_'' (fst q) (snd q)) (List.product [0..<6] [0..<3])"
    using map_nth_upt [of "\<lambda>q. Idx2 ''Spike_'' (fst q) (snd q)" "List.product [0..<6] [0..<3]"]
    unfolding l .
  obtain a' sel' where r: "create_edge_spikes \<lparr>objects = os, active = a, selected = sel, rng = gen, rng_pos = p\<rparr> =
      Inr (map (\<lambda>k. fresh_id os + k) [0..<18],
       \<lparr>objects = os @
          map (\<lambda>k. \<lparr>oid = fresh_id os + k,
                     oname = Idx2 ''Spike_'' (fst (List.product [0..<6] [0..<3] ! k))
                                            (snd (List.product [0..<6] [0..<3] ! k)),
                     geom = Primitive (Cone 6 0.1 0.0 0.4),
                     location =
                       (fst (projr (pull_inward (edge_point (edge_ends (fst (List.product [0..<6] [0..<3] ! k)))
                                                            (snd (List.product [0..<6] [0..<3] ! k))))),
                        snd (projr (pull_inward (edge_point (edge_ends (fst (List.product [0..<6] [0..<3] ! k)))
                                                            (snd (List.product [0..<6] [0..<3] ! k))))),
                        0.2),
                     rotation_euler = (0, 0, 0),
                     scale = (1, 1, 1), materials = [''spike''], modifiers = [], smooth = False,
                     parent = None\<rparr>) [0..<18],
        active = a', selected = sel', rng = gen, rng_pos = p\<rparr>)"
    using create_edge_spikes_result by blast
  show ?thesis
    unfolding r
    apply (intro exI conjI, rule refl)
    apply (simp only: added_def l length_map)
    apply (simp only: map_map comp_def obj.simps names is_mesh_def)
    apply (simp add: map_replicate_const)
    done
qed

lemma create_skulls_added:
  "\<exists>new a' sel'. create_skulls n \<lparr>objects = os, active = a, selected = sel, rng = gen, rng_pos = p\<rparr> =
      (map (\<lambda>k. fresh_id os + k) [0..<n],
       \<lparr>objects = os @ new, active = a', selected = sel', rng = gen, rng_pos = p + 2 * n\<rparr>) \<and>
      added os new (map (Idx ''Skull_'') [0..<n])"
proof -
  have names: "map (\<lambda>k. Idx ''Skull_'' ([0..<n] ! k)) [0..<n] = map (Idx ''Skull_'') [0..<n]"
    using map_nth_upt [of "Idx ''Skull_''" "[0..<n]"] by simp
  obtain a' sel' where r: "fold skull_step [0..<n] ([], \<lparr>objects = os, active = a, selected = sel, rng = gen, rng_pos = p\<rparr>) =
      ([] @ map (\<lambda>k. fresh_id os + k) [0..<length [0..<n]],
       \<lparr>objects = os @
          map (\<lambda>k. \<lparr>oid = fresh_id os + k, oname = Idx ''Skull_'' ([0..<n] ! k),
                     geom = Applied ((2.5 + (5.0 - 2.5) * gen (Suc (p + 2 * k))) * cos (0 + (2 * pi - 0) * gen (p + 2 * k)),
                                 (2.5 + (5.0 - 2.5) * gen (Suc (p + 2 * k))) * sin (0 + (2 * pi - 0) * gen (p + 2 * k)),
                                 0.05) (0, 0, 0) (1.0, 0.8, 0.85) (Primitive (IcoSphere 2 0.08)),
                     location = (0, 0, 0),
                     rotation_euler = (0, 0, 0),
                     scale = (1, 1, 1), materials = [''bone''], modifiers = [], smooth = False,
                     parent = None\<rparr>) [0..<length [0..<n]],
        active = a', selected = sel', rng = gen, rng_pos = p + 2 * length [0..<n]\<rparr>)"
    using skulls_loop by blast
  show ?thesis
    unfolding create_skulls_def r
    apply (simp only: length_upt diff_zero append_Nil)
    apply (intro exI conjI, rule refl)
    apply (simp only: added_def length_map length_upt diff_zero)
    apply (simp only: map_map comp_def obj.simps names is_mesh_def)
    apply (simp add: map_replicate_const)
    done
qed

lemma horns_loop:
  "\<exists>a' sel'. fold horn_step js (acc, \<lparr>objects = os, active = a, selected = sel, rng = gen, rng_pos = p\<rparr>) =
      (acc @ map (\<lambda>k. fresh_id os + k) [0..<length js],
       \<lparr>objects = os @
          map (\<lambda>k. \<lparr>oid = fresh_id os + k, oname = Idx ''Horn_'' (js ! k),
                     geom = Primitive (Cone 6 0.06 0.0 0.35),
                     location = (0.9 * cos (real (js ! k) * pi / 3 + pi / 6),
                                 0.9 * sin (real (js ! k) * pi / 3 + pi / 6), 0.55),
                     rotation_euler = (0.4 * sin (real (js ! k) * pi / 3 + pi / 6),
                                       - 0.4 * cos (real (js ! k) * pi / 3 + pi / 6), 0),
                     scale = (1, 1, 1), materials = [''spike''], modifiers = [], smooth = False,
                     parent = None\<rparr>) [0..<length js],
        active = a', selected = sel', rng = gen, rng_pos = p + 0 * length js\<rparr>)"
  using fold_one [where step = horn_step and d = 0
      and mk = "\<lambda>gen j h p. \<lparr>oid = h, oname = Idx ''Horn_'' j,
                     geom = Primitive (Cone 6 0.06 0.0 0.35),
                     location = (0.9 * cos (real j * pi / 3 + pi / 6),
                                 0.9 * sin (real j * pi / 3 + pi / 6), 0.55),
                     rotation_euler = (0.4 * sin (real j * pi / 3 + pi / 6),
                                       - 0.4 * cos (real j * pi / 3 + pi / 6), 0),
                     scale = (1, 1, 1), materials = [''spike''], modifiers = [], smooth = False,
                     parent = None\<rparr>" and js = js and acc = acc and os = os and a = a and sel = sel and gen = gen and p = p]
  by (simp add: horn_step_eval)

lemma create_demon_horns_added:
  "\<exists>new a' sel'. create_demon_horns \<lparr>objects = os, active = a, selected = sel, rng = gen, rng_pos = p\<rparr> =
      (map (\<lambda>k. fresh_id os + k) [0..<6],
       \<lparr>objects = os @ new, active = a', selected = sel', rng = gen, rng_pos = p\<rparr>) \<and>
      added os new (map (Idx ''Horn_'') [0..<6])"
proof -
  have names: "map (\<lambda>k. Idx ''Horn_'' ([0..<6] ! k)) [0..<6] = map (Idx ''Horn_'') [0..<6]"
    using map_nth_upt [of "Idx ''Horn_''" "[0..<6]"] by simp
  obtain a' sel' where r: "fold horn_step [0..<6] ([], \<lparr>objects = os, active = a, selected = sel, rng = gen, rng_pos = p\<rparr>) =
      ([] @ map (\<lambda>k. fresh_id os + k) [0..<length [0..<6]],
       \<lparr>objects = os @
          map (\<lambda>k. \<lparr>oid = fresh_id os + k, oname = Idx ''Horn_'' ([0..<6] ! k),
                     geom = Primitive (Cone 6 0.06 0.0 0.35),
                     location = (0.9 * cos (real ([0..<6] ! k) * pi / 3 + pi / 6),
                                 0.9 * sin (real ([0..<6] ! k) * pi / 3 + pi / 6), 0.55),
                     rotation_euler = (0.4 * sin (real ([0..<6] ! k) * pi / 3 + pi / 6),
                                       - 0.4 * cos (real ([0..<6] ! k) * pi / 3 + pi / 6), 0),
                     scale = (1, 1, 1), materials = [''spike''], modifiers = [], smooth = False,
                     parent = None\<rparr>) [0..<length [0..<6]],
        active = a', selected = sel', rng = gen, rng_pos = p + 0 * length [0..<6]\<rparr>)"
    using horns_loop by blast
  show ?thesis
    unfolding create_demon_horns_def r
    apply (simp only: length_upt diff_zero append_Nil mult_0 add_0_right)
    apply (intro exI conjI, rule refl)
    apply (simp only: added_def length_map length_upt diff_zero)
    apply (simp only: map_map comp_def obj.simps names is_mesh_def)
    apply (simp add: map_replicate_const)
    done
qed

text \<open>Smooth shading and parenting change neither handles, names nor geometry.\<close>

lemma map_upd_keeps:
  "(\<And>ob. g (f ob) = g ob) \<Longrightarrow> map g (map (\<lambda>ob. if c ob then f ob else ob) xs) = map g xs"
  by (induction xs) simp_all

lemma upd_fold_keeps:
  assumes "\<And>ob. g (f ob) = g ob"
  shows "map g (objects (fold (\<lambda>h. upd_obj h f) hs w)) = map g (objects w) \<and>
         rng (fold (\<lambda>h. upd_obj h f) hs w) = rng w \<and>
         rng_pos (fold (\<lambda>h. upd_obj h f) hs w) = rng_pos w"
proof (induction hs arbitrary: w)
  case Nil
  show ?case by simp
next
  case (Cons h hs)
  have k: "map g (map (\<lambda>o'. if oid o' = h then f o' else o') (objects w)) = map g (objects w)"
    by (rule map_upd_keeps) (rule assms)
  have "map g (objects (upd_obj h f w)) = map g (objects w) \<and>
        rng (upd_obj h f w) = rng w \<and> rng_pos (upd_obj h f w) = rng_pos w"
    by (simp add: upd_obj_def k del: map_map)
  thus ?case
    using Cons.IH [of "upd_obj h f w"] by simp
qed

lemma shade_fold_keeps:
  assumes "\<And>ob. g (ob\<lparr>smooth := True\<rparr>) = g ob"
  shows "map g (objects (fold shade_step obs w)) = map g (objects w) \<and>
         rng (fold shade_step obs w) = rng w \<and> rng_pos (fold shade_step obs w) = rng_pos w"
proof (induction obs arbitrary: w)
  case Nil
  show ?case by simp
next
  case (Cons ob obs)
  have k: "map g (objects (shade_smooth (set_active (oid ob) w))) = map g (objects (set_active (oid ob) w)) \<and>
         rng (shade_smooth (set_active (oid ob) w)) = rng (set_active (oid ob) w) \<and>
         rng_pos (shade_smooth (set_active (oid ob) w)) = rng_pos (set_active (oid ob) w)"
    unfolding shade_smooth_def
    by (rule upd_fold_keeps) (rule assms)
  have "map g (objects (shade_step ob w)) = map g (objects w) \<and>
        rng (shade_step ob w) = rng w \<and> rng_pos (shade_step ob w) = rng_pos w"
    using k by (cases "is_mesh ob") (simp_all add: shade_step_def set_active_def)
  thus ?case
    using Cons.IH [of "shade_step ob w"] by simp
qed

lemma parent_fold_keeps:
  assumes "\<And>ob. g (ob\<lparr>parent := Some rt\<rparr>) = g ob"
  shows "map g (objects (fold (parent_step rt) obs w)) = map g (objects w)"
proof (induction obs arbitrary: w)
  case Nil
  show ?case by simp
next
  case (Cons ob obs)
  have k: "map g (map (\<lambda>o'. if oid o' = oid ob then o'\<lparr>parent := Some rt\<rparr> else o') (objects w)) =
      map g (objects w)"
    by (rule map_upd_keeps) (rule assms)
  have "map g (objects (parent_step rt ob w)) = map g (objects w)"
    by (cases "oid ob \<noteq> rt \<and> parent ob = None")
       (simp_all add: parent_step_def upd_obj_def k del: map_map)
  thus ?case
    using Cons.IH [of "parent_step rt ob w"] by simp
qed

lemma root_named:
  "set_name (fresh_id os) n
     \<lparr>objects = os @ [new_obj (fresh_id os) g loc rot], active = a, selected = sel, rng = gen, rng_pos = p\<rparr> =
   \<lparr>objects = os @ [(new_obj (fresh_id os) g loc rot)\<lparr>oname := n\<rparr>], active = a, selected = sel, rng = gen,
    rng_pos = p\<rparr>"
  by (simp add: set_name_def ev_upd_obj new_obj_def)

lemma map_plus_upt: "map (\<lambda>k. c + k) [0..<n] = [c..<c + n]"
  by (induction n) simp_all

lemma pillar_names_length: "length (concat (map pillar_part_names js)) = 6 * length js"
  by (induction js) (simp_all add: pillar_part_names_def)

lemma create_pillar_parts:
  "length (fst (create_pillar host_verts x y i w)) = 6"
proof -
  have w: "\<lparr>objects = objects w, active = active w, selected = selected w, rng = rng w, rng_pos = rng_pos w\<rparr> = w"
    by simp
  show ?thesis
    using create_pillar_eval [of host_verts x y i "objects w" "active w" "selected w" "rng w" "rng_pos w"]
    unfolding w by simp
qed

text \<open>
  Claim C1.  The V5 script, whose module constants are the canonical parameters (platform
  radius 7, ring radii 5.5, 3.5 and 1.8, pillar height 3, six pillars, seed 42), returns
  normally from any start state.  The scene it leaves holds exactly 78 objects with the
  handles \<open>0, \<dots>, 77\<close>: one floor, three rings, six pillars of six parts each (36 objects),
  five altar parts, 18 edge spikes (three on each of the six edges), eight skulls and six
  horns, all of them meshes and named as listed, followed by the one root empty, which is
  not a mesh.  Every call of \<^verbatim>\<open>create_pillar\<close> returns six parts.
\<close>

theorem canonical_run_counts:
  "\<exists>b w. script_v5 mt host_verts w0 = Inr (b, w) \<and>
     g_floor b = 0 \<and> g_ring1 b = 1 \<and> g_ring2 b = 2 \<and> g_ring3 b = 3 \<and>
     g_pillars b = [4..<40] \<and> g_altar b = [40..<45] \<and> g_spikes b = [45..<63] \<and>
     g_skulls b = [63..<71] \<and> g_horns b = [71..<77] \<and> g_root b = 77 \<and>
     map oid (objects w) = [0..<78] \<and>
     map oname (objects w) =
       [Lit ''Floor'', Fix1 ''Ritual_Ring_'' 5.5, Fix1 ''Ritual_Ring_'' 3.5, Fix1 ''Ritual_Ring_'' 1.8] @
       concat (map pillar_part_names [0..<6]) @
       [Lit ''Altar_Base'', Lit ''Altar_Mid'', Lit ''Altar_Top'', Lit ''Fire_Pillar'', Lit ''Soul_Orb''] @
       map (\<lambda>q. Idx2 ''Spike_'' (fst q) (snd q)) (List.product [0..<6] [0..<3]) @
       map (Idx ''Skull_'') [0..<8] @
       map (Idx ''Horn_'') [0..<6] @
       [Lit ''Boss_Platform_V5''] \<and>
     map is_mesh (objects w) = replicate 77 True @ [False] \<and>
     length (fst (create_pillar host_verts x y i w')) = 6"
proof -
  obtain n1 a1 sel1 where
    r1: "create_floor \<lparr>objects = [], active = None, selected = [], rng = mt 42, rng_pos = 0\<rparr> =
         (fresh_id [], \<lparr>objects = [] @ n1, active = a1, selected = sel1, rng = mt 42, rng_pos = 0\<rparr>)"
    and d1: "added [] n1 ([Lit ''Floor''])"
    using create_floor_added by blast
  define o1 where "o1 = [] @ n1"
  have c1: "added [] o1 ([Lit ''Floor''])"
    using d1 unfolding o1_def by simp
  have f1: "fresh_id o1 = 1"
    using added_fresh [OF c1] by (simp add: pillar_names_length del: upt_rec_numeral)
  have e1: "create_floor \<lparr>objects = [], active = None, selected = [], rng = mt 42, rng_pos = 0\<rparr> =
         (0, \<lparr>objects = o1, active = a1, selected = sel1, rng = mt 42, rng_pos = 0\<rparr>)"
    by (subst r1) (simp add: o1_def)
  obtain n2 a2 sel2 where
    r2: "create_ritual_ring 5.5 0.1 \<lparr>objects = o1, active = a1, selected = sel1, rng = mt 42, rng_pos = 0\<rparr> =
         (fresh_id o1, \<lparr>objects = o1 @ n2, active = a2, selected = sel2, rng = mt 42, rng_pos = 0\<rparr>)"
    and d2: "added o1 n2 ([Fix1 ''Ritual_Ring_'' 5.5])"
    using create_ritual_ring_added by blast
  define o2 where "o2 = o1 @ n2"
  have c2: "added [] o2 ([Lit ''Floor''] @ [Fix1 ''Ritual_Ring_'' 5.5])"
    unfolding o2_def
  proof (rule added_append [OF c1])
    show "added ([] @ o1) n2 ([Fix1 ''Ritual_Ring_'' 5.5])"
      using d2 by simp
  qed
  have f2: "fresh_id o2 = 2"
    using added_fresh [OF c2] by (simp add: pillar_names_length del: upt_rec_numeral)
  have e2: "create_ritual_ring 5.5 0.1 \<lparr>objects = o1, active = a1, selected = sel1, rng = mt 42, rng_pos = 0\<rparr> =
         (1, \<lparr>objects = o2, active = a2, selected = sel2, rng = mt 42, rng_pos = 0\<rparr>)"
    by (subst r2) (simp add: f1 o2_def)
  obtain n3 a3 sel3 where
    r3: "create_ritual_ring 3.5 0.08 \<lparr>objects = o2, active = a2, selected = sel2, rng = mt 42, rng_pos = 0\<rparr> =
         (fresh_id o2, \<lparr>objects = o2 @ n3, active = a3, selected = sel3, rng = mt 42, rng_pos = 0\<rparr>)"
    and d3: "added o2 n3 ([Fix1 ''Ritual_Ring_'' 3.5])"
    using create_ritual_ring_added by blast
  define o3 where "o3 = o2 @ n3"
  have c3: "added [] o3 (([Lit ''Floor''] @ [Fix1 ''Ritual_Ring_'' 5.5]) @ [Fix1 ''Ritual_Ring_'' 3.5])"
    unfolding o3_def
  proof (rule added_append [OF c2])
    show "added ([] @ o2) n3 ([Fix1 ''Ritual_Ring_'' 3.5])"
      using d3 by simp
  qed
  have f3: "fresh_id o3 = 3"
    using added_fresh [OF c3] by (simp add: pillar_names_length del: upt_rec_numeral)
  have e3: "create_ritual_ring 3.5 0.08 \<lparr>objects = o2, active = a2, selected = sel2, rng = mt 42, rng_pos = 0\<rparr> =
         (2, \<lparr>objects = o3, active = a3, selected = sel3, rng = mt 42, rng_pos = 0\<rparr>)"
    by (subst r3) (simp add: f2 o3_def)
  obtain n4 a4 sel4 where
    r4: "create_ritual_ring 1.8 0.06 \<lparr>objects = o3, active = a3, selected = sel3, rng = mt 42, rng_pos = 0\<rparr> =
         (fresh_id o3, \<lparr>objects = o3 @ n4, active = a4, selected = sel4, rng = mt 42, rng_pos = 0\<rparr>)"
    and d4: "added o3 n4 ([Fix1 ''Ritual_Ring_'' 1.8])"
    using create_ritual_ring_added by blast
  define o4 where "o4 = o3 @ n4"
  have c4: "added [] o4 ((([Lit ''Floor''] @ [Fix1 ''Ritual_Ring_'' 5.5]) @ [Fix1 ''Ritual_Ring_'' 3.5]) @ [Fix1 ''Ritual_Ring_'' 1.8])"
    unfolding o4_def
  proof (rule added_append [OF c3])
    show "added ([] @ o3) n4 ([Fix1 ''Ritual_Ring_'' 1.8])"
      using d4 by simp
  qed
  have f4: "fresh_id o4 = 4"
    using added_fresh [OF c4] by (simp add: pillar_names_length del: upt_rec_numeral)
  have e4: "create_ritual_ring 1.8 0.06 \<lparr>objects = o3, active = a3, selected = sel3, rng = mt 42, rng_pos = 0\<rparr> =
         (3, \<lparr>objects = o4, active = a4, selected = sel4, rng = mt 42, rng_pos = 0\<rparr>)"
    by (subst r4) (simp add: f3 o4_def)
  obtain n5 a5 sel5 where
    r5: "fold (pillar_step host_verts) [0..<6] ([], \<lparr>objects = o4, active = a4, selected = sel4, rng = mt 42, rng_pos = 0\<rparr>) =
         ([] @ map (\<lambda>k. fresh_id o4 + k) [0..<6 * length [0..<6]], \<lparr>objects = o4 @ n5, active = a5, selected = sel5, rng = mt 42, rng_pos = 0\<rparr>)"
    and d5: "added o4 n5 (concat (map pillar_part_names [0..<6]))"
    using pillars_loop by blast
  define o5 where "o5 = o4 @ n5"
  have c5: "added [] o5 (((([Lit ''Floor''] @ [Fix1 ''Ritual_Ring_'' 5.5]) @ [Fix1 ''Ritual_Ring_'' 3.5]) @ [Fix1 ''Ritual_Ring_'' 1.8]) @ concat (map pillar_part_names [0..<6]))"
    unfolding o5_def
  proof (rule added_append [OF c4])
    show "added ([] @ o4) n5 (concat (map pillar_part_names [0..<6]))"
      using d5 by simp
  qed
  have f5: "fresh_id o5 = 40"
    using added_fresh [OF c5] by (simp add: pillar_names_length del: upt_rec_numeral)
  have e5: "fold (pillar_step host_verts) [0..<6] ([], \<lparr>objects = o4, active = a4, selected = sel4, rng = mt 42, rng_pos = 0\<rparr>) =
         (map (\<lambda>k. 4 + k) [0..<36], \<lparr>objects = o5, active = a5, selected = sel5, rng = mt 42, rng_pos = 0\<rparr>)"
    by (subst r5) (simp add: f4 o5_def)
  obtain n6 a6 sel6 where
    r6: "create_altar \<lparr>objects = o5, active = a5, selected = sel5, rng = mt 42, rng_pos = 0\<rparr> =
         (map (\<lambda>k. fresh_id o5 + k) [0..<5], \<lparr>objects = o5 @ n6, active = a6, selected = sel6, rng = mt 42, rng_pos = 0\<rparr>)"
    and d6: "added o5 n6 ([Lit ''Altar_Base'', Lit ''Altar_Mid'', Lit ''Altar_Top'', Lit ''Fire_Pillar'', Lit ''Soul_Orb''])"
    using create_altar_added by blast
  define o6 where "o6 = o5 @ n6"
  have c6: "added [] o6 ((((([Lit ''Floor''] @ [Fix1 ''Ritual_Ring_'' 5.5]) @ [Fix1 ''Ritual_Ring_'' 3.5]) @ [Fix1 ''Ritual_Ring_'' 1.8]) @ concat (map pillar_part_names [0..<6])) @ [Lit ''Altar_Base'', Lit ''Altar_Mid'', Lit ''Altar_Top'', Lit ''Fire_Pillar'', Lit ''Soul_Orb''])"
    unfolding o6_def
  proof (rule added_append [OF c5])
    show "added ([] @ o5) n6 ([Lit ''Altar_Base'', Lit ''Altar_Mid'', Lit ''Altar_Top'', Lit ''Fire_Pillar'', Lit ''Soul_Orb''])"
      using d6 by simp
  qed
  have f6: "fresh_id o6 = 45"
    using added_fresh [OF c6] by (simp add: pillar_names_length del: upt_rec_numeral)
  have e6: "create_altar \<lparr>objects = o5, active = a5, selected = sel5, rng = mt 42, rng_pos = 0\<rparr> =
         (map (\<lambda>k. 40 + k) [0..<5], \<lparr>objects = o6, active = a6, selected = sel6, rng = mt 42, rng_pos = 0\<rparr>)"
    by (subst r6) (simp add: f5 o6_def)
  obtain n7 a7 sel7 where
    r7: "create_edge_spikes \<lparr>objects = o6, active = a6, selected = sel6, rng = mt 42, rng_pos = 0\<rparr> =
         Inr (map (\<lambda>k. fresh_id o6 + k) [0..<18], \<lparr>objects = o6 @ n7, active = a7, selected = sel7, rng = mt 42, rng_pos = 0\<rparr>)"
    and d7: "added o6 n7 (map (\<lambda>q. Idx2 ''Spike_'' (fst q) (snd q)) (List.product [0..<6] [0..<3]))"
    using create_edge_spikes_added by blast
  define o7 where "o7 = o6 @ n7"
  have c7: "added [] o7 (((((([Lit ''Floor''] @ [Fix1 ''Ritual_Ring_'' 5.5]) @ [Fix1 ''Ritual_Ring_'' 3.5]) @ [Fix1 ''Ritual_Ring_'' 1.8]) @ concat (map pillar_part_names [0..<6])) @ [Lit ''Altar_Base'', Lit ''Altar_Mid'', Lit ''Altar_Top'', Lit ''Fire_Pillar'', Lit ''Soul_Orb'']) @ map (\<lambda>q. Idx2 ''Spike_'' (fst q) (snd q)) (List.product [0..<6] [0..<3]))"
    unfolding o7_def
  proof (rule added_append [OF c6])
    show "added ([] @ o6) n7 (map (\<lambda>q. Idx2 ''Spike_'' (fst q) (snd q)) (List.product [0..<6] [0..<3]))"
      using d7 by simp
  qed
  have f7: "fresh_id o7 = 63"
    using added_fresh [OF c7] by (simp add: pillar_names_length del: upt_rec_numeral)
  have e7: "create_edge_spikes \<lparr>objects = o6, active = a6, selected = sel6, rng = mt 42, rng_pos = 0\<rparr> =
         Inr (map (\<lambda>k. 45 + k) [0..<18], \<lparr>objects = o7, active = a7, selected = sel7, rng = mt 42, rng_pos = 0\<rparr>)"
    by (subst r7) (simp add: f6 o7_def)
  obtain n8 a8 sel8 where
    r8: "create_skulls 8 \<lparr>objects = o7, active = a7, selected = sel7, rng = mt 42, rng_pos = 0\<rparr> =
         (map (\<lambda>k. fresh_id o7 + k) [0..<8], \<lparr>objects = o7 @ n8, active = a8, selected = sel8, rng = mt 42, rng_pos = 0 + 2 * 8\<rparr>)"
    and d8: "added o7 n8 (map (Idx ''Skull_'') [0..<8])"
    using create_skulls_added by blast
  define o8 where "o8 = o7 @ n8"
  have c8: "added [] o8 ((((((([Lit ''Floor''] @ [Fix1 ''Ritual_Ring_'' 5.5]) @ [Fix1 ''Ritual_Ring_'' 3.5]) @ [Fix1 ''Ritual_Ring_'' 1.8]) @ concat (map pillar_part_names [0..<6])) @ [Lit ''Altar_Base'', Lit ''Altar_Mid'', Lit ''Altar_Top'', Lit ''Fire_Pillar'', Lit ''Soul_Orb'']) @ map (\<lambda>q. Idx2 ''Spike_'' (fst q) (snd q)) (List.product [0..<6] [0..<3])) @ map (Idx ''Skull_'') [0..<8])"
    unfolding o8_def
  proof (rule added_append [OF c7])
    show "added ([] @ o7) n8 (map (Idx ''Skull_'') [0..<8])"
      using d8 by simp
  qed
  have f8: "fresh_id o8 = 71"
    using added_fresh [OF c8] by (simp add: pillar_names_length del: upt_rec_numeral)
  have e8: "create_skulls 8 \<lparr>objects = o7, active = a7, selected = sel7, rng = mt 42, rng_pos = 0\<rparr> =
         (map (\<lambda>k. 63 + k) [0..<8], \<lparr>objects = o8, active = a8, selected = sel8, rng = mt 42, rng_pos = 16\<rparr>)"
    by (subst r8) (simp add: f7 o8_def)
  obtain n9 a9 sel9 where
    r9: "create_demon_horns \<lparr>objects = o8, active = a8, selected = sel8, rng = mt 42, rng_pos = 16\<rparr> =
         (map (\<lambda>k. fresh_id o8 + k) [0..<6], \<lparr>objects = o8 @ n9, active = a9, selected = sel9, rng = mt 42, rng_pos = 16\<rparr>)"
    and d9: "added o8 n9 (map (Idx ''Horn_'') [0..<6])"
    using create_demon_horns_added by blast
  define o9 where "o9 = o8 @ n9"
  have c9: "added [] o9 (((((((([Lit ''Floor''] @ [Fix1 ''Ritual_Ring_'' 5.5]) @ [Fix1 ''Ritual_Ring_'' 3.5]) @ [Fix1 ''Ritual_Ring_'' 1.8]) @ concat (map pillar_part_names [0..<6])) @ [Lit ''Altar_Base'', Lit ''Altar_Mid'', Lit ''Altar_Top'', Lit ''Fire_Pillar'', Lit ''Soul_Orb'']) @ map (\<lambda>q. Idx2 ''Spike_'' (fst q) (snd q)) (List.product [0..<6] [0..<3])) @ map (Idx ''Skull_'') [0..<8]) @ map (Idx ''Horn_'') [0..<6])"
    unfolding o9_def
  proof (rule added_append [OF c8])
    show "added ([] @ o8) n9 (map (Idx ''Horn_'') [0..<6])"
      using d9 by simp
  qed
  have f9: "fresh_id o9 = 77"
    using added_fresh [OF c9] by (simp add: pillar_names_length del: upt_rec_numeral)
  have e9: "create_demon_horns \<lparr>objects = o8, active = a8, selected = sel8, rng = mt 42, rng_pos = 16\<rparr> =
         (map (\<lambda>k. 71 + k) [0..<6], \<lparr>objects = o9, active = a9, selected = sel9, rng = mt 42, rng_pos = 16\<rparr>)"
    by (subst r9) (simp add: f8 o9_def)
  define W12 where "W12 = fold shade_step o9 \<lparr>objects = o9, active = a9, selected = sel9, rng = mt 42, rng_pos = 16\<rparr>"
  define o12 where "o12 = objects W12"
  have k12: "map oid o12 = map oid o9" "map oname o12 = map oname o9"
    "map is_mesh o12 = map is_mesh o9" "rng W12 = mt 42" "rng_pos W12 = 16"
    unfolding o12_def W12_def
    using shade_fold_keeps [of oid o9 "\<lparr>objects = o9, active = a9, selected = sel9, rng = mt 42, rng_pos = 16\<rparr>"]
      shade_fold_keeps [of oname o9 "\<lparr>objects = o9, active = a9, selected = sel9, rng = mt 42, rng_pos = 16\<rparr>"]
      shade_fold_keeps [of is_mesh o9 "\<lparr>objects = o9, active = a9, selected = sel9, rng = mt 42, rng_pos = 16\<rparr>"]
    by (simp_all add: is_mesh_def)
  have e12: "fold shade_step o9 \<lparr>objects = o9, active = a9, selected = sel9, rng = mt 42, rng_pos = 16\<rparr> =
      \<lparr>objects = o12, active = active W12, selected = selected W12, rng = mt 42, rng_pos = 16\<rparr>"
    using world_literal [of W12] k12(4,5) unfolding o12_def W12_def by simp
  have f12: "fresh_id o12 = 77"
    using f9 k12(1) by (simp add: fresh_id_oids)
  define R where "R = (new_obj (fresh_id o12) PlainAxes (0, 0, 0) (0, 0, 0))\<lparr>oname := Lit ''Boss_Platform_V5''\<rparr>"
  define W14 where "W14 = \<lparr>objects = o12 @ [R], active = Some (fresh_id o12), selected = [fresh_id o12], rng = mt 42, rng_pos = 16\<rparr>"
  define B where "B = \<lparr>g_floor = 0, g_ring1 = 1, g_ring2 = 2, g_ring3 = 3,
      g_pillars = map (\<lambda>k. 4 + k) [0..<36], g_altar = map (\<lambda>k. 40 + k) [0..<5],
      g_spikes = map (\<lambda>k. 45 + k) [0..<18], g_skulls = map (\<lambda>k. 63 + k) [0..<8],
      g_horns = map (\<lambda>k. 71 + k) [0..<6], g_root = fresh_id o12\<rparr>"
  have run: "script_v5 mt host_verts w0 = Inr (B, fold (parent_step (fresh_id o12)) (o12 @ [R]) W14)"
    unfolding script_v5_def B_def W14_def R_def
    by (simp only: Let_def seed_cleanup e1 e2 e3 e4 e5 e6 e7 e8 e9 e12 prod.case sum.case
          world.select_convs empty_add_eval root_named)
  define w where "w = fold (parent_step (fresh_id o12)) (o12 @ [R]) W14"
  have keep: "map oid (objects w) = map oid (o12 @ [R])"
    "map oname (objects w) = map oname (o12 @ [R])"
    "map is_mesh (objects w) = map is_mesh (o12 @ [R])"
    unfolding w_def
    using parent_fold_keeps [of oid "fresh_id o12" "o12 @ [R]" W14]
      parent_fold_keeps [of oname "fresh_id o12" "o12 @ [R]" W14]
      parent_fold_keeps [of is_mesh "fresh_id o12" "o12 @ [R]" W14]
    by (simp_all add: is_mesh_def W14_def)
  have l9: "length (((((((([Lit ''Floor''] @ [Fix1 ''Ritual_Ring_'' 5.5]) @ [Fix1 ''Ritual_Ring_'' 3.5]) @ [Fix1 ''Ritual_Ring_'' 1.8]) @ concat (map pillar_part_names [0..<6])) @ [Lit ''Altar_Base'', Lit ''Altar_Mid'', Lit ''Altar_Top'', Lit ''Fire_Pillar'', Lit ''Soul_Orb'']) @ map (\<lambda>q. Idx2 ''Spike_'' (fst q) (snd q)) (List.product [0..<6] [0..<3])) @ map (Idx ''Skull_'') [0..<8]) @ map (Idx ''Horn_'') [0..<6]) = 77"
    by (simp add: pillar_names_length del: upt_rec_numeral)
  have s9: "map oid o9 = map (\<lambda>k. 0 + k) [0..<77]"
    "map oname o9 = ((((((([Lit ''Floor''] @ [Fix1 ''Ritual_Ring_'' 5.5]) @ [Fix1 ''Ritual_Ring_'' 3.5]) @ [Fix1 ''Ritual_Ring_'' 1.8]) @ concat (map pillar_part_names [0..<6])) @ [Lit ''Altar_Base'', Lit ''Altar_Mid'', Lit ''Altar_Top'', Lit ''Fire_Pillar'', Lit ''Soul_Orb'']) @ map (\<lambda>q. Idx2 ''Spike_'' (fst q) (snd q)) (List.product [0..<6] [0..<3])) @ map (Idx ''Skull_'') [0..<8]) @ map (Idx ''Horn_'') [0..<6]"
    "map is_mesh o9 = replicate 77 True"
    using c9 unfolding added_def l9 fresh_id_Nil by blast+
  have R: "oid R = 77" "oname R = Lit ''Boss_Platform_V5''" "is_mesh R = False"
    by (simp_all add: R_def new_obj_def is_mesh_def f12)
  have "[0..<Suc 77] = [0..<77] @ [77::nat]"
    by (rule upt_Suc_append) simp
  moreover have "Suc 77 = (78::nat)"
    by simp
  ultimately have u78: "[0..<77] @ [77] = [0..<78::nat]"
    by metis
  have ids: "map oid (objects w) = [0..<78]"
    unfolding keep
    using map_plus_upt [of 0 77] by (simp add: k12 s9 R u78)
  have nms: "map oname (objects w) =
       [Lit ''Floor'', Fix1 ''Ritual_Ring_'' 5.5, Fix1 ''Ritual_Ring_'' 3.5, Fix1 ''Ritual_Ring_'' 1.8] @
       concat (map pillar_part_names [0..<6]) @
       [Lit ''Altar_Base'', Lit ''Altar_Mid'', Lit ''Altar_Top'', Lit ''Fire_Pillar'', Lit ''Soul_Orb''] @
       map (\<lambda>q. Idx2 ''Spike_'' (fst q) (snd q)) (List.product [0..<6] [0..<3]) @
       map (Idx ''Skull_'') [0..<8] @
       map (Idx ''Horn_'') [0..<6] @
       [Lit ''Boss_Platform_V5'']"
    unfolding keep by (simp add: k12 s9 R)
  have msh: "map is_mesh (objects w) = replicate 77 True @ [False]"
    unfolding keep by (simp add: k12 s9 R)
  have b: "g_floor B = 0" "g_ring1 B = 1" "g_ring2 B = 2" "g_ring3 B = 3"
    "g_pillars B = [4..<40]" "g_altar B = [40..<45]" "g_spikes B = [45..<63]"
    "g_skulls B = [63..<71]" "g_horns B = [71..<77]" "g_root B = 77"
    using map_plus_upt [of 4 36] map_plus_upt [of 40 5] map_plus_upt [of 45 18]
      map_plus_upt [of 63 8] map_plus_upt [of 71 6]
    by (simp_all add: B_def f12)
  have "script_v5 mt host_verts w0 = Inr (B, w)"
    using run unfolding w_def .
  thus ?thesis
    using b ids nms msh create_pillar_parts [of host_verts x y i w'] by blast
qed

end
